theory Spec2Isabelle
  imports Complex_Main
begin

section \<open>Errors and numbers\<close>

text \<open>
  Every exception the modelled Python can raise is a value. \<open>RuntimeError\<close> stands for
  the shape errors of the tensor library (\<open>bmm\<close>, \<open>cat\<close>, \<open>expand\<close>, \<open>split\<close>).
  \<open>NotARealNumber\<close> is not an exception of the program: where tensors are modelled with
  real entries, it marks a result that has a NaN or an infinite entry (a division by zero).
\<close>

datatype error =
    ValueError
  | AssertionError
  | NameError
  | AttributeError
  | RuntimeError
  | ZeroDivisionError
  | IndexError
  | NotARealNumber

text \<open>
  Entries of the embedding tensors of the convolution layers. The special values of the
  floating-point format are kept (\<open>NaN\<close>, the two infinities), because the layers test
  for NaN; finite values are computed exactly (no rounding, no overflow, one zero).
\<close>

datatype fl = Fin real | PInf | NInf | NaN

definition inf_times :: "bool \<Rightarrow> real \<Rightarrow> fl" where
  "inf_times pos a = (if a = 0 then NaN else if (0 < a) = pos then PInf else NInf)"

fun fl_add :: "fl \<Rightarrow> fl \<Rightarrow> fl" where
  "fl_add (Fin a) (Fin b) = Fin (a + b)"
| "fl_add (Fin a) PInf = PInf"
| "fl_add (Fin a) NInf = NInf"
| "fl_add PInf (Fin b) = PInf"
| "fl_add PInf PInf = PInf"
| "fl_add PInf NInf = NaN"
| "fl_add NInf (Fin b) = NInf"
| "fl_add NInf PInf = NaN"
| "fl_add NInf NInf = NInf"
| "fl_add NaN y = NaN"
| "fl_add x NaN = NaN"

fun fl_mul :: "fl \<Rightarrow> fl \<Rightarrow> fl" where
  "fl_mul (Fin a) (Fin b) = Fin (a * b)"
| "fl_mul (Fin a) PInf = inf_times True a"
| "fl_mul (Fin a) NInf = inf_times False a"
| "fl_mul PInf (Fin b) = inf_times True b"
| "fl_mul PInf PInf = PInf"
| "fl_mul PInf NInf = NInf"
| "fl_mul NInf (Fin b) = inf_times False b"
| "fl_mul NInf PInf = NInf"
| "fl_mul NInf NInf = PInf"
| "fl_mul NaN y = NaN"
| "fl_mul x NaN = NaN"

text \<open>Division of a float by a node count (used by the masked mean).\<close>

fun fl_div_nat :: "fl \<Rightarrow> nat \<Rightarrow> fl" where
  "fl_div_nat (Fin a) k = (if k = 0 then inf_times True a else Fin (a / real k))"
| "fl_div_nat PInf k = PInf"
| "fl_div_nat NInf k = NInf"
| "fl_div_nat NaN k = NaN"

text \<open>\<open>x != y\<close> on floats: a NaN differs from everything, itself included.\<close>

definition fl_ne :: "fl \<Rightarrow> fl \<Rightarrow> bool" where
  "fl_ne x y = (x = NaN \<or> y = NaN \<or> x \<noteq> y)"

text \<open>\<open>relu\<close>: the positive part; a NaN is passed through.\<close>

fun fl_relu :: "fl \<Rightarrow> fl" where
  "fl_relu (Fin a) = Fin (max a 0)"
| "fl_relu PInf = PInf"
| "fl_relu NInf = Fin 0"
| "fl_relu NaN = NaN"

section \<open>Tensors\<close>

text \<open>
  A matrix is the list of its rows, a three-dimensional tensor the list of its matrices
  along dimension 0 (the batch).
\<close>

type_synonym 'a matrix = "'a list list"
type_synonym 'a tensor3 = "'a list list list"

definition size0 :: "'a tensor3 \<Rightarrow> nat" where
  "size0 t = length t"

definition size1 :: "'a tensor3 \<Rightarrow> nat" where
  "size1 t = (case t of [] \<Rightarrow> 0 | m # _ \<Rightarrow> length m)"

definition size2 :: "'a tensor3 \<Rightarrow> nat" where
  "size2 t = (case t of (r # _) # _ \<Rightarrow> length r | _ \<Rightarrow> 0)"

text \<open>\<open>has_shape b r c t\<close>: \<open>t\<close> is a tensor of shape \<open>(b, r, c)\<close>.\<close>

definition has_shape :: "nat \<Rightarrow> nat \<Rightarrow> nat \<Rightarrow> 'a tensor3 \<Rightarrow> bool" where
  "has_shape b r c t =
     (length t = b \<and> list_all (\<lambda>m. length m = r \<and> list_all (\<lambda>row. length row = c) m) t)"

definition ncols :: "'a matrix \<Rightarrow> nat" where
  "ncols m = (case m of [] \<Rightarrow> 0 | r # _ \<Rightarrow> length r)"

definition column :: "nat \<Rightarrow> 'a matrix \<Rightarrow> 'a list" where
  "column j m = map (\<lambda>r. r ! j) m"

definition dot :: "fl list \<Rightarrow> fl list \<Rightarrow> fl" where
  "dot xs ys = foldl fl_add (Fin 0) (map2 fl_mul xs ys)"

definition mm :: "fl matrix \<Rightarrow> fl matrix \<Rightarrow> fl matrix" where
  "mm a b = map (\<lambda>row. map (\<lambda>j. dot row (column j b)) [0..<ncols b]) a"

text \<open>
  \<open>torch.bmm\<close>: batched matrix product; the batch sizes must agree, and in every batch
  element the rows of the left factor must be as long as the right factor has rows.
\<close>

definition bmm_ok :: "fl tensor3 \<Rightarrow> fl tensor3 \<Rightarrow> bool" where
  "bmm_ok x y =
     (length x = length y \<and>
      list_all (\<lambda>(a, b). list_all (\<lambda>row. length row = length b) a \<and>
                          list_all (\<lambda>row. length row = ncols b) b) (zip x y))"

definition bmm :: "fl tensor3 \<Rightarrow> fl tensor3 \<Rightarrow> error + fl tensor3" where
  "bmm x y = (if bmm_ok x y then Inr (map2 mm x y) else Inl RuntimeError)"

text \<open>
  \<open>Tensor.split(n, dim)\<close> cuts a dimension of size \<open>w\<close> into \<open>\<lceil>w / n\<rceil>\<close> consecutive
  pieces of size \<open>n\<close>, the last one possibly shorter.
\<close>

definition pieces :: "nat \<Rightarrow> nat \<Rightarrow> nat" where
  "pieces n w = (w + n - 1) div n"

definition slice :: "nat \<Rightarrow> nat \<Rightarrow> 'a list \<Rightarrow> 'a list" where
  "slice n k xs = take n (drop (k * n) xs)"

definition split1 :: "nat \<Rightarrow> 'a tensor3 \<Rightarrow> error + 'a tensor3 list" where
  "split1 n t =
     (if n = 0 then Inl RuntimeError
      else Inr (map (\<lambda>k. map (slice n k) t) [0..<pieces n (size1 t)]))"

definition split2 :: "nat \<Rightarrow> 'a tensor3 \<Rightarrow> error + 'a tensor3 list" where
  "split2 n t =
     (if n = 0 then Inl RuntimeError
      else Inr (map (\<lambda>k. map (map (slice n k)) t) [0..<pieces n (size2 t)]))"

text \<open>
  \<open>torch.cat(ts, 1)\<close> and \<open>torch.cat(ts, 2)\<close>: the tensors must agree on the other two
  dimensions.
\<close>

definition cat1 :: "'a tensor3 list \<Rightarrow> error + 'a tensor3" where
  "cat1 ts =
     (case ts of [] \<Rightarrow> Inl RuntimeError
      | t0 # _ \<Rightarrow>
          if list_all (\<lambda>t. length t = length t0 \<and>
                           list_all (list_all (\<lambda>row. length row = size2 t0)) t) ts
          then Inr (map (\<lambda>b. concat (map (\<lambda>t. t ! b) ts)) [0..<length t0])
          else Inl RuntimeError)"

definition cat2 :: "'a tensor3 list \<Rightarrow> error + 'a tensor3" where
  "cat2 ts =
     (case ts of [] \<Rightarrow> Inl RuntimeError
      | t0 # _ \<Rightarrow>
          if list_all (\<lambda>t. length t = length t0 \<and>
                           list_all (\<lambda>m. length m = size1 t0) t) ts
          then Inr (map (\<lambda>b. map (\<lambda>i. concat (map (\<lambda>t. t ! b ! i) ts)) [0..<size1 t0])
                        [0..<length t0])
          else Inl RuntimeError)"

section \<open>script/model/gnn/graphconv.py\<close>

text \<open>
  \<open>nn.Linear(in_features, out_features)\<close>: \<open>y = x W\<^sup>T + b\<close> on the last dimension of
  the input, which must have size \<open>in_features\<close>.
\<close>

record Linear =
  in_features :: nat
  out_features :: nat
  lin_weight :: "fl matrix"
  lin_bias :: "fl list"

definition Linear_init :: "nat \<Rightarrow> nat \<Rightarrow> (nat \<Rightarrow> nat \<Rightarrow> fl) \<Rightarrow> (nat \<Rightarrow> fl) \<Rightarrow> Linear" where
  "Linear_init n_in n_out w0 b0 =
     \<lparr>in_features = n_in, out_features = n_out,
      lin_weight = map (\<lambda>i. map (w0 i) [0..<n_in]) [0..<n_out],
      lin_bias = map b0 [0..<n_out]\<rparr>"

definition Linear_forward :: "Linear \<Rightarrow> fl tensor3 \<Rightarrow> error + fl tensor3" where
  "Linear_forward self x =
     (if list_all (list_all (\<lambda>row. length row = in_features self)) x
      then Inr (map (map (\<lambda>row. map2 (\<lambda>w b. fl_add (dot row w) b)
                                      (lin_weight self) (lin_bias self))) x)
      else Inl RuntimeError)"

text \<open>
  \<open>GraphOpConv\<close> of the \<open>gnn\<close> package. Its embeddings have shape
  \<open>(batch, nb_node, fmap)\<close>, its operators \<open>(batch, nb_node * nb_op, nb_node)\<close>. The
  computation of \<open>avg\<close> is a string literal in the source, so the name \<open>avg\<close> is unbound
  when the branch \<open>ops is None\<close> builds its tuple.
\<close>

record GraphOpConv_gnn =
  fc :: Linear

definition GraphOpConv_gnn_init ::
  "nat \<Rightarrow> nat \<Rightarrow> nat \<Rightarrow> (nat \<Rightarrow> nat \<Rightarrow> fl) \<Rightarrow> (nat \<Rightarrow> fl) \<Rightarrow> GraphOpConv_gnn" where
  "GraphOpConv_gnn_init in_fm out_fm nb_op w0 b0 =
     \<lparr>fc = Linear_init (in_fm * (nb_op + 1)) out_fm w0 b0\<rparr>"

definition GraphOpConv_gnn_forward ::
  "GraphOpConv_gnn \<Rightarrow> fl tensor3 option \<Rightarrow> fl tensor3 \<Rightarrow> nat list \<Rightarrow> fl tensor3
     \<Rightarrow> error + fl tensor3" where
  "GraphOpConv_gnn_forward self ops emb_in batch_nb_nodes adj_mask =
     (let nb_node = size1 emb_in in
      case ops of
        None \<Rightarrow> Inl NameError
      | Some ops \<Rightarrow>
          (case bmm ops emb_in of Inl e \<Rightarrow> Inl e
           | Inr spread \<Rightarrow>
             (case split1 nb_node spread of Inl e \<Rightarrow> Inl e
              | Inr spread \<Rightarrow>
                (case cat2 ([emb_in] @ spread) of Inl e \<Rightarrow> Inl e
                 | Inr spread \<Rightarrow> Linear_forward (fc self) spread))))"

section \<open>utils/tensor.py\<close>

text \<open>
  Modelled from the spec: \<open>utils.tensor.mean_with_padding\<close> is imported by both
  \<open>graphconv.py\<close> files and is not among the sources. The spec asks that the masked mean
  of graph \<open>i\<close> be the mean over its first \<open>batch_nb_nodes[i]\<close> nodes only; the result
  has one value per graph and feature map. The mask itself is not used.
\<close>

definition fl_sum :: "fl list \<Rightarrow> fl" where
  "fl_sum xs = foldl fl_add (Fin 0) xs"

definition mean_with_padding :: "fl tensor3 \<Rightarrow> nat list \<Rightarrow> fl tensor3 \<Rightarrow> fl matrix" where
  "mean_with_padding tensor batch_nb_nodes adj_mask =
     map2 (\<lambda>g k. map (\<lambda>row. fl_div_nat (fl_sum (take k row)) k) g) tensor batch_nb_nodes"

text \<open>
  The NaN test both \<open>ResGOpConv.forward\<close> write out, \<open>(t != t).data.sum() > 0\<close>: the
  number of entries that differ from themselves.
\<close>

definition nan_count :: "fl tensor3 \<Rightarrow> nat" where
  "nan_count t = length (filter (\<lambda>x. fl_ne x x) (concat (concat t)))"

text \<open>
  Modelled from the spec: \<open>utils.tensor.check_for_nan\<close> is not among the sources. The
  spec says that the NaN check after each sub-convolution asserts (aborts) if a NaN is
  detected; the message is only printed.
\<close>

definition check_for_nan :: "fl tensor3 \<Rightarrow> string \<Rightarrow> error + unit" where
  "check_for_nan tensor error_message =
     (if nan_count tensor > 0 then Inl AssertionError else Inr ())"

section \<open>script/model/graphconv.py\<close>

text \<open>
  \<open>join_operators\<close>: no operator gives \<open>None\<close>; otherwise the operators applied to
  \<open>adj\<close> are concatenated on dimension 2.
\<close>

definition join_operators ::
  "'a tensor3 \<Rightarrow> ('a tensor3 \<Rightarrow> 'a tensor3) list \<Rightarrow> error + 'a tensor3 option" where
  "join_operators adj operator_iter =
     (if operator_iter = [] then Inr None
      else case cat2 (map (\<lambda>operator. operator adj) operator_iter) of
             Inl e \<Rightarrow> Inl e | Inr ops \<Rightarrow> Inr (Some ops))"

text \<open>
  \<open>GraphOpConv\<close>: \<open>weight\<close> has shape \<open>(1, out_fm, in_fm * (nb_op + 2))\<close> and \<open>bias\<close>
  shape \<open>(1, out_fm, 1)\<close>; the dimensions of size 1 are left out. The constructor draws
  the entries at random; \<open>w0\<close> and \<open>b0\<close> are the values drawn. Embeddings have shape
  \<open>(batch, in_fm, nb_node)\<close>, operators \<open>(batch, nb_node, nb_node * nb_op)\<close>.
\<close>

record GraphOpConv =
  weight :: "fl matrix"
  bias :: "fl list"

definition GraphOpConv_init ::
  "nat \<Rightarrow> nat \<Rightarrow> nat \<Rightarrow> (nat \<Rightarrow> nat \<Rightarrow> fl) \<Rightarrow> (nat \<Rightarrow> fl) \<Rightarrow> GraphOpConv" where
  "GraphOpConv_init in_fm out_fm nb_op w0 b0 =
     \<lparr>weight = map (\<lambda>i. map (w0 i) [0..<in_fm * (nb_op + 2)]) [0..<out_fm],
      bias = map b0 [0..<out_fm]\<rparr>"

definition resized_params :: "GraphOpConv \<Rightarrow> nat \<Rightarrow> nat \<Rightarrow> fl tensor3 \<times> fl tensor3" where
  "resized_params self batch_size nb_node =
     (replicate batch_size (weight self),
      replicate batch_size (map (replicate nb_node) (bias self)))"

text \<open>In-place addition \<open>x += y\<close> of two tensors of the same shape.\<close>

definition tadd :: "fl tensor3 \<Rightarrow> fl tensor3 \<Rightarrow> error + fl tensor3" where
  "tadd x y =
     (if map (map length) x = map (map length) y
      then Inr (map2 (map2 (map2 fl_add)) x y) else Inl RuntimeError)"

definition GraphOpConv_forward ::
  "GraphOpConv \<Rightarrow> fl tensor3 option \<Rightarrow> fl tensor3 \<Rightarrow> nat list \<Rightarrow> fl tensor3
     \<Rightarrow> error + fl tensor3" where
  "GraphOpConv_forward self ops emb_in batch_nb_nodes adj_mask =
     (let batch_size = size0 emb_in;
          nb_node = size2 emb_in;
          avg = map (map (replicate nb_node))
                  (mean_with_padding emb_in batch_nb_nodes adj_mask)
      in case (case ops of
                 None \<Rightarrow> Inr [emb_in, avg]
               | Some ops \<Rightarrow>
                   (case bmm emb_in ops of Inl e \<Rightarrow> Inl e
                    | Inr spread \<Rightarrow>
                      (case split2 nb_node spread of Inl e \<Rightarrow> Inl e
                       | Inr spread \<Rightarrow> Inr ([emb_in, avg] @ spread)))) of
           Inl e \<Rightarrow> Inl e
         | Inr spread \<Rightarrow>
            (case cat1 spread of Inl e \<Rightarrow> Inl e
             | Inr spread \<Rightarrow>
               (case resized_params self batch_size nb_node of
                  (weight_b, bias_b) \<Rightarrow>
                    (case bmm weight_b spread of Inl e \<Rightarrow> Inl e
                     | Inr emb_out \<Rightarrow> tadd emb_out bias_b))))"

text \<open>
  The words of the specification, for comparison with \<open>GraphOpConv_forward\<close>:
  \<open>operator n k ops\<close> is the \<open>k\<close>-th operator stacked in \<open>ops\<close> (columns \<open>k * n\<close> to
  \<open>(k + 1) * n - 1\<close>), \<open>concat_fm\<close> concatenates channels on the feature maps, and
  \<open>affine\<close> is the affine transform \<open>out[g][o][j] = (\<Sum>c. w[o][c] * x[g][c][j]) + bs[o]\<close>.
\<close>

definition operator :: "nat \<Rightarrow> nat \<Rightarrow> fl tensor3 \<Rightarrow> fl tensor3" where
  "operator n k ops = map (map (slice n k)) ops"

definition concat_fm :: "nat \<Rightarrow> 'a tensor3 list \<Rightarrow> 'a tensor3" where
  "concat_fm b ts = map (\<lambda>i. concat (map (\<lambda>t. t ! i) ts)) [0..<b]"

definition affine :: "fl matrix \<Rightarrow> fl list \<Rightarrow> nat \<Rightarrow> fl tensor3 \<Rightarrow> fl tensor3" where
  "affine w bs n x =
     map (\<lambda>g. map2 (\<lambda>wrow b0. map (\<lambda>j. fl_add (dot wrow (column j g)) b0) [0..<n]) w bs) x"

text \<open>
  \<open>ResGOpConv\<close>: the constructor refuses an odd \<open>out_fm\<close>; \<open>int(out_fm / 2)\<close> is the
  exact half of an even count.
\<close>

record ResGOpConv =
  gconv_lin :: GraphOpConv
  gconv_nlin :: GraphOpConv

definition ResGOpConv_init ::
  "nat \<Rightarrow> nat \<Rightarrow> nat \<Rightarrow> (nat \<Rightarrow> nat \<Rightarrow> fl) \<Rightarrow> (nat \<Rightarrow> fl) \<Rightarrow> (nat \<Rightarrow> nat \<Rightarrow> fl) \<Rightarrow> (nat \<Rightarrow> fl)
     \<Rightarrow> error + ResGOpConv" where
  "ResGOpConv_init in_fm out_fm nb_op w1 b1 w2 b2 =
     (if out_fm mod 2 \<noteq> 0 then Inl ValueError
      else let half_out_fm = out_fm div 2
           in Inr \<lparr>gconv_lin = GraphOpConv_init in_fm half_out_fm nb_op w1 b1,
                   gconv_nlin = GraphOpConv_init in_fm half_out_fm nb_op w2 b2\<rparr>)"

definition relu :: "fl tensor3 \<Rightarrow> fl tensor3" where
  "relu t = map (map (map fl_relu)) t"

definition ResGOpConv_forward ::
  "ResGOpConv \<Rightarrow> fl tensor3 option \<Rightarrow> fl tensor3 \<Rightarrow> nat list \<Rightarrow> fl tensor3
     \<Rightarrow> error + fl tensor3" where
  "ResGOpConv_forward self ops emb_in batch_nb_nodes adj_mask =
     (case GraphOpConv_forward (gconv_lin self) ops emb_in batch_nb_nodes adj_mask of
        Inl e \<Rightarrow> Inl e
      | Inr lin \<Rightarrow>
     (case check_for_nan lin ''NAN in resgconv : linear'' of
        Inl e \<Rightarrow> Inl e
      | Inr _ \<Rightarrow>
     (case GraphOpConv_forward (gconv_nlin self) ops emb_in batch_nb_nodes adj_mask of
        Inl e \<Rightarrow> Inl e
      | Inr nlin \<Rightarrow>
     (case check_for_nan nlin ''NAN in resgconv : nlinear'' of
        Inl e \<Rightarrow> Inl e
      | Inr _ \<Rightarrow>
     (case cat1 [lin, relu nlin] of
        Inl e \<Rightarrow> Inl e
      | Inr emb_out \<Rightarrow>
          if nan_count emb_out > 0 then Inl AssertionError else Inr emb_out)))))"

text \<open>The same class in \<open>script/model/gnn/graphconv.py\<close>; it concatenates on dimension 2.\<close>

record ResGOpConv_gnn =
  gconv_lin_gnn :: GraphOpConv_gnn
  gconv_nlin_gnn :: GraphOpConv_gnn

definition ResGOpConv_gnn_init ::
  "nat \<Rightarrow> nat \<Rightarrow> nat \<Rightarrow> (nat \<Rightarrow> nat \<Rightarrow> fl) \<Rightarrow> (nat \<Rightarrow> fl) \<Rightarrow> (nat \<Rightarrow> nat \<Rightarrow> fl) \<Rightarrow> (nat \<Rightarrow> fl)
     \<Rightarrow> error + ResGOpConv_gnn" where
  "ResGOpConv_gnn_init in_fm out_fm nb_op w1 b1 w2 b2 =
     (if out_fm mod 2 \<noteq> 0 then Inl ValueError
      else let half_out_fm = out_fm div 2
           in Inr \<lparr>gconv_lin_gnn = GraphOpConv_gnn_init in_fm half_out_fm nb_op w1 b1,
                   gconv_nlin_gnn = GraphOpConv_gnn_init in_fm half_out_fm nb_op w2 b2\<rparr>)"

definition ResGOpConv_gnn_forward ::
  "ResGOpConv_gnn \<Rightarrow> fl tensor3 option \<Rightarrow> fl tensor3 \<Rightarrow> nat list \<Rightarrow> fl tensor3
     \<Rightarrow> error + fl tensor3" where
  "ResGOpConv_gnn_forward self ops emb_in batch_nb_nodes adj_mask =
     (case GraphOpConv_gnn_forward (gconv_lin_gnn self) ops emb_in batch_nb_nodes adj_mask of
        Inl e \<Rightarrow> Inl e
      | Inr lin \<Rightarrow>
     (case check_for_nan lin ''NAN in resgconv : linear'' of
        Inl e \<Rightarrow> Inl e
      | Inr _ \<Rightarrow>
     (case GraphOpConv_gnn_forward (gconv_nlin_gnn self) ops emb_in batch_nb_nodes adj_mask of
        Inl e \<Rightarrow> Inl e
      | Inr nlin \<Rightarrow>
     (case check_for_nan nlin ''NAN in resgconv : nlinear'' of
        Inl e \<Rightarrow> Inl e
      | Inr _ \<Rightarrow>
     (case cat2 [lin, relu nlin] of
        Inl e \<Rightarrow> Inl e
      | Inr emb_out \<Rightarrow>
          if nan_count emb_out > 0 then Inl AssertionError else Inr emb_out)))))"

text \<open>
  The \<open>k\<close>-th operator stacked in \<open>ops\<close> (rows \<open>k * n\<close> to \<open>(k + 1) * n - 1\<close> of every
  batch element), for comparison with what \<open>forward\<close> computes.
\<close>

definition operator_gnn :: "nat \<Rightarrow> nat \<Rightarrow> fl tensor3 \<Rightarrow> fl tensor3" where
  "operator_gnn n k ops = map (slice n k) ops"

section \<open>script/model/kernels/general.py\<close>

text \<open>
  The adjacency kernels are modelled on tensors of real numbers (exact arithmetic). The
  base class keeps the choice made by the constructor in \<open>layerwise\<close>: with
  \<open>layerwise\<close> the attribute \<open>save_adj\<close> is the function that does nothing and the
  attribute \<open>update\<close> is the bound \<open>forward\<close>; otherwise \<open>save_adj\<close> is \<open>_save_adj\<close> and
  \<open>update\<close> is the method of the class, which reads \<open>adj_matrix\<close>. The attribute
  \<open>adj_matrix\<close> does not exist before the first \<open>_save_adj\<close>. A call returns its result
  or error together with the object as the call leaves it.
\<close>

record Adj_Kernel =
  sparse :: "string option"
  layerwise :: bool
  adj_matrix :: "real tensor3 option"

definition Adj_Kernel_init :: "string option \<Rightarrow> bool \<Rightarrow> Adj_Kernel" where
  "Adj_Kernel_init sparse0 layerwise0 =
     \<lparr>sparse = sparse0, layerwise = layerwise0, adj_matrix = None\<rparr>"

definition save_adj :: "'a Adj_Kernel_scheme \<Rightarrow> real tensor3 \<Rightarrow> 'a Adj_Kernel_scheme" where
  "save_adj self adj_in = (if layerwise self then self else self\<lparr>adj_matrix := Some adj_in\<rparr>)"

definition Adj_Kernel_update ::
  "'a Adj_Kernel_scheme \<Rightarrow> (error + real tensor3) \<times> 'a Adj_Kernel_scheme" where
  "Adj_Kernel_update self =
     (case adj_matrix self of
        None \<Rightarrow> (Inl AttributeError, self)
      | Some adj \<Rightarrow> (Inr adj, self))"

text \<open>\<open>self.update(...)\<close>, where \<open>forward\<close> is the class's \<open>forward\<close> at the arguments of the call.\<close>

definition update ::
  "('a Adj_Kernel_scheme \<Rightarrow> (error + real tensor3) \<times> 'a Adj_Kernel_scheme)
     \<Rightarrow> 'a Adj_Kernel_scheme \<Rightarrow> (error + real tensor3) \<times> 'a Adj_Kernel_scheme" where
  "update forward self = (if layerwise self then forward self else Adj_Kernel_update self)"

definition rdot :: "real list \<Rightarrow> real list \<Rightarrow> real" where
  "rdot xs ys = sum_list (map2 (*) xs ys)"

text \<open>\<open>torch.cat(ms, 0)\<close> of matrices, \<open>torch.chunk(m, k, 0)\<close> and \<open>torch.stack(ms, 0)\<close>.\<close>

definition cat0 :: "'a matrix list \<Rightarrow> error + 'a matrix" where
  "cat0 ms =
     (case ms of [] \<Rightarrow> Inl RuntimeError
      | m0 # _ \<Rightarrow>
          if list_all (list_all (\<lambda>row. length row = ncols m0)) ms
          then Inr (concat ms) else Inl RuntimeError)"

definition chunk :: "'a list \<Rightarrow> nat \<Rightarrow> error + 'a list list" where
  "chunk xs chunks =
     (if chunks = 0 then Inl RuntimeError
      else let split_size = (length xs + chunks - 1) div chunks
           in if split_size = 0 then Inl RuntimeError
              else Inr (map (\<lambda>k. slice split_size k xs) [0..<pieces split_size (length xs)]))"

definition stack :: "'a matrix list \<Rightarrow> error + 'a tensor3" where
  "stack ms =
     (case ms of [] \<Rightarrow> Inl RuntimeError
      | m0 # _ \<Rightarrow>
          if list_all (\<lambda>m. map length m = map length m0) ms then Inr ms
          else Inl RuntimeError)"

text \<open>
  \<open>get_summed_weights\<close>: the column sums of a square matrix, minus its diagonal, divided
  by the number of nodes minus one. For a single node the quotient is \<open>0 / 0\<close>.
\<close>

definition get_summed_weights :: "real matrix \<Rightarrow> error + real list" where
  "get_summed_weights adj_in =
     (let sum_weights = map (\<lambda>j. sum_list (column j adj_in)) [0..<ncols adj_in];
          self_edges = map (\<lambda>i. adj_in ! i ! i) [0..<min (length adj_in) (ncols adj_in)]
      in if length sum_weights \<noteq> length self_edges then Inl RuntimeError
         else if int (length adj_in) - 1 = 0 then Inl NotARealNumber
         else Inr (map (\<lambda>s. s / real_of_int (int (length adj_in) - 1))
                     (map2 (-) sum_weights self_edges)))"

text \<open>
  Modelled from the spec: \<open>utils.tensor.sqdist_\<close> (here \<open>ts_sqdist\<close>) is not among the
  sources. The spec says that the Gaussian kernel computes the pairwise squared Euclidean
  distance between node embeddings; the embedding has shape \<open>(batch, fmap, nb_node)\<close>.
\<close>

definition ts_sqdist :: "real tensor3 \<Rightarrow> real tensor3" where
  "ts_sqdist emb =
     map (\<lambda>g. map (\<lambda>i. map (\<lambda>j. sum_list (map (\<lambda>row. (row ! i - row ! j)\<^sup>2) g))
                            [0..<ncols g]) [0..<ncols g]) emb"

definition gaussian :: "real tensor3 \<Rightarrow> real \<Rightarrow> real tensor3" where
  "gaussian sqd sigma0 = (let var = sigma0\<^sup>2 in map (map (map (\<lambda>d. exp (- d * var)))) sqd)"

text \<open>
  Modelled from the spec: \<open>utils.tensor.make_tensor_as\<close> and \<open>utils.tensor.variable_as\<close>,
  which \<open>_delete_diag\<close> calls to build its mask, are not among the sources, and
  \<open>_delete_diag\<close> itself writes nothing into the mask. The spec says that \<open>diag=False\<close>
  zeroes the diagonal: the mask of size \<open>(nb_node, nb_node)\<close> is taken to be set exactly
  on the diagonal.
\<close>

definition make_tensor_as :: "nat \<times> nat \<Rightarrow> bool matrix" where
  "make_tensor_as tensor_size =
     (case tensor_size of (r, c) \<Rightarrow> map (\<lambda>i. map (\<lambda>j. i = j) [0..<c]) [0..<r])"

text \<open>\<open>adj.masked_fill_(mask, v)\<close> for a mask that \<open>expand_as\<close> has repeated over the batch.\<close>

definition masked_fill :: "real tensor3 \<Rightarrow> bool matrix \<Rightarrow> real \<Rightarrow> real tensor3" where
  "masked_fill adj msk v = map (\<lambda>g. map2 (map2 (\<lambda>x m. if m then v else x)) g msk) adj"

definition delete_diag :: "real tensor3 \<Rightarrow> error + real tensor3" where
  "delete_diag adj =
     (let nb_node = size1 adj;
          diag_mask = make_tensor_as (nb_node, nb_node)
      in if list_all (\<lambda>g. length g = nb_node \<and> list_all (\<lambda>row. length row = nb_node) g) adj
         then Inr (masked_fill adj diag_mask 0)
         else Inl RuntimeError)"

text \<open>
  \<open>nn.Softmax()\<close> on a matrix: the softmax of every row. \<open>softmax_batch\<close> is the
  function \<open>_softmax\<close> of the source, \<open>delete_diag\<close> its \<open>_delete_diag\<close>.
\<close>

definition Softmax :: "real matrix \<Rightarrow> real matrix" where
  "Softmax m = map (\<lambda>row. map (\<lambda>x. exp x / sum_list (map exp row)) row) m"

definition softmax_batch :: "real tensor3 \<Rightarrow> (real matrix \<Rightarrow> real matrix) \<Rightarrow> error + real tensor3" where
  "softmax_batch dij softmax_fct =
     (let batch = size0 dij in
      case cat0 dij of Inl e \<Rightarrow> Inl e
      | Inr dij \<Rightarrow>
          (let dij = softmax_fct dij in
           case chunk dij batch of Inl e \<Rightarrow> Inl e
           | Inr dij \<Rightarrow> stack dij))"

text \<open>
  \<open>Gaussian\<close> and its subclass \<open>GaussianSoftmax\<close>. The field \<open>sqdist\<close> holds a function,
  as in the source; \<open>ts.sqdist_periodic_\<close> (here \<open>ts_sqdist_periodic\<close>) is not among the
  sources and is a parameter of the constructor here. \<open>sigma0\<close> is the value drawn for \<open>sigma\<close>. The inherited
  \<open>forward\<close> calls the \<open>_apply_norm\<close> of the object's class, which is the first argument
  of \<open>forward_Gaussian\<close>.
\<close>

record Gaussian = Adj_Kernel +
  sigma :: real
  diag :: bool
  sqdist :: "real tensor3 \<Rightarrow> real tensor3"

definition Gaussian_init ::
  "string option \<Rightarrow> bool \<Rightarrow> bool \<Rightarrow> bool \<Rightarrow> bool \<Rightarrow> real \<Rightarrow> (real tensor3 \<Rightarrow> real tensor3)
     \<Rightarrow> Gaussian" where
  "Gaussian_init sparse0 layerwise0 diag0 norm0 periodic sigma0 ts_sqdist_periodic =
     \<lparr>sparse = sparse0, layerwise = layerwise0, adj_matrix = None,
      sigma = sigma0, diag = diag0,
      sqdist = (if periodic then ts_sqdist_periodic else ts_sqdist)\<rparr>"

definition forward_Gaussian ::
  "(real tensor3 \<Rightarrow> error + real tensor3) \<Rightarrow> Gaussian \<Rightarrow> real tensor3
     \<Rightarrow> (error + real tensor3) \<times> Gaussian" where
  "forward_Gaussian apply_norm self emb =
     (let adj = gaussian (sqdist self emb) (sigma self) in
      case (if \<not> diag self then delete_diag adj else Inr adj) of
        Inl e \<Rightarrow> (Inl e, self)
      | Inr adj \<Rightarrow>
          (case apply_norm adj of
             Inl e \<Rightarrow> (Inl e, self)
           | Inr adj \<Rightarrow> (Inr adj, save_adj self adj)))"

definition Gaussian_forward :: "Gaussian \<Rightarrow> real tensor3 \<Rightarrow> (error + real tensor3) \<times> Gaussian" where
  "Gaussian_forward self emb = forward_Gaussian (\<lambda>adj. Inr adj) self emb"

definition GaussianSoftmax_forward ::
  "Gaussian \<Rightarrow> real tensor3 \<Rightarrow> (error + real tensor3) \<times> Gaussian" where
  "GaussianSoftmax_forward self emb = forward_Gaussian (\<lambda>adj. softmax_batch adj Softmax) self emb"

text \<open>
  \<open>DirectedGaussian\<close>. Its constructor calls \<open>Adj_Kernel.__init__\<close> without arguments and
  builds \<open>Gaussian(sigma)\<close>, whose constructor ignores positional arguments. \<open>forward\<close>
  calls \<open>self.gauss_ker(adj_in, emb_in)\<close>, and \<open>Gaussian.forward(emb, *args)\<close> takes its
  first argument as the embedding. A two-dimensional tensor expands to
  \<open>(batch, r, c)\<close> when each of its two sizes is the target size or 1. The sum of the two
  terms is taken for tensors of the same shape.
\<close>

record DirectedGaussian = Adj_Kernel +
  gauss_ker :: Gaussian
  theta :: real

definition DirectedGaussian_init ::
  "nat \<Rightarrow> real \<Rightarrow> real \<Rightarrow> real \<Rightarrow> (real tensor3 \<Rightarrow> real tensor3) \<Rightarrow> DirectedGaussian" where
  "DirectedGaussian_init fmaps0 theta0 sigma_arg sigma0 ts_sqdist_periodic =
     \<lparr>sparse = None, layerwise = False, adj_matrix = None,
      gauss_ker = Gaussian_init None False True False False sigma0 ts_sqdist_periodic,
      theta = theta0\<rparr>"

fun sum_weights_loop :: "real tensor3 \<Rightarrow> nat \<Rightarrow> error + real matrix list" where
  "sum_weights_loop adj_in 0 = Inr []"
| "sum_weights_loop adj_in (Suc i) =
     (case sum_weights_loop adj_in i of Inl e \<Rightarrow> Inl e
      | Inr sum_weights \<Rightarrow>
          (case adj_in of [] \<Rightarrow> Inl IndexError
           | adj0 # _ \<Rightarrow>
               (case get_summed_weights adj0 of Inl e \<Rightarrow> Inl e
                | Inr sw \<Rightarrow> Inr (sum_weights @ [[sw]]))))"

definition expand3 :: "'a matrix \<Rightarrow> nat \<Rightarrow> nat \<Rightarrow> nat \<Rightarrow> error + 'a tensor3" where
  "expand3 m batch r c =
     (if (length m = r \<or> length m = 1) \<and> (ncols m = c \<or> ncols m = 1)
      then Inr (replicate batch
                  (map (\<lambda>row. if ncols m = c then row else replicate c (hd row))
                       (if length m = r then m else replicate r (hd m))))
      else Inl RuntimeError)"

definition transpose12 :: "'a tensor3 \<Rightarrow> 'a tensor3" where
  "transpose12 t = map transpose t"

definition blend :: "real \<Rightarrow> real tensor3 \<Rightarrow> real tensor3 \<Rightarrow> error + real tensor3" where
  "blend th adj sum_weights =
     (if map (map length) adj = map (map length) sum_weights
      then Inr (map2 (map2 (map2 (\<lambda>a s. th * a + (1 - th) * s))) adj sum_weights)
      else Inl RuntimeError)"

definition DirectedGaussian_forward ::
  "DirectedGaussian \<Rightarrow> real tensor3 \<Rightarrow> real tensor3 \<Rightarrow> nat
     \<Rightarrow> (error + real tensor3) \<times> DirectedGaussian" where
  "DirectedGaussian_forward self adj_in emb_in idx =
     (let batch = size0 emb_in; nb_node = size2 emb_in in
      case sum_weights_loop adj_in batch of Inl e \<Rightarrow> (Inl e, self)
      | Inr sum_weights \<Rightarrow>
     (case cat0 sum_weights of Inl e \<Rightarrow> (Inl e, self)
      | Inr sum_weights \<Rightarrow>
     (case expand3 sum_weights batch nb_node nb_node of Inl e \<Rightarrow> (Inl e, self)
      | Inr sum_weights \<Rightarrow>
     (let sum_weights = transpose12 sum_weights in
      case Gaussian_forward (gauss_ker self) adj_in of
        (Inl e, ker) \<Rightarrow> (Inl e, self\<lparr>gauss_ker := ker\<rparr>)
      | (Inr adj, ker) \<Rightarrow>
          (blend (theta self) adj sum_weights, self\<lparr>gauss_ker := ker\<rparr>)))))"

text \<open>
  What the specification says of \<open>DirectedGaussian\<close>, for comparison: for every graph
  \<open>i\<close>, \<open>theta\<close> times the Gaussian kernel of the node embeddings of graph \<open>i\<close> plus
  \<open>1 - theta\<close> times the summed incoming weights of the previous adjacency matrix of graph
  \<open>i\<close>, constant along each row. The summed weights are 0 where they are not defined.
\<close>

definition DirectedGaussian_claimed ::
  "DirectedGaussian \<Rightarrow> real tensor3 \<Rightarrow> real tensor3 \<Rightarrow> real tensor3" where
  "DirectedGaussian_claimed self adj_in emb_in =
     map2 (\<lambda>g a. case get_summed_weights a of
                   Inl e \<Rightarrow> g
                 | Inr sw \<Rightarrow>
                     map2 (\<lambda>row s. map (\<lambda>x. theta self * x + (1 - theta self) * s) row) g sw)
          (gaussian (sqdist (gauss_ker self) emb_in) (sigma (gauss_ker self))) adj_in"

text \<open>
  \<open>MPNNdirected\<close>: \<open>emb_in.std()\<close> is the unbiased standard deviation of all entries
  (NaN for fewer than two entries). The loop fills column \<open>i\<close> of \<open>adj\<close> with
  \<open>bmm(v, coord[:, :, :, i]) + b\<close>. The constructor takes no \<open>layerwise\<close> argument. \<open>v0\<close>
  and \<open>b0\<close> are the values drawn. When the standard deviation is 0 all entries of the
  embedding are one value \<open>c\<close>, and the division gives an infinity of the sign of \<open>c\<close>
  (NaN if \<open>c = 0\<close>) everywhere: if the entries of \<open>v\<close> are all positive or all negative,
  every entry of \<open>adj\<close> is that infinity or its opposite and \<open>sigmoid\<close> maps it to 1 or
  0; otherwise a product \<open>0 * inf\<close> or a sum \<open>inf - inf\<close> makes the result NaN.
\<close>

record MPNNdirected = Adj_Kernel +
  fmaps :: nat
  mpnn_v :: "real list"
  mpnn_b :: real

definition MPNNdirected_init :: "nat \<Rightarrow> (nat \<Rightarrow> real) \<Rightarrow> real \<Rightarrow> MPNNdirected" where
  "MPNNdirected_init fmaps0 v0 b0 =
     \<lparr>sparse = None, layerwise = False, adj_matrix = None,
      fmaps = fmaps0, mpnn_v = map v0 [0..<fmaps0], mpnn_b = b0\<rparr>"

definition std :: "real tensor3 \<Rightarrow> error + real" where
  "std t =
     (let xs = concat (concat t); n = length xs; m = sum_list xs / real n
      in if n \<le> 1 then Inl NotARealNumber
         else Inr (sqrt (sum_list (map (\<lambda>x. (x - m)\<^sup>2) xs) / real (n - 1))))"

definition sigmoid :: "real \<Rightarrow> real" where
  "sigmoid x = 1 / (1 + exp (- x))"

fun mpnn_loop :: "real list \<Rightarrow> real \<Rightarrow> real tensor3 \<Rightarrow> real tensor3 \<Rightarrow> nat \<Rightarrow> real tensor3" where
  "mpnn_loop v b0 coord adj 0 = adj"
| "mpnn_loop v b0 coord adj (Suc i) =
     (let adj = mpnn_loop v b0 coord adj i
      in map2 (\<lambda>a g. map2 (\<lambda>row j. row[i := rdot v (map (\<lambda>f. f ! j + f ! i) g) + b0])
                           a [0..<length a])
              adj coord)"

definition MPNNdirected_forward ::
  "MPNNdirected \<Rightarrow> real tensor3 \<Rightarrow> real tensor3 \<Rightarrow> (error + real tensor3) \<times> MPNNdirected" where
  "MPNNdirected_forward self adj_in emb_in =
     (let batch = size0 emb_in; fmap = size1 emb_in; nb_node = size2 emb_in in
      if length (mpnn_v self) \<noteq> fmap \<and> length (mpnn_v self) \<noteq> 1
      then (Inl RuntimeError, self)
      else
        (let v = (if length (mpnn_v self) = fmap then mpnn_v self
                  else replicate fmap (hd (mpnn_v self)))
         in case std emb_in of Inl e \<Rightarrow> (Inl e, self)
            | Inr sd \<Rightarrow>
                if sd = 0
                then (let c = hd (concat (concat emb_in)) in
                      if c \<noteq> 0 \<and> (list_all (\<lambda>w. 0 < w) v \<or> list_all (\<lambda>w. w < 0) v)
                      then (Inr (replicate batch (replicate nb_node (replicate nb_node
                                   (if (0 < c) = list_all (\<lambda>w. 0 < w) v then 1 else 0)))),
                            self)
                      else (Inl NotARealNumber, self))
                else
                  (let coord = map (map (map (\<lambda>x. x / sd))) emb_in;
                       adj = replicate batch (replicate nb_node (replicate nb_node 0));
                       adj = mpnn_loop v (mpnn_b self) coord adj nb_node
                   in (Inr (map (map (map sigmoid)) adj), self))))"

section \<open>GraphNorm (script/model/graphconv.py)\<close>

text \<open>
  \<open>GraphNorm\<close> on float tensors of shape \<open>(batch, nb_fm, nb_node)\<close>. The operations of
  \<open>forward\<close> on the special values of the floating-point format: the difference, the
  quotient (a finite number divided by zero is infinite, \<open>0 / 0\<close> is NaN) and the
  square root (NaN below zero).
\<close>

fun fl_neg :: "fl \<Rightarrow> fl" where
  "fl_neg (Fin a) = Fin (- a)"
| "fl_neg PInf = NInf"
| "fl_neg NInf = PInf"
| "fl_neg NaN = NaN"

definition fl_sub :: "fl \<Rightarrow> fl \<Rightarrow> fl" where
  "fl_sub x y = fl_add x (fl_neg y)"

fun fl_div :: "fl \<Rightarrow> fl \<Rightarrow> fl" where
  "fl_div (Fin a) (Fin b) = (if b = 0 then inf_times True a else Fin (a / b))"
| "fl_div (Fin a) PInf = Fin 0"
| "fl_div (Fin a) NInf = Fin 0"
| "fl_div PInf (Fin b) = (if b < 0 then NInf else PInf)"
| "fl_div NInf (Fin b) = (if b < 0 then PInf else NInf)"
| "fl_div PInf PInf = NaN"
| "fl_div PInf NInf = NaN"
| "fl_div NInf PInf = NaN"
| "fl_div NInf NInf = NaN"
| "fl_div NaN y = NaN"
| "fl_div x NaN = NaN"

fun fl_sqrt :: "fl \<Rightarrow> fl" where
  "fl_sqrt (Fin a) = (if a < 0 then NaN else Fin (sqrt a))"
| "fl_sqrt PInf = PInf"
| "fl_sqrt NInf = NaN"
| "fl_sqrt NaN = NaN"

text \<open>
  \<open>t.mean(2)\<close> of a tensor of shape \<open>(batch, nb_fm, nb_node)\<close> is the tensor of shape
  \<open>(batch, nb_fm)\<close> of the means over the nodes: the reduced dimension is dropped
  (\<open>forward\<close> passes no \<open>keepdim\<close> and does not \<open>unsqueeze\<close> the result, as
  \<open>GraphOpConv.forward\<close> does for its masked mean). The mean of no value is \<open>0 / 0\<close>.
\<close>

definition mean2 :: "fl tensor3 \<Rightarrow> fl matrix" where
  "mean2 t = map (map (\<lambda>row. fl_div_nat (fl_sum row) (length row))) t"

text \<open>
  The layer: \<open>alpha\<close> and \<open>beta\<close> have shape \<open>(1, nb_fm, 1)\<close>; \<open>a0\<close> and \<open>b0\<close> are the
  values drawn; \<open>epsilon\<close> is a finite number.
\<close>

record GraphNorm =
  epsilon :: real
  alpha :: "fl list"
  beta :: "fl list"

definition GraphNorm_init :: "nat \<Rightarrow> real \<Rightarrow> (nat \<Rightarrow> fl) \<Rightarrow> (nat \<Rightarrow> fl) \<Rightarrow> GraphNorm" where
  "GraphNorm_init nb_fm epsilon0 a0 b0 =
     \<lparr>epsilon = epsilon0, alpha = map a0 [0..<nb_fm], beta = map b0 [0..<nb_fm]\<rparr>"

text \<open>
  \<open>emb_norm\<close> is the value of the variable of that name in \<open>forward\<close>, before \<open>alpha\<close>
  and \<open>beta\<close> are applied. \<open>avg\<close> and \<open>var\<close> have shape \<open>(batch, nb_fm)\<close>, and
  \<open>expand_as\<close> aligns these two dimensions with the last two of the embedding
  (\<open>expand3\<close>): it raises unless \<open>batch\<close> is 1 or \<open>nb_fm\<close>, and \<open>nb_fm\<close> is 1 or
  \<open>nb_node\<close>; when it returns, entry \<open>(g, j, k)\<close> of the expanded tensor is the entry
  \<open>(j, k)\<close> of \<open>avg\<close> (index 0 in a dimension of size 1). \<open>var == 0\<close> is 1 where the
  variance is zero and 0 elsewhere. The binary operations are taken on tensors of the
  same shape.
\<close>

definition emb_norm :: "GraphNorm \<Rightarrow> fl tensor3 \<Rightarrow> error + fl tensor3" where
  "emb_norm self emb =
     (let avg = mean2 emb in
      case expand3 avg (size0 emb) (size1 emb) (size2 emb) of Inl e \<Rightarrow> Inl e
      | Inr avg_expanded \<Rightarrow>
     (let emb_centered = map2 (map2 (map2 fl_sub)) emb avg_expanded;
          var = mean2 (map (map (map (\<lambda>x. fl_mul x x))) emb_centered);
          var_protect = map (map (\<lambda>v. if v = Fin 0 then Fin 1 else Fin 0)) var
      in case expand3 (map (map fl_sqrt) (map2 (map2 fl_add) var var_protect))
                (size0 emb_centered) (size1 emb_centered) (size2 emb_centered) of
           Inl e \<Rightarrow> Inl e
         | Inr sd_expanded \<Rightarrow>
             Inr (map2 (map2 (map2 (\<lambda>x d. fl_div x (fl_add d (Fin (epsilon self))))))
                    emb_centered sd_expanded)))"

definition GraphNorm_forward :: "GraphNorm \<Rightarrow> fl tensor3 \<Rightarrow> error + fl tensor3" where
  "GraphNorm_forward self emb =
     (case emb_norm self emb of Inl e \<Rightarrow> Inl e
      | Inr normed \<Rightarrow>
          if list_all (\<lambda>g. (length (alpha self) = length g \<or> length (alpha self) = 1) \<and>
                            (length (beta self) = length g \<or> length (beta self) = 1)) normed
          then Inr (map (\<lambda>g. map (\<lambda>j. map (\<lambda>x. fl_add
                                            (fl_mul x (if length (alpha self) = 1
                                                       then hd (alpha self) else alpha self ! j))
                                            (if length (beta self) = 1
                                             then hd (beta self) else beta self ! j))
                                        (g ! j))
                               [0..<length g])
                        normed)
          else Inl RuntimeError)"

text \<open>
  The mean and the mean-centred (population) variance of a list of real numbers, in which
  the statements about \<open>GraphNorm\<close> are made.
\<close>

definition mean_list :: "real list \<Rightarrow> real" where
  "mean_list xs = sum_list xs / real (length xs)"

definition variance :: "real list \<Rightarrow> real" where
  "variance xs = mean_list (map (\<lambda>x. (x - mean_list xs)\<^sup>2) xs)"

section \<open>Atlas_nyu/statistics.py\<close>

text \<open>
  \<open>Statistics\<close>. The two dictionaries indexed by the mode are functions of the mode; a
  buffer is a function of the key (all keys are set by \<open>_init_buffer\<close>). \<open>files\<close> gives,
  for a file name of \<open>statdir\<close>, the values appended to it so far (\<open>write_stat\<close> appends
  one value and a comma). \<open>utils.files.print_\<close> is not among the sources: \<open>printed\<close>
  collects the lines printed, each as the number of events and the statistics it
  shows. Outputs and labels are the lists of their entries.
\<close>

datatype mode = Train | Test

record Statistics =
  nbstep :: nat
  nbdisplay :: nat
  stats :: "string list"
  nb_batch_in_buffer :: "mode \<Rightarrow> nat"
  buffer :: "mode \<Rightarrow> string \<Rightarrow> real"
  steploss :: real
  steps :: nat
  nb_events_seen :: "mode \<Rightarrow> nat"
  files :: "string \<Rightarrow> real list"
  printed :: "(nat \<times> (string \<times> real) list) list"

definition init_buffer :: "Statistics \<Rightarrow> mode \<Rightarrow> Statistics" where
  "init_buffer self m =
     (let self = self\<lparr>nb_batch_in_buffer := (nb_batch_in_buffer self)(m := 0)\<rparr>;
          self = fold (\<lambda>stat self. self\<lparr>buffer := (buffer self)(m := (buffer self m)(stat := 0))\<rparr>)
                   (stats self) self;
          self = self\<lparr>buffer := (buffer self)(m := (buffer self m)(''nb_ones'' := 0))\<rparr>
      in self\<lparr>buffer := (buffer self)(m := (buffer self m)(''nb_zero'' := 0))\<rparr>)"

definition Statistics_init :: "nat \<Rightarrow> nat \<Rightarrow> Statistics" where
  "Statistics_init nbstep0 nbdisplay0 =
     init_buffer
       (init_buffer
          \<lparr>nbstep = nbstep0, nbdisplay = nbdisplay0,
           stats = [''loss'', ''kernel'', ''avg0'', ''avg1'', ''std0'', ''std1''],
           nb_batch_in_buffer = (\<lambda>m. 0), buffer = (\<lambda>m k. 0),
           steploss = 0, steps = 0, nb_events_seen = (\<lambda>m. 0),
           files = (\<lambda>f. []), printed = []\<rparr> Train) Test"

text \<open>\<open>sub in s\<close> on strings: \<open>sub\<close> occurs in \<open>s\<close>.\<close>

fun py_in :: "'a list \<Rightarrow> 'a list \<Rightarrow> bool" where
  "py_in sub [] = (sub = [])"
| "py_in sub (c # cs) = (take (length sub) (c # cs) = sub \<or> py_in sub cs)"

definition write_stat :: "Statistics \<Rightarrow> string \<Rightarrow> real \<Rightarrow> Statistics" where
  "write_stat self statname v =
     (let filename = statname @ ''.csv''
      in self\<lparr>files := (files self)(filename := files self filename @ [v])\<rparr>)"

definition set_buffer :: "Statistics \<Rightarrow> mode \<Rightarrow> string \<Rightarrow> real \<Rightarrow> Statistics" where
  "set_buffer self m k v = self\<lparr>buffer := (buffer self)(m := (buffer self m)(k := v))\<rparr>"

definition update_buffer :: "Statistics \<Rightarrow> mode \<Rightarrow> error + Statistics" where
  "update_buffer self m =
     (let self = self\<lparr>nb_batch_in_buffer := (nb_batch_in_buffer self)(m := nb_batch_in_buffer self m + 1)\<rparr>
      in if nb_batch_in_buffer self m \<ge> nbdisplay self then
           if nbdisplay self = 0 then Inl ZeroDivisionError
           else
             (let self = set_buffer self m ''loss'' (buffer self m ''loss'' / real (nbdisplay self));
                  self = set_buffer self m ''kernel'' (buffer self m ''kernel'' / real (nbdisplay self));
                  self = (if buffer self m ''nb_ones'' > 0 then
                            (let self = set_buffer self m ''avg1''
                                          (buffer self m ''avg1'' / buffer self m ''nb_ones'');
                                 var1 = buffer self m ''std1'' / buffer self m ''nb_ones'';
                                 var1 = var1 - (buffer self m ''avg1'')\<^sup>2;
                                 var1 = max 0 var1
                             in set_buffer self m ''std1'' (sqrt var1))
                          else self);
                  self = (if buffer self m ''nb_zero'' > 0 then
                            (let self = set_buffer self m ''avg0''
                                          (buffer self m ''avg0'' / buffer self m ''nb_zero'');
                                 var0 = buffer self m ''std0'' / buffer self m ''nb_zero'';
                                 var0 = var0 - (buffer self m ''avg0'')\<^sup>2;
                                 var0 = max 0 var0
                             in set_buffer self m ''std0'' (sqrt var0))
                          else self);
                  self = (if m = Train then
                            (let self = fold (\<lambda>stat self. write_stat self stat (buffer self m stat))
                                          (stats self) self
                             in self\<lparr>printed := printed self @
                                    [(nb_events_seen self m,
                                      map (\<lambda>stat. (stat, buffer self m stat)) (stats self))]\<rparr>)
                          else
                            self\<lparr>printed := printed self @
                                    [(nb_events_seen self m,
                                      map (\<lambda>stat. (stat, buffer self m stat))
                                        (filter (\<lambda>stat. \<not> py_in ''loss'' stat) (stats self)))]\<rparr>)
              in Inr (init_buffer self m))
         else Inr self)"

definition Statistics_update ::
  "Statistics \<Rightarrow> mode \<Rightarrow> real list \<Rightarrow> real list \<Rightarrow> real \<Rightarrow> real \<Rightarrow> error + Statistics" where
  "Statistics_update self m output labels loss_step kernel_std =
     (let self = self\<lparr>nb_events_seen := (nb_events_seen self)(m := nb_events_seen self m + length labels)\<rparr>
      in case (if m = Train then
                 (let self = self\<lparr>steploss := steploss self + loss_step, steps := steps self + 1\<rparr>
                  in if steps self \<ge> nbstep self then
                       if nbstep self = 0 then Inl ZeroDivisionError
                       else Inr ((write_stat self ''loss_step'' (loss_step / real (nbstep self)))
                                   \<lparr>steploss := 0, steps := 0\<rparr>)
                     else Inr self)
               else Inr self) of
           Inl e \<Rightarrow> Inl e
         | Inr self \<Rightarrow>
            (let nb_ones = sum_list labels;
                 output_ones = map2 (*) output labels;
                 output_avg_ones = sum_list output_ones;
                 output_sqr_ones = sum_list (map (\<lambda>x. x\<^sup>2) output_ones);
                 nb_zero = sum_list (map (\<lambda>l. 1 - l) labels);
                 output_zero = map2 (\<lambda>out l. out * (1 - l)) output labels;
                 output_avg_zero = sum_list output_zero;
                 output_sqr_zero = sum_list (map (\<lambda>x. x\<^sup>2) output_zero);
                 self = set_buffer self m ''loss'' (buffer self m ''loss'' + loss_step);
                 self = set_buffer self m ''kernel'' (buffer self m ''kernel'' + kernel_std);
                 self = set_buffer self m ''nb_ones'' (buffer self m ''nb_ones'' + nb_ones);
                 self = set_buffer self m ''avg1'' (buffer self m ''avg1'' + output_avg_ones);
                 self = set_buffer self m ''std1'' (buffer self m ''std1'' + output_sqr_ones);
                 self = set_buffer self m ''nb_zero'' (buffer self m ''nb_zero'' + nb_zero);
                 self = set_buffer self m ''avg0'' (buffer self m ''avg0'' + output_avg_zero);
                 self = set_buffer self m ''std0'' (buffer self m ''std0'' + output_sqr_zero)
             in update_buffer self m))"

text \<open>
  The value \<open>_update_buffer\<close> leaves in the buffer of a statistic when the window is
  complete, for comparison: loss and kernel are divided by the window size; with positive
  labels \<open>avg1\<close> is divided by their number and \<open>std1\<close> becomes the square root of the
  variance floored at zero; likewise \<open>avg0\<close> and \<open>std0\<close> with the negative labels.
\<close>

definition normalized :: "Statistics \<Rightarrow> mode \<Rightarrow> string \<Rightarrow> real" where
  "normalized self m stat =
     (let buf = buffer self m in
      if stat = ''loss'' \<or> stat = ''kernel'' then buf stat / real (nbdisplay self)
      else if stat = ''avg1'' \<and> buf ''nb_ones'' > 0 then buf ''avg1'' / buf ''nb_ones''
      else if stat = ''std1'' \<and> buf ''nb_ones'' > 0
        then sqrt (max 0 (buf ''std1'' / buf ''nb_ones'' - (buf ''avg1'' / buf ''nb_ones'')\<^sup>2))
      else if stat = ''avg0'' \<and> buf ''nb_zero'' > 0 then buf ''avg0'' / buf ''nb_zero''
      else if stat = ''std0'' \<and> buf ''nb_zero'' > 0
        then sqrt (max 0 (buf ''std0'' / buf ''nb_zero'' - (buf ''avg0'' / buf ''nb_zero'')\<^sup>2))
      else buf stat)"

section \<open>Shapes of the tensor operations\<close>

lemma has_shapeD:
  assumes "has_shape b r c t"
  shows "length t = b" "\<And>m. m \<in> set t \<Longrightarrow> length m = r"
    "\<And>m row. m \<in> set t \<Longrightarrow> row \<in> set m \<Longrightarrow> length row = c"
  using assms by (auto simp: has_shape_def list_all_iff)

lemma has_shapeI:
  assumes "length t = b" "\<And>m. m \<in> set t \<Longrightarrow> length m = r"
    "\<And>m row. m \<in> set t \<Longrightarrow> row \<in> set m \<Longrightarrow> length row = c"
  shows "has_shape b r c t"
  using assms by (auto simp: has_shape_def list_all_iff)

lemma size1_shape: "has_shape b r c t \<Longrightarrow> 0 < b \<Longrightarrow> size1 t = r"
  by (cases t) (auto simp: has_shape_def size1_def)

lemma size2_shape: "has_shape b r c t \<Longrightarrow> 0 < b \<Longrightarrow> 0 < r \<Longrightarrow> size2 t = c"
  by (cases t; cases "hd t") (auto simp: has_shape_def size2_def)

lemma ncols_shape: "m \<noteq> [] \<Longrightarrow> \<forall>row\<in>set m. length row = c \<Longrightarrow> ncols m = c"
  by (cases m) (auto simp: ncols_def)

lemma pieces_mult: "0 < n \<Longrightarrow> pieces n (n * p) = p"
proof -
  assume n: "0 < n"
  then obtain m where m: "n = Suc m" by (cases n) auto
  have eq: "n * p + n - 1 = m + p * n" by (simp add: m algebra_simps)
  have "pieces n (n * p) = (m + p * n) div n" by (simp only: pieces_def eq)
  also have "\<dots> = p + m div n" using n by (simp only: div_mult_self1)
  also have "\<dots> = p" by (simp add: m)
  finally show ?thesis .
qed

lemma length_slice: "k < p \<Longrightarrow> length xs = n * p \<Longrightarrow> length (slice n k xs) = n"
proof -
  assume k: "k < p" and l: "length xs = n * p"
  have "n * Suc k \<le> n * p" using k by (intro mult_le_mono2) simp
  then have "n \<le> n * p - k * n" by (simp add: algebra_simps)
  then show ?thesis by (simp add: slice_def l)
qed

lemma sum_list_const_nat:
  "\<forall>x\<in>set xs. g x = (c::nat) \<Longrightarrow> sum_list (map g xs) = c * length xs"
  by (induction xs) auto

lemma bmm_shaped:
  assumes x: "has_shape b r c x" and y: "has_shape b c d y" and c: "0 < c"
  shows "bmm x y = Inr (map2 mm x y)"
proof -
  have "bmm_ok x y"
    unfolding bmm_ok_def list_all_iff
  proof (intro conjI ballI)
    show "length x = length y" using has_shapeD(1)[OF x] has_shapeD(1)[OF y] by simp
  next
    fix p assume p: "p \<in> set (zip x y)"
    obtain a m where pm: "p = (a, m)" by (cases p)
    have a: "a \<in> set x" and m: "m \<in> set y"
      using p pm by (auto dest: set_zip_leftD set_zip_rightD)
    have lm: "length m = c" using has_shapeD(2)[OF y m] .
    have "ncols m = d" using lm c has_shapeD(3)[OF y m] by (intro ncols_shape) auto
    then show "case p of (a, b) \<Rightarrow>
        (\<forall>row\<in>set a. length row = length b) \<and> (\<forall>row\<in>set b. length row = ncols b)"
      using pm lm has_shapeD(3)[OF x a] has_shapeD(3)[OF y m] by simp
  qed
  then show ?thesis by (simp add: bmm_def)
qed

lemma map2_mm_shape:
  assumes x: "has_shape b r c x" and y: "has_shape b c d y" and c: "0 < c"
  shows "has_shape b r d (map2 mm x y)"
proof (rule has_shapeI)
  show "length (map2 mm x y) = b" using has_shapeD(1)[OF x] has_shapeD(1)[OF y] by simp
next
  fix m assume "m \<in> set (map2 mm x y)"
  then obtain a where "a \<in> set x" "length m = length a"
    by (auto simp: mm_def dest: set_zip_leftD)
  then show "length m = r" using has_shapeD(2)[OF x] by simp
next
  fix m row assume m: "m \<in> set (map2 mm x y)" and row: "row \<in> set m"
  from m obtain a e where ae: "(a, e) \<in> set (zip x y)" "m = mm a e" by auto
  have e: "e \<in> set y" "length row = ncols e"
    using ae row by (auto simp: mm_def dest: set_zip_rightD)
  have "e \<noteq> []" using has_shapeD(2)[OF y e(1)] c by auto
  then have "ncols e = d" using has_shapeD(3)[OF y e(1)] by (intro ncols_shape) auto
  then show "length row = d" using e by simp
qed

lemma bmm_slice:
  "map (slice n k) (map2 mm x y) = map2 mm (map (slice n k) x) y"
proof (induction x arbitrary: y)
  case Nil then show ?case by simp
next
  case (Cons a x) then show ?case
    by (cases y) (simp_all add: mm_def slice_def take_map drop_map)
qed

lemma cat2_shaped:
  assumes ts: "ts \<noteq> []" and sh: "\<forall>t\<in>set ts. has_shape b n f t" and b: "0 < b"
  shows "\<exists>s. cat2 ts = Inr s \<and> has_shape b n (f * length ts) s"
proof -
  obtain t0 rest where t0: "ts = t0 # rest" using ts by (cases ts) auto
  have s1: "size1 t0 = n" using sh b t0 by (auto intro: size1_shape)
  have l0: "length t0 = b" using sh t0 by (auto dest: has_shapeD(1))
  have ok: "list_all (\<lambda>t. length t = length t0 \<and> list_all (\<lambda>m. length m = size1 t0) t) ts"
    unfolding list_all_iff s1 l0 using sh by (auto dest: has_shapeD)
  let ?s = "map (\<lambda>bi. map (\<lambda>i. concat (map (\<lambda>t. t ! bi ! i) ts)) [0..<n]) [0..<b]"
  have c: "cat2 ts = Inr ?s" using ok by (simp add: cat2_def t0 s1 l0)
  have "length (concat (map (\<lambda>t. t ! bi ! i) ts)) = f * length ts" if "bi < b" "i < n" for bi i
  proof -
    have "\<And>t. t \<in> set ts \<Longrightarrow> length (t ! bi ! i) = f"
    proof -
      fix t assume t: "t \<in> set ts"
      then have h: "has_shape b n f t" using sh by blast
      have "t ! bi \<in> set t" using that has_shapeD(1)[OF h] by simp
      moreover from this have "t ! bi ! i \<in> set (t ! bi)" using that has_shapeD(2)[OF h] by simp
      ultimately show "length (t ! bi ! i) = f" using has_shapeD(3)[OF h] by blast
    qed
    then show ?thesis by (simp add: length_concat comp_def sum_list_const_nat)
  qed
  then have "has_shape b n (f * length ts) ?s"
    by (simp add: has_shape_def list_all_iff)
  with c show ?thesis by blast
qed

section \<open>The gnn variant of GraphOpConv has no average channel\<close>

lemma operator_gnn_shape:
  assumes o: "has_shape b (n * p) n ops" and k: "k < p"
  shows "has_shape b n n (operator_gnn n k ops)"
proof (rule has_shapeI)
  show "length (operator_gnn n k ops) = b" using has_shapeD(1)[OF o] by (simp add: operator_gnn_def)
next
  fix m assume "m \<in> set (operator_gnn n k ops)"
  then obtain a where a: "a \<in> set ops" "m = slice n k a" by (auto simp: operator_gnn_def)
  then show "length m = n" using length_slice[OF k, of a n] has_shapeD(2)[OF o] by simp
next
  fix m row assume "m \<in> set (operator_gnn n k ops)" "row \<in> set m"
  then obtain a where a: "a \<in> set ops" "row \<in> set a"
    by (auto simp: operator_gnn_def slice_def dest: in_set_takeD in_set_dropD)
  then show "length row = n" using has_shapeD(3)[OF o] by simp
qed

lemma Linear_forward_shaped:
  assumes "has_shape b n (in_features l) x"
  shows "Linear_forward l x =
     Inr (map (map (\<lambda>row. map2 (\<lambda>w b. fl_add (dot row w) b) (lin_weight l) (lin_bias l))) x)"
  using assms by (auto simp: Linear_forward_def has_shape_def list_all_iff)

lemma Linear_forward_rows:
  assumes "Linear_forward (Linear_init n_in n_out w0 b0) x = Inr y"
  shows "list_all (list_all (\<lambda>row. length row = n_out)) y"
  using assms
  by (auto simp: Linear_forward_def Linear_init_def list_all_iff split: if_splits)

lemma GraphOpConv_gnn_forward_blocks:
  assumes e: "has_shape b n f emb_in" and o: "has_shape b (n * nb_op) n ops"
    and b: "0 < b" and n: "0 < n"
  shows "GraphOpConv_gnn_forward self (Some ops) emb_in batch_nb_nodes adj_mask =
     (case cat2 (emb_in # map (\<lambda>k. map2 mm (operator_gnn n k ops) emb_in) [0..<nb_op]) of
        Inl e \<Rightarrow> Inl e | Inr spread \<Rightarrow> Linear_forward (fc self) spread)"
proof -
  have n1: "size1 emb_in = n" using size1_shape[OF e b] .
  have 1: "bmm ops emb_in = Inr (map2 mm ops emb_in)" using bmm_shaped[OF o e n] .
  have 2: "size1 (map2 mm ops emb_in) = n * nb_op"
    using size1_shape[OF map2_mm_shape[OF o e n] b] .
  have 3: "split1 n (map2 mm ops emb_in) =
      Inr (map (\<lambda>k. map2 mm (operator_gnn n k ops) emb_in) [0..<nb_op])"
  proof -
    have "split1 n (map2 mm ops emb_in) =
        Inr (map (\<lambda>k. map (slice n k) (map2 mm ops emb_in)) [0..<nb_op])"
      using n by (simp only: split1_def 2 pieces_mult) simp
    then show ?thesis by (simp only: bmm_slice operator_gnn_def)
  qed
  show ?thesis by (simp add: GraphOpConv_gnn_forward_def n1 1 3)
qed

lemma GraphOpConv_gnn_forward_returns:
  assumes e: "has_shape b n in_fm emb_in" and o: "has_shape b (n * nb_op) n ops"
    and b: "0 < b" and n: "0 < n"
  shows "\<exists>out. GraphOpConv_gnn_forward (GraphOpConv_gnn_init in_fm out_fm nb_op w0 b0)
            (Some ops) emb_in batch_nb_nodes adj_mask = Inr out"
proof -
  let ?ts = "emb_in # map (\<lambda>k. map2 mm (operator_gnn n k ops) emb_in) [0..<nb_op]"
  have "\<forall>t\<in>set ?ts. has_shape b n in_fm t"
    using e map2_mm_shape[OF operator_gnn_shape[OF o] e n] by auto
  then obtain s where s: "cat2 ?ts = Inr s" "has_shape b n (in_fm * length ?ts) s"
    using cat2_shaped[of ?ts b n in_fm] b by blast
  have "has_shape b n (in_features (Linear_init (in_fm * (nb_op + 1)) out_fm w0 b0)) s"
    using s(2) by (simp add: Linear_init_def)
  from Linear_forward_shaped[OF this] show ?thesis
    by (simp add: GraphOpConv_gnn_forward_blocks[OF e o b n] s(1) GraphOpConv_gnn_init_def)
qed

text \<open>
  Claim C9. In the \<open>GraphOpConv\<close> of \<open>script/model/gnn/graphconv.py\<close> the average
  channel is never computed. With \<open>ops = None\<close> the call fails on the unbound name
  \<open>avg\<close>. With operators, the result does not depend on \<open>batch_nb_nodes\<close> and
  \<open>adj_mask\<close> (the inputs of the masked mean); on an embedding of shape \<open>(b, n, f)\<close> and
  operators of shape \<open>(b, n * nb_op, n)\<close> it is the linear layer applied to the
  concatenation, per node, of the embedding itself and of one product
  \<open>operator k \<times> embedding\<close> per operator, and a layer built for \<open>f\<close> input feature maps
  and \<open>nb_op\<close> operators (a linear layer of input width \<open>f * (nb_op + 1)\<close>) returns.
\<close>

theorem GraphOpConv_gnn_forward_no_average:
  "GraphOpConv_gnn_forward self None emb_in batch_nb_nodes adj_mask = Inl NameError \<and>
   GraphOpConv_gnn_forward self (Some ops) emb_in batch_nb_nodes adj_mask =
     GraphOpConv_gnn_forward self (Some ops) emb_in batch_nb_nodes' adj_mask' \<and>
   (has_shape b n f emb_in \<and> has_shape b (n * nb_op) n ops \<and> 0 < b \<and> 0 < n \<longrightarrow>
      GraphOpConv_gnn_forward self (Some ops) emb_in batch_nb_nodes adj_mask =
        (case cat2 (emb_in # map (\<lambda>k. map2 mm (operator_gnn n k ops) emb_in) [0..<nb_op]) of
           Inl e \<Rightarrow> Inl e | Inr spread \<Rightarrow> Linear_forward (fc self) spread) \<and>
      (\<exists>out. GraphOpConv_gnn_forward (GraphOpConv_gnn_init f out_fm nb_op w0 b0)
                (Some ops) emb_in batch_nb_nodes adj_mask = Inr out))"
proof (intro conjI impI)
  show "GraphOpConv_gnn_forward self None emb_in batch_nb_nodes adj_mask = Inl NameError"
    by (simp add: GraphOpConv_gnn_forward_def)
next
  show "GraphOpConv_gnn_forward self (Some ops) emb_in batch_nb_nodes adj_mask =
     GraphOpConv_gnn_forward self (Some ops) emb_in batch_nb_nodes' adj_mask'"
    by (simp add: GraphOpConv_gnn_forward_def)
next
  assume h: "has_shape b n f emb_in \<and> has_shape b (n * nb_op) n ops \<and> 0 < b \<and> 0 < n"
  then show "GraphOpConv_gnn_forward self (Some ops) emb_in batch_nb_nodes adj_mask =
        (case cat2 (emb_in # map (\<lambda>k. map2 mm (operator_gnn n k ops) emb_in) [0..<nb_op]) of
           Inl e \<Rightarrow> Inl e | Inr spread \<Rightarrow> Linear_forward (fc self) spread)"
    using GraphOpConv_gnn_forward_blocks by blast
next
  assume h: "has_shape b n f emb_in \<and> has_shape b (n * nb_op) n ops \<and> 0 < b \<and> 0 < n"
  then show "\<exists>out. GraphOpConv_gnn_forward (GraphOpConv_gnn_init f out_fm nb_op w0 b0)
                (Some ops) emb_in batch_nb_nodes adj_mask = Inr out"
    using GraphOpConv_gnn_forward_returns by blast
qed

text \<open>
  The theorem at a graph of two nodes with one feature map and the operator that swaps
  the two nodes; the layer sums its two inputs.
\<close>

theorem GraphOpConv_gnn_forward_no_average_witness:
  "has_shape 1 2 1 [[[Fin 1], [Fin 2]]] \<and>
   has_shape 1 (2 * 1) 2 [[[Fin 0, Fin 1], [Fin 1, Fin 0]]] \<and>
   GraphOpConv_gnn_forward (GraphOpConv_gnn_init 1 1 1 (\<lambda>i j. Fin 1) (\<lambda>i. Fin 0))
       (Some [[[Fin 0, Fin 1], [Fin 1, Fin 0]]]) [[[Fin 1], [Fin 2]]] [2] [] =
     (case cat2 ([[[Fin 1], [Fin 2]]] #
            map (\<lambda>k. map2 mm (operator_gnn 2 k [[[Fin 0, Fin 1], [Fin 1, Fin 0]]])
                         [[[Fin 1], [Fin 2]]]) [0..<1]) of
        Inl e \<Rightarrow> Inl e
      | Inr spread \<Rightarrow>
          Linear_forward (fc (GraphOpConv_gnn_init 1 1 1 (\<lambda>i j. Fin 1) (\<lambda>i. Fin 0))) spread) \<and>
   (\<exists>out. GraphOpConv_gnn_forward (GraphOpConv_gnn_init 1 1 1 (\<lambda>i j. Fin 1) (\<lambda>i. Fin 0))
       (Some [[[Fin 0, Fin 1], [Fin 1, Fin 0]]]) [[[Fin 1], [Fin 2]]] [2] [] = Inr out)"
proof -
  have h: "has_shape 1 2 1 [[[Fin 1], [Fin 2]]] \<and>
      has_shape 1 (2 * 1) 2 [[[Fin 0, Fin 1], [Fin 1, Fin 0]]] \<and> (0::nat) < 1 \<and> (0::nat) < 2"
    by (simp add: has_shape_def)
  show ?thesis
    using h GraphOpConv_gnn_forward_no_average
      [where self = "GraphOpConv_gnn_init 1 1 1 (\<lambda>i j. Fin 1) (\<lambda>i. Fin 0)"
         and emb_in = "[[[Fin 1], [Fin 2]]]" and batch_nb_nodes = "[2]" and adj_mask = "[]"
         and ops = "[[[Fin 0, Fin 1], [Fin 1, Fin 0]]]" and b = 1 and n = 2 and f = 1
         and nb_op = 1 and out_fm = 1 and ?w0.0 = "\<lambda>i j. Fin 1" and ?b0.0 = "\<lambda>i. Fin 0"]
    by blast
qed

section \<open>GraphOpConv is an affine transform of concatenated channels\<close>

lemma slice_map_upt:
  assumes "k < p"
  shows "slice n k (map f [0..<n * p]) = map (\<lambda>j. f (k * n + j)) [0..<n]"
proof -
  have le: "k * n + n \<le> n * p"
  proof -
    have "n * Suc k \<le> n * p" using assms by (intro mult_le_mono2) simp
    then show ?thesis by (simp add: algebra_simps)
  qed
  have "take n (drop (k * n) [0..<n * p]) = [k * n..<k * n + n]"
    using le by (simp add: take_upt)
  also have "\<dots> = map (\<lambda>j. k * n + j) [0..<n]"
    using map_add_upt[of "k * n" n] by (simp add: add.commute)
  finally have t: "take n (drop (k * n) [0..<n * p]) = map (\<lambda>j. k * n + j) [0..<n]" .
  have "slice n k (map f [0..<n * p]) = map f (take n (drop (k * n) [0..<n * p]))"
    by (simp add: slice_def take_map drop_map)
  also have "\<dots> = map f (map (\<lambda>j. k * n + j) [0..<n])" by (simp only: t)
  finally show ?thesis by (simp add: comp_def)
qed

lemma mm_operator:
  assumes B: "B \<noteq> []" "\<forall>r\<in>set B. length r = n * p" and k: "k < p"
  shows "map (slice n k) (mm a B) = mm a (map (slice n k) B)"
proof -
  have nc: "ncols B = n * p" using B by (intro ncols_shape) auto
  have nc': "ncols (map (slice n k) B) = n"
    using B length_slice[OF k] by (intro ncols_shape) auto
  have le: "k * n \<le> n * p"
  proof -
    have "n * k \<le> n * p" using k by (intro mult_le_mono2) simp
    then show ?thesis by (simp add: algebra_simps)
  qed
  have col: "column j (map (slice n k) B) = column (k * n + j) B" if "j < n" for j
    using that B(2) le by (auto simp: column_def slice_def)
  show ?thesis
    by (simp add: mm_def nc nc' slice_map_upt[OF k] col)
qed


lemma operator_blocks:
  assumes o: "has_shape b n (n * p) ops" and n: "0 < n" and k: "k < p"
  shows "map (map (slice n k)) (map2 mm emb ops) = map2 mm emb (operator n k ops)"
proof -
  have "map (map (slice n k)) (map2 mm emb ops) =
        map (\<lambda>(a, B). map (slice n k) (mm a B)) (zip emb ops)"
    by (simp add: split_def)
  also have "\<dots> = map (\<lambda>(a, B). mm a (map (slice n k) B)) (zip emb ops)"
  proof (rule map_cong[OF refl])
    fix x assume x: "x \<in> set (zip emb ops)"
    obtain a B where ab: "x = (a, B)" by (cases x)
    have B: "B \<in> set ops" using x ab by (auto dest: set_zip_rightD)
    have "B \<noteq> []" using has_shapeD(2)[OF o B] n by auto
    moreover have "\<forall>r\<in>set B. length r = n * p" using has_shapeD(3)[OF o B] by blast
    ultimately show "(case x of (a, B) \<Rightarrow> map (slice n k) (mm a B)) =
        (case x of (a, B) \<Rightarrow> mm a (map (slice n k) B))"
      using mm_operator[OF _ _ k] ab by simp
  qed
  also have "\<dots> = map2 mm emb (operator n k ops)"
    by (simp add: operator_def zip_map2 split_def)
  finally show ?thesis .
qed

lemma operator_shape:
  assumes o: "has_shape b n (n * p) ops" and k: "k < p"
  shows "has_shape b n n (operator n k ops)"
proof (rule has_shapeI)
  show "length (operator n k ops) = b" using has_shapeD(1)[OF o] by (simp add: operator_def)
next
  fix m assume "m \<in> set (operator n k ops)"
  then obtain a where a: "a \<in> set ops" "length m = length a" by (auto simp: operator_def)
  then show "length m = n" using has_shapeD(2)[OF o] by simp
next
  fix m row assume "m \<in> set (operator n k ops)" "row \<in> set m"
  then obtain a r where a: "a \<in> set ops" "r \<in> set a" "row = slice n k r"
    by (auto simp: operator_def)
  then show "length row = n" using length_slice[OF k, of r n] has_shapeD(3)[OF o] by simp
qed

lemma avg_shape:
  assumes e: "has_shape b f n emb_in" and l: "length batch_nb_nodes = b"
  shows "has_shape b f m (map (map (replicate m)) (mean_with_padding emb_in batch_nb_nodes adj_mask))"
proof (rule has_shapeI)
  show "length (map (map (replicate m)) (mean_with_padding emb_in batch_nb_nodes adj_mask)) = b"
    using has_shapeD(1)[OF e] l by (simp add: mean_with_padding_def)
next
  fix g assume "g \<in> set (map (map (replicate m)) (mean_with_padding emb_in batch_nb_nodes adj_mask))"
  then obtain a where "a \<in> set emb_in" "length g = length a"
    by (auto simp: mean_with_padding_def dest: set_zip_leftD)
  then show "length g = f" using has_shapeD(2)[OF e] by simp
next
  fix g row assume "g \<in> set (map (map (replicate m)) (mean_with_padding emb_in batch_nb_nodes adj_mask))"
    "row \<in> set g"
  then show "length row = m" by (auto simp: mean_with_padding_def)
qed

lemma cat1_shaped:
  assumes ts: "ts \<noteq> []" and sh: "\<forall>t\<in>set ts. has_shape b r n t"
  shows "cat1 ts = Inr (concat_fm b ts)" "has_shape b (r * length ts) n (concat_fm b ts)"
proof -
  obtain t0 rest where t0: "ts = t0 # rest" using ts by (cases ts) auto
  have l0: "length t0 = b" using sh t0 by (auto dest: has_shapeD(1))
  have rows: "\<And>t m row. t \<in> set ts \<Longrightarrow> m \<in> set t \<Longrightarrow> row \<in> set m \<Longrightarrow> length row = size2 t0"
  proof -
    fix t m row assume t: "t \<in> set ts" and m: "m \<in> set t" and row: "row \<in> set m"
    have h: "has_shape b r n t" using sh t by blast
    have "0 < b" using has_shapeD(1)[OF h] m by (cases t) auto
    moreover have "0 < r" using has_shapeD(2)[OF h m] row by (cases m) auto
    moreover have "has_shape b r n t0" using sh t0 by simp
    ultimately have "size2 t0 = n" by (intro size2_shape)
    then show "length row = size2 t0" using has_shapeD(3)[OF h m row] by simp
  qed
  have ok: "list_all (\<lambda>t. length t = length t0 \<and>
               list_all (list_all (\<lambda>row. length row = size2 t0)) t) ts"
    unfolding list_all_iff l0 using sh rows by (auto dest: has_shapeD(1))
  show "cat1 ts = Inr (concat_fm b ts)" using ok by (simp add: cat1_def t0 l0 concat_fm_def)
  show "has_shape b (r * length ts) n (concat_fm b ts)"
  proof (rule has_shapeI)
    show "length (concat_fm b ts) = b" by (simp add: concat_fm_def)
  next
    fix m assume "m \<in> set (concat_fm b ts)"
    then obtain i where i: "i < b" "m = concat (map (\<lambda>t. t ! i) ts)"
      by (auto simp: concat_fm_def)
    have "\<forall>t\<in>set ts. length (t ! i) = r"
      using sh i(1) by (metis has_shapeD(1) has_shapeD(2) nth_mem)
    then show "length m = r * length ts"
      by (simp add: i(2) length_concat comp_def sum_list_const_nat)
  next
    fix m row assume "m \<in> set (concat_fm b ts)" "row \<in> set m"
    then obtain i t where i: "i < b" "t \<in> set ts" "row \<in> set (t ! i)"
      by (auto simp: concat_fm_def)
    then show "length row = n"
      using sh by (metis has_shapeD(1) has_shapeD(3) nth_mem)
  qed
qed

lemma map_length_shape:
  assumes "has_shape b r c x"
  shows "map (map length) x = replicate b (replicate r c)"
proof (rule replicate_eqI)
  show "length (map (map length) x) = b" using has_shapeD(1)[OF assms] by simp
next
  fix y assume "y \<in> set (map (map length) x)"
  then obtain m where m: "m \<in> set x" "y = map length m" by auto
  show "y = replicate r c"
    unfolding m(2)
    by (rule replicate_eqI) (use has_shapeD(2,3)[OF assms m(1)] in auto)
qed

lemma map2_replicate_right:
  "length xs = n \<Longrightarrow> map2 f xs (replicate n y) = map (\<lambda>x. f x y) xs"
  by (induction xs arbitrary: n) auto

lemma map2_replicate_left:
  "length ys = n \<Longrightarrow> map2 f (replicate n x) ys = map (f x) ys"
  by (induction ys arbitrary: n) auto

lemma affine_graph:
  assumes "ncols g = n"
  shows "map2 (map2 fl_add) (mm w g) (map (replicate n) bs) =
         map2 (\<lambda>wrow b0. map (\<lambda>j. fl_add (dot wrow (column j g)) b0) [0..<n]) w bs"
proof -
  have "map2 (map2 fl_add) (mm w g) (map (replicate n) bs) =
        map2 (\<lambda>wrow b0. map2 fl_add (map (\<lambda>j. dot wrow (column j g)) [0..<n]) (replicate n b0)) w bs"
    by (simp add: mm_def assms zip_map_map split_def)
  also have "\<dots> = map2 (\<lambda>wrow b0. map (\<lambda>j. fl_add (dot wrow (column j g)) b0) [0..<n]) w bs"
    by (simp add: map2_replicate_right comp_def)
  finally show ?thesis .
qed

lemma affine_batch:
  assumes x: "has_shape b c n x" and c: "0 < c" and w: "has_shape 1 r c [w]" and bs: "length bs = r"
  shows "bmm (replicate b w) x = Inr (map2 mm (replicate b w) x)"
    "tadd (map2 mm (replicate b w) x) (replicate b (map (replicate n) bs)) = Inr (affine w bs n x)"
proof -
  have rw: "has_shape b r c (replicate b w)"
    using w by (auto simp: has_shape_def list_all_iff)
  show "bmm (replicate b w) x = Inr (map2 mm (replicate b w) x)"
    using bmm_shaped[OF rw x c] .
  have s1: "has_shape b r n (map2 mm (replicate b w) x)" using map2_mm_shape[OF rw x c] .
  have s2: "has_shape b r n (replicate b (map (replicate n) bs))"
    using bs by (auto simp: has_shape_def list_all_iff)
  have lx: "length x = b" using has_shapeD(1)[OF x] .
  have "map2 (map2 (map2 fl_add)) (map2 mm (replicate b w) x) (replicate b (map (replicate n) bs))
        = map (\<lambda>g. map2 (map2 fl_add) (mm w g) (map (replicate n) bs)) x"
    by (simp add: map2_replicate_left[OF lx] map2_replicate_right lx)
  also have "\<dots> = affine w bs n x"
    unfolding affine_def
  proof (rule map_cong[OF refl])
    fix g assume g: "g \<in> set x"
    have "g \<noteq> []" using has_shapeD(2)[OF x g] c by auto
    then have "ncols g = n" using has_shapeD(3)[OF x g] by (intro ncols_shape) auto
    then show "map2 (map2 fl_add) (mm w g) (map (replicate n) bs) =
       map2 (\<lambda>wrow b0. map (\<lambda>j. fl_add (dot wrow (column j g)) b0) [0..<n]) w bs"
      by (rule affine_graph)
  qed
  finally have v: "map2 (map2 (map2 fl_add)) (map2 mm (replicate b w) x)
        (replicate b (map (replicate n) bs)) = affine w bs n x" .
  have "map (map length) (map2 mm (replicate b w) x) =
        map (map length) (replicate b (map (replicate n) bs))"
    by (simp only: map_length_shape[OF s1] map_length_shape[OF s2])
  then show "tadd (map2 mm (replicate b w) x) (replicate b (map (replicate n) bs)) = Inr (affine w bs n x)"
    by (simp only: tadd_def v refl if_True)
qed


lemma GraphOpConv_forward_affine_Some:
  assumes e: "has_shape b in_fm n emb_in" and o: "has_shape b n (n * nb_op) ops"
    and l: "length batch_nb_nodes = b"
    and b: "0 < b" and f: "0 < in_fm" and n: "0 < n" and p: "0 < nb_op"
  shows "GraphOpConv_forward (GraphOpConv_init in_fm out_fm nb_op w0 b0) (Some ops) emb_in
            batch_nb_nodes adj_mask =
     Inr (affine (weight (GraphOpConv_init in_fm out_fm nb_op w0 b0))
            (bias (GraphOpConv_init in_fm out_fm nb_op w0 b0)) n
            (concat_fm b ([emb_in,
                 map (map (replicate n)) (mean_with_padding emb_in batch_nb_nodes adj_mask)] @
               map (\<lambda>k. map2 mm emb_in (operator n k ops)) [0..<nb_op])))"
proof -
  let ?L = "GraphOpConv_init in_fm out_fm nb_op w0 b0"
  let ?avg = "map (map (replicate n)) (mean_with_padding emb_in batch_nb_nodes adj_mask)"
  let ?ts = "[emb_in, ?avg] @ map (\<lambda>k. map2 mm emb_in (operator n k ops)) [0..<nb_op]"
  have s0: "size0 emb_in = b" using has_shapeD(1)[OF e] by (simp add: size0_def)
  have s2: "size2 emb_in = n" using size2_shape[OF e b f] .
  have 1: "bmm emb_in ops = Inr (map2 mm emb_in ops)" using bmm_shaped[OF e o n] .
  have 2: "size2 (map2 mm emb_in ops) = n * nb_op"
    using size2_shape[OF map2_mm_shape[OF e o n] b f] .
  have 3: "split2 n (map2 mm emb_in ops) =
      Inr (map (\<lambda>k. map2 mm emb_in (operator n k ops)) [0..<nb_op])"
    using n operator_blocks[OF o n] by (simp add: split2_def 2 pieces_mult)
  have sh: "\<forall>t\<in>set ?ts. has_shape b in_fm n t"
    using e avg_shape[OF e l] map2_mm_shape[OF e operator_shape[OF o] n] by auto
  have 4: "cat1 ?ts = Inr (concat_fm b ?ts)"
    and 5: "has_shape b (in_fm * length ?ts) n (concat_fm b ?ts)"
    using cat1_shaped[OF _ sh] by simp_all
  have c5: "has_shape b (in_fm * (nb_op + 2)) n (concat_fm b ?ts)" using 5 by simp
  have w: "has_shape 1 out_fm (in_fm * (nb_op + 2)) [weight ?L]"
    by (simp add: GraphOpConv_init_def has_shape_def list_all_iff)
  have bl: "length (bias ?L) = out_fm" by (simp add: GraphOpConv_init_def)
  have c: "0 < in_fm * (nb_op + 2)" using f by simp
  note A = affine_batch[OF c5 c w bl]
  show ?thesis
    unfolding GraphOpConv_forward_def Let_def s0 s2
    by (simp only: 1 3 4 A resized_params_def option.case sum.case prod.case)
qed


lemma GraphOpConv_forward_affine_None:
  assumes e: "has_shape b in_fm n emb_in" and l: "length batch_nb_nodes = b"
    and b: "0 < b" and f: "0 < in_fm" and n: "0 < n"
  shows "GraphOpConv_forward (GraphOpConv_init in_fm out_fm 0 w0 b0) None emb_in
            batch_nb_nodes adj_mask =
     Inr (affine (weight (GraphOpConv_init in_fm out_fm 0 w0 b0))
            (bias (GraphOpConv_init in_fm out_fm 0 w0 b0)) n
            (concat_fm b [emb_in,
                 map (map (replicate n)) (mean_with_padding emb_in batch_nb_nodes adj_mask)]))"
proof -
  let ?L = "GraphOpConv_init in_fm out_fm 0 w0 b0"
  let ?avg = "map (map (replicate n)) (mean_with_padding emb_in batch_nb_nodes adj_mask)"
  let ?ts = "[emb_in, ?avg]"
  have s0: "size0 emb_in = b" using has_shapeD(1)[OF e] by (simp add: size0_def)
  have s2: "size2 emb_in = n" using size2_shape[OF e b f] .
  have sh: "\<forall>t\<in>set ?ts. has_shape b in_fm n t"
    using e avg_shape[OF e l] by auto
  have 4: "cat1 ?ts = Inr (concat_fm b ?ts)"
    and 5: "has_shape b (in_fm * length ?ts) n (concat_fm b ?ts)"
    using cat1_shaped[OF _ sh] by simp_all
  have c5: "has_shape b (in_fm * (0 + 2)) n (concat_fm b ?ts)" using 5 by simp
  have w: "has_shape 1 out_fm (in_fm * (0 + 2)) [weight ?L]"
    by (simp add: GraphOpConv_init_def has_shape_def list_all_iff)
  have bl: "length (bias ?L) = out_fm" by (simp add: GraphOpConv_init_def)
  have c: "0 < in_fm * (0 + 2)" using f by simp
  note A = affine_batch[OF c5 c w bl]
  show ?thesis
    unfolding GraphOpConv_forward_def Let_def s0 s2
    by (simp only: 4 A resized_params_def option.case sum.case prod.case)
qed


text \<open>
  Claim C1. For an embedding of shape \<open>(b, in_fm, n)\<close>, one node count per graph and a
  layer built by the constructor: with operators \<open>ops\<close> of shape \<open>(b, n, n * nb_op)\<close>,
  \<open>forward\<close> returns the affine transform (weight, bias) of the concatenation of the
  embedding itself, the masked mean broadcast to all nodes, and one block
  \<open>bmm(emb_in, operator k)\<close> per operator; with \<open>ops = None\<close> and \<open>nb_op = 0\<close> it returns
  the affine transform of the concatenation of the embedding and the broadcast masked
  mean only; and \<open>join_operators\<close> gives \<open>None\<close> for an empty list of operators.
\<close>

theorem GraphOpConv_forward_affine:
  assumes "has_shape b in_fm n emb_in" and "length batch_nb_nodes = b"
    and "0 < b" and "0 < in_fm" and "0 < n"
  shows "(has_shape b n (n * nb_op) ops \<and> 0 < nb_op \<longrightarrow>
          GraphOpConv_forward (GraphOpConv_init in_fm out_fm nb_op w0 b0) (Some ops) emb_in
              batch_nb_nodes adj_mask =
            Inr (affine (weight (GraphOpConv_init in_fm out_fm nb_op w0 b0))
                   (bias (GraphOpConv_init in_fm out_fm nb_op w0 b0)) n
                   (concat_fm b ([emb_in,
                        map (map (replicate n))
                          (mean_with_padding emb_in batch_nb_nodes adj_mask)] @
                      map (\<lambda>k. map2 mm emb_in (operator n k ops)) [0..<nb_op])))) \<and>
         GraphOpConv_forward (GraphOpConv_init in_fm out_fm 0 w0 b0) None emb_in
             batch_nb_nodes adj_mask =
           Inr (affine (weight (GraphOpConv_init in_fm out_fm 0 w0 b0))
                  (bias (GraphOpConv_init in_fm out_fm 0 w0 b0)) n
                  (concat_fm b [emb_in,
                       map (map (replicate n))
                         (mean_with_padding emb_in batch_nb_nodes adj_mask)])) \<and>
         join_operators adj [] = Inr None"
  using GraphOpConv_forward_affine_Some[OF assms(1) _ assms(2,3,4,5)]
    GraphOpConv_forward_affine_None[OF assms]
  by (simp add: join_operators_def)

text \<open>
  The theorem at one graph of four nodes with one feature map: with the identity as the
  only operator, where weight \<open>(2, 3, 3)\<close> and bias \<open>1\<close> give \<open>2 x + 3 * 5/2 + 3 x + 1\<close> at
  a node of value \<open>x\<close>, and with no operator, where weight \<open>(2, 3)\<close> and bias \<open>1\<close> give
  \<open>2 x + 3 * 5/2 + 1\<close>.
\<close>

theorem GraphOpConv_forward_affine_witness:
  "has_shape 1 1 4 [[[Fin 1, Fin 2, Fin 3, Fin 4]]] \<and> length [4::nat] = 1 \<and>
   has_shape 1 4 (4 * 1)
     [[[Fin 1, Fin 0, Fin 0, Fin 0], [Fin 0, Fin 1, Fin 0, Fin 0],
       [Fin 0, Fin 0, Fin 1, Fin 0], [Fin 0, Fin 0, Fin 0, Fin 1]]] \<and>
   GraphOpConv_forward
       (GraphOpConv_init 1 1 1 (\<lambda>i j. if j = 0 then Fin 2 else Fin 3) (\<lambda>i. Fin 1))
       (Some [[[Fin 1, Fin 0, Fin 0, Fin 0], [Fin 0, Fin 1, Fin 0, Fin 0],
               [Fin 0, Fin 0, Fin 1, Fin 0], [Fin 0, Fin 0, Fin 0, Fin 1]]])
       [[[Fin 1, Fin 2, Fin 3, Fin 4]]] [4] [] =
     Inr [[[Fin (27 / 2), Fin (37 / 2), Fin (47 / 2), Fin (57 / 2)]]] \<and>
   GraphOpConv_forward
       (GraphOpConv_init 1 1 0 (\<lambda>i j. if j = 0 then Fin 2 else Fin 3) (\<lambda>i. Fin 1))
       None [[[Fin 1, Fin 2, Fin 3, Fin 4]]] [4] [] =
     Inr [[[Fin (21 / 2), Fin (25 / 2), Fin (29 / 2), Fin (33 / 2)]]]"
proof -
  let ?E = "[[[Fin 1, Fin 2, Fin 3, Fin 4]]]"
  let ?I = "[[[Fin 1, Fin 0, Fin 0, Fin 0], [Fin 0, Fin 1, Fin 0, Fin 0],
              [Fin 0, Fin 0, Fin 1, Fin 0], [Fin 0, Fin 0, Fin 0, Fin 1]]]"
  let ?w = "\<lambda>(i::nat) (j::nat). if j = 0 then Fin 2 else Fin 3"
  let ?b = "\<lambda>i::nat. Fin 1"
  have e: "has_shape 1 1 4 ?E" by (simp add: has_shape_def)
  have l: "length [4::nat] = 1" by simp
  have o: "has_shape 1 4 (4 * 1) ?I \<and> (0::nat) < 1" by (simp add: has_shape_def)
  have p: "(0::nat) < 1" "(0::nat) < 4" by simp_all
  note T = GraphOpConv_forward_affine[OF e l p(1) p(1) p(2),
      where nb_op = 1 and ops = ?I and out_fm = 1 and ?w0.0 = ?w and ?b0.0 = ?b
        and adj_mask = "[]"]
  have v1: "affine (weight (GraphOpConv_init 1 1 1 ?w ?b)) (bias (GraphOpConv_init 1 1 1 ?w ?b)) 4
      (concat_fm 1 ([?E, map (map (replicate 4)) (mean_with_padding ?E [4] [])] @
           map (\<lambda>k. map2 mm ?E (operator 4 k ?I)) [0..<1])) =
      [[[Fin (27 / 2), Fin (37 / 2), Fin (47 / 2), Fin (57 / 2)]]]"
    by code_simp
  have v0: "affine (weight (GraphOpConv_init 1 1 0 ?w ?b)) (bias (GraphOpConv_init 1 1 0 ?w ?b)) 4
      (concat_fm 1 [?E, map (map (replicate 4)) (mean_with_padding ?E [4] [])]) =
      [[[Fin (21 / 2), Fin (25 / 2), Fin (29 / 2), Fin (33 / 2)]]]"
    by code_simp
  show ?thesis using e l o T v0 v1 by auto
qed

section \<open>ResGOpConv: construction, feature maps and the NaN checks\<close>

lemma shape_of_map_length:
  assumes "map (map length) x = replicate b (replicate r c)"
  shows "has_shape b r c x"
proof (rule has_shapeI)
  show "length x = b" using arg_cong[OF assms, of length] by simp
next
  fix m assume m: "m \<in> set x"
  then have "map length m \<in> set (replicate b (replicate r c))"
    using assms by (metis image_eqI set_map)
  then have ml: "map length m = replicate r c" by auto
  show "length m = r" using arg_cong[OF ml, of length] by simp
  fix row assume "row \<in> set m"
  then have "length row \<in> set (replicate r c)" using ml by (metis image_eqI set_map)
  then show "length row = c" by auto
qed

lemma tadd_shape:
  assumes t: "tadd x y = Inr z" and y: "has_shape b r c y"
  shows "has_shape b r c z"
proof -
  have eq: "map (map length) x = map (map length) y" and z: "z = map2 (map2 (map2 fl_add)) x y"
    using t by (auto simp: tadd_def split: if_splits)
  have x: "has_shape b r c x"
    using eq map_length_shape[OF y] by (intro shape_of_map_length) simp
  show ?thesis
  proof (rule has_shapeI)
    show "length z = b" using has_shapeD(1)[OF x] has_shapeD(1)[OF y] by (simp add: z)
  next
    fix m assume "m \<in> set z"
    then obtain a c' where ac: "(a, c') \<in> set (zip x y)" "m = map2 (map2 fl_add) a c'"
      by (auto simp: z)
    have a: "a \<in> set x" and c': "c' \<in> set y" using ac(1) by (auto dest: set_zip_leftD set_zip_rightD)
    show "length m = r" using has_shapeD(2)[OF x a] has_shapeD(2)[OF y c'] by (simp add: ac(2))
    fix row assume "row \<in> set m"
    then obtain p q where pq: "(p, q) \<in> set (zip a c')" "row = map2 fl_add p q"
      by (auto simp: ac(2))
    have "p \<in> set a" "q \<in> set c'" using pq(1) by (auto dest: set_zip_leftD set_zip_rightD)
    then show "length row = c"
      using has_shapeD(3)[OF x a] has_shapeD(3)[OF y c'] by (simp add: pq(2))
  qed
qed

lemma GraphOpConv_forward_shape:
  assumes "GraphOpConv_forward self ops emb_in batch_nb_nodes adj_mask = Inr out"
  shows "has_shape (size0 emb_in) (length (bias self)) (size2 emb_in) out"
proof -
  have "has_shape (size0 emb_in) (length (bias self)) (size2 emb_in)
          (replicate (size0 emb_in) (map (replicate (size2 emb_in)) (bias self)))"
    by (auto simp: has_shape_def list_all_iff)
  then show ?thesis
    using assms tadd_shape
    by (auto simp: GraphOpConv_forward_def Let_def resized_params_def
             split: sum.splits option.splits)
qed

lemma relu_shape: "has_shape b r c t \<Longrightarrow> has_shape b r c (relu t)"
  by (auto simp: has_shape_def relu_def list_all_iff)

lemma nan_count_0: "nan_count t = 0 \<longleftrightarrow> (\<forall>g\<in>set t. \<forall>row\<in>set g. NaN \<notin> set row)"
  by (auto simp: nan_count_def fl_ne_def filter_empty_conv)

lemma fl_relu_NaN: "NaN = fl_relu x \<longleftrightarrow> x = NaN"
  by (cases x) auto

lemma nan_count_relu: "nan_count (relu t) = 0 \<longleftrightarrow> nan_count t = 0"
  by (auto simp: nan_count_0 relu_def fl_relu_NaN image_iff)

lemma nan_count_concat_fm:
  assumes "\<forall>t\<in>set ts. length t = b \<and> nan_count t = 0"
  shows "nan_count (concat_fm b ts) = 0"
  unfolding nan_count_0
proof (intro ballI)
  fix g row assume "g \<in> set (concat_fm b ts)" "row \<in> set g"
  then obtain i t where i: "i < b" "t \<in> set ts" "row \<in> set (t ! i)"
    by (auto simp: concat_fm_def)
  then have "t ! i \<in> set t" "nan_count t = 0" using assms by auto
  then show "NaN \<notin> set row" using i(3) unfolding nan_count_0 by blast
qed


lemma ResGOpConv_init_Inr:
  assumes "ResGOpConv_init in_fm out_fm nb_op w1 b1 w2 b2 = Inr self"
  shows "out_fm mod 2 = 0" "length (bias (gconv_lin self)) = out_fm div 2"
    "length (bias (gconv_nlin self)) = out_fm div 2"
  using assms by (auto simp: ResGOpConv_init_def GraphOpConv_init_def Let_def split: if_splits)

lemma ResGOpConv_forward_Inr:
  assumes "ResGOpConv_forward self ops emb_in batch_nb_nodes adj_mask = Inr out"
  shows "\<exists>lin nlin.
      GraphOpConv_forward (gconv_lin self) ops emb_in batch_nb_nodes adj_mask = Inr lin \<and>
      GraphOpConv_forward (gconv_nlin self) ops emb_in batch_nb_nodes adj_mask = Inr nlin \<and>
      nan_count lin = 0 \<and> nan_count nlin = 0 \<and>
      cat1 [lin, relu nlin] = Inr out \<and> nan_count out = 0"
  using assms
  by (auto simp: ResGOpConv_forward_def check_for_nan_def split: sum.splits if_splits)

lemma ResGOpConv_forward_returns:
  assumes lin: "GraphOpConv_forward (gconv_lin self) ops emb_in batch_nb_nodes adj_mask = Inr lin"
    and nlin: "GraphOpConv_forward (gconv_nlin self) ops emb_in batch_nb_nodes adj_mask = Inr nlin"
    and bl: "length (bias (gconv_lin self)) = h" "length (bias (gconv_nlin self)) = h"
    and nan: "nan_count lin = 0" "nan_count nlin = 0"
  shows "ResGOpConv_forward self ops emb_in batch_nb_nodes adj_mask =
           Inr (concat_fm (size0 emb_in) [lin, relu nlin])"
    "has_shape (size0 emb_in) (h * 2) (size2 emb_in) (concat_fm (size0 emb_in) [lin, relu nlin])"
proof -
  have s1: "has_shape (size0 emb_in) h (size2 emb_in) lin"
    using GraphOpConv_forward_shape[OF lin] bl by simp
  have s2: "has_shape (size0 emb_in) h (size2 emb_in) (relu nlin)"
    using GraphOpConv_forward_shape[OF nlin] bl by (simp add: relu_shape)
  have sh: "\<forall>t\<in>set [lin, relu nlin]. has_shape (size0 emb_in) h (size2 emb_in) t"
    using s1 s2 by simp
  have c: "cat1 [lin, relu nlin] = Inr (concat_fm (size0 emb_in) [lin, relu nlin])"
    using cat1_shaped(1)[OF _ sh] by simp
  show "has_shape (size0 emb_in) (h * 2) (size2 emb_in) (concat_fm (size0 emb_in) [lin, relu nlin])"
    using cat1_shaped(2)[OF _ sh] by (simp add: mult_2_right)
  have "nan_count (concat_fm (size0 emb_in) [lin, relu nlin]) = 0"
    using nan has_shapeD(1)[OF s1] has_shapeD(1)[OF s2]
    by (intro nan_count_concat_fm) (simp add: nan_count_relu)
  then show "ResGOpConv_forward self ops emb_in batch_nb_nodes adj_mask =
           Inr (concat_fm (size0 emb_in) [lin, relu nlin])"
    using nan by (simp add: ResGOpConv_forward_def lin nlin check_for_nan_def c)
qed

lemma ResGOpConv_forward_fm:
  assumes i: "ResGOpConv_init in_fm out_fm nb_op w1 b1 w2 b2 = Inr self"
    and f: "ResGOpConv_forward self ops emb_in batch_nb_nodes adj_mask = Inr out"
  shows "list_all (\<lambda>g. length g = out_fm) out"
proof -
  obtain lin nlin where
    l: "GraphOpConv_forward (gconv_lin self) ops emb_in batch_nb_nodes adj_mask = Inr lin"
      "GraphOpConv_forward (gconv_nlin self) ops emb_in batch_nb_nodes adj_mask = Inr nlin"
      "nan_count lin = 0" "nan_count nlin = 0"
    using ResGOpConv_forward_Inr[OF f] by blast
  note R = ResGOpConv_forward_returns[OF l(1,2) ResGOpConv_init_Inr(2,3)[OF i] l(3,4)]
  have "out = concat_fm (size0 emb_in) [lin, relu nlin]" using R(1) f by simp
  moreover have "out_fm div 2 * 2 = out_fm" using ResGOpConv_init_Inr(1)[OF i] by presburger
  ultimately show ?thesis using R(2) by (auto simp: has_shape_def list_all_iff)
qed


lemma ResGOpConv_gnn_init_Inr:
  assumes "ResGOpConv_gnn_init in_fm out_fm nb_op w1 b1 w2 b2 = Inr self"
  shows "out_fm mod 2 = 0"
    "length (lin_weight (fc (gconv_lin_gnn self))) = out_fm div 2"
    "length (lin_bias (fc (gconv_lin_gnn self))) = out_fm div 2"
    "length (lin_weight (fc (gconv_nlin_gnn self))) = out_fm div 2"
    "length (lin_bias (fc (gconv_nlin_gnn self))) = out_fm div 2"
  using assms
  by (auto simp: ResGOpConv_gnn_init_def GraphOpConv_gnn_init_def Linear_init_def Let_def
           split: if_splits)

lemma ResGOpConv_gnn_forward_Inr:
  assumes "ResGOpConv_gnn_forward self ops emb_in batch_nb_nodes adj_mask = Inr out"
  shows "\<exists>lin nlin.
      GraphOpConv_gnn_forward (gconv_lin_gnn self) ops emb_in batch_nb_nodes adj_mask = Inr lin \<and>
      GraphOpConv_gnn_forward (gconv_nlin_gnn self) ops emb_in batch_nb_nodes adj_mask = Inr nlin \<and>
      nan_count lin = 0 \<and> nan_count nlin = 0 \<and>
      cat2 [lin, relu nlin] = Inr out \<and> nan_count out = 0"
  using assms
  by (auto simp: ResGOpConv_gnn_forward_def check_for_nan_def split: sum.splits if_splits)

text \<open>What a returned result of the gnn convolution looks like.\<close>

lemma cat2_outer:
  assumes "cat2 (t0 # ts) = Inr x"
  shows "length x = length t0" "\<forall>m\<in>set x. length m = size1 t0"
  using assms by (auto simp: cat2_def split: if_splits)

lemma GraphOpConv_gnn_forward_outer:
  assumes "GraphOpConv_gnn_forward self ops emb_in batch_nb_nodes adj_mask = Inr out"
  shows "length out = length emb_in" "\<forall>m\<in>set out. length m = size1 emb_in"
    "\<forall>m\<in>set out. \<forall>row\<in>set m.
        length row = min (length (lin_weight (fc self))) (length (lin_bias (fc self)))"
proof -
  obtain o' sp chunks x where
    x: "cat2 (emb_in # chunks) = Inr x" and o: "Linear_forward (fc self) x = Inr out"
    using assms
    by (auto simp: GraphOpConv_gnn_forward_def Let_def split: option.splits sum.splits)
  have out: "out = map (map (\<lambda>row. map2 (\<lambda>w b. fl_add (dot row w) b)
                (lin_weight (fc self)) (lin_bias (fc self)))) x"
    using o by (auto simp: Linear_forward_def split: if_splits)
  show "length out = length emb_in" using cat2_outer(1)[OF x] by (simp add: out)
  show "\<forall>m\<in>set out. length m = size1 emb_in" using cat2_outer(2)[OF x] by (auto simp: out)
  show "\<forall>m\<in>set out. \<forall>row\<in>set m.
        length row = min (length (lin_weight (fc self))) (length (lin_bias (fc self)))"
    by (auto simp: out)
qed

lemma cat2_Inr:
  assumes c: "cat2 ts = Inr x"
  obtains t0 rest where "ts = t0 # rest"
    "\<forall>t\<in>set ts. length t = length t0 \<and> (\<forall>m\<in>set t. length m = size1 t0)"
    "x = map (\<lambda>b. map (\<lambda>i. concat (map (\<lambda>t. t ! b ! i) ts)) [0..<size1 t0]) [0..<length t0]"
proof -
  obtain t0 rest where t0: "ts = t0 # rest" using c by (cases ts) (auto simp: cat2_def)
  then show thesis
    using c that[OF t0] by (auto simp: cat2_def list_all_iff split: if_splits)
qed

lemma nan_count_cat2:
  assumes c: "cat2 ts = Inr x" and n: "\<forall>t\<in>set ts. nan_count t = 0"
  shows "nan_count x = 0"
  unfolding nan_count_0
proof (intro ballI)
  fix g row assume g: "g \<in> set x" "row \<in> set g"
  from c obtain t0 rest where t0: "ts = t0 # rest"
    and ok: "\<forall>t\<in>set ts. length t = length t0 \<and> (\<forall>m\<in>set t. length m = size1 t0)"
    and x: "x = map (\<lambda>b. map (\<lambda>i. concat (map (\<lambda>t. t ! b ! i) ts)) [0..<size1 t0]) [0..<length t0]"
    by (rule cat2_Inr)
  from g obtain b i where bi: "b < length t0" "i < size1 t0"
    "row = concat (map (\<lambda>t. t ! b ! i) ts)"
    unfolding x by auto
  show "NaN \<notin> set row"
  proof
    assume "NaN \<in> set row"
    then obtain t where t: "t \<in> set ts" "NaN \<in> set (t ! b ! i)" using bi(3) by auto
    have "t ! b \<in> set t" using ok t(1) bi(1) by simp
    moreover from this have "t ! b ! i \<in> set (t ! b)" using ok t(1) bi(2) by simp
    ultimately show False using n t unfolding nan_count_0 by blast
  qed
qed

lemma cat2_row_length:
  assumes c: "cat2 ts = Inr x" and n: "\<forall>t\<in>set ts. \<forall>m\<in>set t. \<forall>row\<in>set m. length row = h"
  shows "\<forall>m\<in>set x. \<forall>row\<in>set m. length row = h * length ts"
proof (intro ballI)
  fix g row assume g: "g \<in> set x" "row \<in> set g"
  from c obtain t0 rest where t0: "ts = t0 # rest"
    and ok: "\<forall>t\<in>set ts. length t = length t0 \<and> (\<forall>m\<in>set t. length m = size1 t0)"
    and x: "x = map (\<lambda>b. map (\<lambda>i. concat (map (\<lambda>t. t ! b ! i) ts)) [0..<size1 t0]) [0..<length t0]"
    by (rule cat2_Inr)
  from g obtain b i where bi: "b < length t0" "i < size1 t0"
    "row = concat (map (\<lambda>t. t ! b ! i) ts)"
    unfolding x by auto
  have "\<forall>t\<in>set ts. length (t ! b ! i) = h"
  proof
    fix t assume t: "t \<in> set ts"
    have "t ! b \<in> set t" using ok t bi(1) by simp
    moreover from this have "t ! b ! i \<in> set (t ! b)" using ok t bi(2) by simp
    ultimately show "length (t ! b ! i) = h" using n t by blast
  qed
  then show "length row = h * length ts"
    by (simp add: bi(3) length_concat comp_def sum_list_const_nat)
qed

lemma ResGOpConv_gnn_forward_returns:
  assumes lin: "GraphOpConv_gnn_forward (gconv_lin_gnn self) ops emb_in batch_nb_nodes adj_mask = Inr lin"
    and nlin: "GraphOpConv_gnn_forward (gconv_nlin_gnn self) ops emb_in batch_nb_nodes adj_mask = Inr nlin"
    and nan: "nan_count lin = 0" "nan_count nlin = 0"
  shows "\<exists>out. ResGOpConv_gnn_forward self ops emb_in batch_nb_nodes adj_mask = Inr out \<and>
           cat2 [lin, relu nlin] = Inr out"
proof -
  note L = GraphOpConv_gnn_forward_outer[OF lin]
  note N = GraphOpConv_gnn_forward_outer[OF nlin]
  have s1: "lin \<noteq> [] \<Longrightarrow> size1 lin = size1 emb_in"
    using L(2) by (cases lin) (auto simp: size1_def)
  have "list_all (\<lambda>t. length t = length lin \<and> list_all (\<lambda>m. length m = size1 lin) t)
          [lin, relu nlin]"
    using L(1,2) N(1,2) s1 by (cases "lin = []") (auto simp: list_all_iff relu_def)
  then obtain out where c: "cat2 [lin, relu nlin] = Inr out" by (simp add: cat2_def)
  have "nan_count out = 0" using nan by (intro nan_count_cat2[OF c]) (simp add: nan_count_relu)
  then show ?thesis
    using nan by (simp add: ResGOpConv_gnn_forward_def lin nlin check_for_nan_def c)
qed

lemma ResGOpConv_gnn_forward_fm:
  assumes i: "ResGOpConv_gnn_init in_fm out_fm nb_op w1 b1 w2 b2 = Inr self"
    and f: "ResGOpConv_gnn_forward self ops emb_in batch_nb_nodes adj_mask = Inr out"
  shows "list_all (list_all (\<lambda>row. length row = out_fm)) out"
proof -
  obtain lin nlin where
    l: "GraphOpConv_gnn_forward (gconv_lin_gnn self) ops emb_in batch_nb_nodes adj_mask = Inr lin"
      "GraphOpConv_gnn_forward (gconv_nlin_gnn self) ops emb_in batch_nb_nodes adj_mask = Inr nlin"
      "cat2 [lin, relu nlin] = Inr out"
    using ResGOpConv_gnn_forward_Inr[OF f] by blast
  note I = ResGOpConv_gnn_init_Inr[OF i]
  have "\<forall>t\<in>set [lin, relu nlin]. \<forall>m\<in>set t. \<forall>row\<in>set m. length row = out_fm div 2"
    using GraphOpConv_gnn_forward_outer(3)[OF l(1)] GraphOpConv_gnn_forward_outer(3)[OF l(2)] I
    by (auto simp: relu_def)
  from cat2_row_length[OF l(3) this]
  have "\<forall>m\<in>set out. \<forall>row\<in>set m. length row = out_fm div 2 * 2" by simp
  moreover have "out_fm div 2 * 2 = out_fm" using I(1) by presburger
  ultimately show ?thesis by (simp add: list_all_iff)
qed


text \<open>
  \<open>relu\<close> written out on the four kinds of float, and the two halves of the
  concatenation: the first \<open>h\<close> feature maps are those of the linear branch, the others
  are those of the other branch with \<open>relu\<close> applied to every entry.
\<close>

lemma fl_relu_cases:
  "fl_relu = (\<lambda>x. case x of Fin a \<Rightarrow> Fin (max a 0) | PInf \<Rightarrow> PInf | NInf \<Rightarrow> Fin 0 | NaN \<Rightarrow> NaN)"
  by (rule ext) (simp split: fl.split)

lemma concat_fm_relu_halves:
  assumes lin: "has_shape b h n lin" and nlin: "has_shape b h n nlin" and g: "g < b"
  shows "take h (concat_fm b [lin, relu nlin] ! g) = lin ! g"
    and "drop h (concat_fm b [lin, relu nlin] ! g) = map (map fl_relu) (nlin ! g)"
proof -
  have "lin ! g \<in> set lin" using has_shapeD(1)[OF lin] g by simp
  then have len: "length (lin ! g) = h" by (rule has_shapeD(2)[OF lin])
  have r: "relu nlin ! g = map (map fl_relu) (nlin ! g)"
    using has_shapeD(1)[OF nlin] g by (simp add: relu_def)
  have c: "concat_fm b [lin, relu nlin] ! g = lin ! g @ relu nlin ! g"
    using g by (simp add: concat_fm_def)
  show "take h (concat_fm b [lin, relu nlin] ! g) = lin ! g" by (simp add: c len)
  show "drop h (concat_fm b [lin, relu nlin] ! g) = map (map fl_relu) (nlin ! g)"
    by (simp add: c len r)
qed

lemma cat2_relu_halves:
  assumes c: "cat2 [lin, relu nlin] = Inr out"
    and l: "\<forall>m\<in>set lin. \<forall>row\<in>set m. length row = h"
    and g: "g < length out" and n: "n < length (out ! g)"
  shows "take h (out ! g ! n) = lin ! g ! n"
    and "drop h (out ! g ! n) = map fl_relu (nlin ! g ! n)"
proof -
  from c obtain t0 rest where t0: "[lin, relu nlin] = t0 # rest"
    and ok: "\<forall>t\<in>set [lin, relu nlin]. length t = length t0 \<and> (\<forall>m\<in>set t. length m = size1 t0)"
    and x: "out = map (\<lambda>b. map (\<lambda>i. concat (map (\<lambda>t. t ! b ! i) [lin, relu nlin])) [0..<size1 t0])
                    [0..<length t0]"
    by (rule cat2_Inr)
  have t0': "t0 = lin" using t0 by simp
  have "lin \<in> set [lin, relu nlin]" by simp
  from bspec[OF ok this] have ok1: "\<forall>m\<in>set lin. length m = size1 lin"
    unfolding t0' by (rule conjunct2)
  have "relu nlin \<in> set [lin, relu nlin]" by simp
  from bspec[OF ok this] have ok2: "length (relu nlin) = length lin"
    and ok3: "\<forall>m\<in>set (relu nlin). length m = size1 lin"
    unfolding t0' by (rule conjunct1, rule conjunct2)
  have lo: "length out = length lin" unfolding x t0' by simp
  have gl: "g < length lin" using g lo by simp
  have og: "out ! g = map (\<lambda>i. concat (map (\<lambda>t. t ! g ! i) [lin, relu nlin])) [0..<size1 lin]"
    unfolding x t0' using gl by simp
  have nl: "n < size1 lin" using n unfolding og by simp
  have o: "out ! g ! n = lin ! g ! n @ relu nlin ! g ! n" unfolding og using nl by simp
  have lg: "lin ! g \<in> set lin" using gl by simp
  have "length (lin ! g) = size1 lin" by (rule bspec[OF ok1 lg])
  then have "lin ! g ! n \<in> set (lin ! g)" using nl by simp
  then have len: "length (lin ! g ! n) = h" using l lg by blast
  have gn: "g < length nlin" using ok2 gl by (simp add: relu_def)
  then have "relu nlin ! g \<in> set (relu nlin)" by (simp add: relu_def)
  then have "length (relu nlin ! g) = size1 lin" by (rule bspec[OF ok3])
  then have nn: "n < length (nlin ! g)" using nl gn by (simp add: relu_def)
  have r: "relu nlin ! g ! n = map fl_relu (nlin ! g ! n)" using gn nn by (simp add: relu_def)
  show "take h (out ! g ! n) = lin ! g ! n" by (simp add: o len)
  show "drop h (out ! g ! n) = map fl_relu (nlin ! g ! n)" by (simp add: o len r)
qed

text \<open>
  Claim C4. In both variants the constructor of \<open>ResGOpConv\<close> raises \<open>ValueError\<close> for an
  odd \<open>out_fm\<close> and succeeds for an even one; whatever \<open>forward\<close> of the layer built
  returns is the concatenation of the outputs of its two convolutions, each with
  \<open>out_fm div 2\<close> feature maps, and has \<open>out_fm\<close> feature maps in every graph (at every
  node, in the gnn variant). The first \<open>out_fm div 2\<close> feature maps are the output of
  \<open>gconv_lin\<close> unchanged; the last \<open>out_fm div 2\<close> are the output of \<open>gconv_nlin\<close> with
  every finite entry \<open>a\<close> replaced by \<open>max a 0\<close> (and minus infinity by 0).
\<close>

theorem ResGOpConv_init_out_fm:
  "(out_fm mod 2 \<noteq> 0 \<longrightarrow>
      ResGOpConv_init in_fm out_fm nb_op w1 b1 w2 b2 = Inl ValueError \<and>
      ResGOpConv_gnn_init in_fm out_fm nb_op w1 b1 w2 b2 = Inl ValueError) \<and>
   (out_fm mod 2 = 0 \<longrightarrow>
      (\<exists>self. ResGOpConv_init in_fm out_fm nb_op w1 b1 w2 b2 = Inr self \<and>
         (\<forall>ops emb_in batch_nb_nodes adj_mask out.
            ResGOpConv_forward self ops emb_in batch_nb_nodes adj_mask = Inr out \<longrightarrow>
              list_all (\<lambda>g. length g = out_fm) out \<and>
              (\<exists>lin nlin.
                 GraphOpConv_forward (gconv_lin self) ops emb_in batch_nb_nodes adj_mask = Inr lin \<and>
                 GraphOpConv_forward (gconv_nlin self) ops emb_in batch_nb_nodes adj_mask = Inr nlin \<and>
                 list_all (\<lambda>g. length g = out_fm div 2) lin \<and>
                 list_all (\<lambda>g. length g = out_fm div 2) nlin \<and>
                 out = concat_fm (size0 emb_in) [lin, relu nlin] \<and>
                 (\<forall>g<length out.
                    take (out_fm div 2) (out ! g) = lin ! g \<and>
                    drop (out_fm div 2) (out ! g) =
                      map (map (\<lambda>x. case x of Fin a \<Rightarrow> Fin (max a 0) | PInf \<Rightarrow> PInf | NInf \<Rightarrow> Fin 0 | NaN \<Rightarrow> NaN))
                        (nlin ! g))))) \<and>
      (\<exists>self. ResGOpConv_gnn_init in_fm out_fm nb_op w1 b1 w2 b2 = Inr self \<and>
         (\<forall>ops emb_in batch_nb_nodes adj_mask out.
            ResGOpConv_gnn_forward self ops emb_in batch_nb_nodes adj_mask = Inr out \<longrightarrow>
              list_all (list_all (\<lambda>row. length row = out_fm)) out \<and>
              (\<exists>lin nlin.
                 GraphOpConv_gnn_forward (gconv_lin_gnn self) ops emb_in batch_nb_nodes adj_mask
                   = Inr lin \<and>
                 GraphOpConv_gnn_forward (gconv_nlin_gnn self) ops emb_in batch_nb_nodes adj_mask
                   = Inr nlin \<and>
                 list_all (list_all (\<lambda>row. length row = out_fm div 2)) lin \<and>
                 list_all (list_all (\<lambda>row. length row = out_fm div 2)) nlin \<and>
                 cat2 [lin, relu nlin] = Inr out \<and>
                 (\<forall>g<length out. \<forall>n<length (out ! g).
                    take (out_fm div 2) (out ! g ! n) = lin ! g ! n \<and>
                    drop (out_fm div 2) (out ! g ! n) =
                      map (\<lambda>x. case x of Fin a \<Rightarrow> Fin (max a 0) | PInf \<Rightarrow> PInf | NInf \<Rightarrow> Fin 0 | NaN \<Rightarrow> NaN)
                        (nlin ! g ! n))))))"
proof (intro conjI impI)
  assume "out_fm mod 2 \<noteq> 0"
  then show "ResGOpConv_init in_fm out_fm nb_op w1 b1 w2 b2 = Inl ValueError"
    and "ResGOpConv_gnn_init in_fm out_fm nb_op w1 b1 w2 b2 = Inl ValueError"
    by (simp_all add: ResGOpConv_init_def ResGOpConv_gnn_init_def)
next
  assume ev: "out_fm mod 2 = 0"
  then obtain self where i: "ResGOpConv_init in_fm out_fm nb_op w1 b1 w2 b2 = Inr self"
    by (simp add: ResGOpConv_init_def Let_def)
  note I = ResGOpConv_init_Inr[OF i]
  have "list_all (\<lambda>g. length g = out_fm) out \<and>
              (\<exists>lin nlin.
                 GraphOpConv_forward (gconv_lin self) ops emb_in batch_nb_nodes adj_mask = Inr lin \<and>
                 GraphOpConv_forward (gconv_nlin self) ops emb_in batch_nb_nodes adj_mask = Inr nlin \<and>
                 list_all (\<lambda>g. length g = out_fm div 2) lin \<and>
                 list_all (\<lambda>g. length g = out_fm div 2) nlin \<and>
                 out = concat_fm (size0 emb_in) [lin, relu nlin] \<and>
                 (\<forall>g<length out.
                    take (out_fm div 2) (out ! g) = lin ! g \<and>
                    drop (out_fm div 2) (out ! g) =
                      map (map (\<lambda>x. case x of Fin a \<Rightarrow> Fin (max a 0) | PInf \<Rightarrow> PInf | NInf \<Rightarrow> Fin 0 | NaN \<Rightarrow> NaN))
                        (nlin ! g)))"
    if f: "ResGOpConv_forward self ops emb_in batch_nb_nodes adj_mask = Inr out"
    for ops emb_in batch_nb_nodes adj_mask out
  proof -
    obtain lin nlin where
      l: "GraphOpConv_forward (gconv_lin self) ops emb_in batch_nb_nodes adj_mask = Inr lin"
        "GraphOpConv_forward (gconv_nlin self) ops emb_in batch_nb_nodes adj_mask = Inr nlin"
        "nan_count lin = 0" "nan_count nlin = 0"
      using ResGOpConv_forward_Inr[OF f] by blast
    have s1: "has_shape (size0 emb_in) (out_fm div 2) (size2 emb_in) lin"
      using GraphOpConv_forward_shape[OF l(1)] I(2) by simp
    have s2: "has_shape (size0 emb_in) (out_fm div 2) (size2 emb_in) nlin"
      using GraphOpConv_forward_shape[OF l(2)] I(3) by simp
    have o: "out = concat_fm (size0 emb_in) [lin, relu nlin]"
      using ResGOpConv_forward_returns(1)[OF l(1,2) I(2,3) l(3,4)] f by simp
    have lo: "length out = size0 emb_in" by (simp add: o concat_fm_def)
    have h: "\<forall>g<length out.
               take (out_fm div 2) (out ! g) = lin ! g \<and>
               drop (out_fm div 2) (out ! g) = map (map (\<lambda>x. case x of Fin a \<Rightarrow> Fin (max a 0) | PInf \<Rightarrow> PInf | NInf \<Rightarrow> Fin 0 | NaN \<Rightarrow> NaN)) (nlin ! g)"
    proof (intro allI impI)
      fix g assume "g < length out"
      then have g: "g < size0 emb_in" by (simp only: lo)
      show "take (out_fm div 2) (out ! g) = lin ! g \<and>
            drop (out_fm div 2) (out ! g) = map (map (\<lambda>x. case x of Fin a \<Rightarrow> Fin (max a 0) | PInf \<Rightarrow> PInf | NInf \<Rightarrow> Fin 0 | NaN \<Rightarrow> NaN)) (nlin ! g)"
        unfolding o
        using concat_fm_relu_halves[OF s1 s2 g] by (simp only: fl_relu_cases simp_thms)
    qed
    have l1: "list_all (\<lambda>g. length g = out_fm div 2) lin"
      using s1 by (simp add: has_shape_def list_all_iff)
    have l2: "list_all (\<lambda>g. length g = out_fm div 2) nlin"
      using s2 by (simp add: has_shape_def list_all_iff)
    note fm = ResGOpConv_forward_fm[OF i f]
    show ?thesis
      by (intro conjI exI[of _ lin] exI[of _ nlin]) (fact fm l(1) l(2) l1 l2 o h)+
  qed
  then show "\<exists>self. ResGOpConv_init in_fm out_fm nb_op w1 b1 w2 b2 = Inr self \<and>
         (\<forall>ops emb_in batch_nb_nodes adj_mask out.
            ResGOpConv_forward self ops emb_in batch_nb_nodes adj_mask = Inr out \<longrightarrow>
              list_all (\<lambda>g. length g = out_fm) out \<and>
              (\<exists>lin nlin.
                 GraphOpConv_forward (gconv_lin self) ops emb_in batch_nb_nodes adj_mask = Inr lin \<and>
                 GraphOpConv_forward (gconv_nlin self) ops emb_in batch_nb_nodes adj_mask = Inr nlin \<and>
                 list_all (\<lambda>g. length g = out_fm div 2) lin \<and>
                 list_all (\<lambda>g. length g = out_fm div 2) nlin \<and>
                 out = concat_fm (size0 emb_in) [lin, relu nlin] \<and>
                 (\<forall>g<length out.
                    take (out_fm div 2) (out ! g) = lin ! g \<and>
                    drop (out_fm div 2) (out ! g) =
                      map (map (\<lambda>x. case x of Fin a \<Rightarrow> Fin (max a 0) | PInf \<Rightarrow> PInf | NInf \<Rightarrow> Fin 0 | NaN \<Rightarrow> NaN))
                        (nlin ! g))))"
    using i by blast
next
  assume ev: "out_fm mod 2 = 0"
  then obtain self where i: "ResGOpConv_gnn_init in_fm out_fm nb_op w1 b1 w2 b2 = Inr self"
    by (simp add: ResGOpConv_gnn_init_def Let_def)
  note I = ResGOpConv_gnn_init_Inr[OF i]
  have "list_all (list_all (\<lambda>row. length row = out_fm)) out \<and>
              (\<exists>lin nlin.
                 GraphOpConv_gnn_forward (gconv_lin_gnn self) ops emb_in batch_nb_nodes adj_mask
                   = Inr lin \<and>
                 GraphOpConv_gnn_forward (gconv_nlin_gnn self) ops emb_in batch_nb_nodes adj_mask
                   = Inr nlin \<and>
                 list_all (list_all (\<lambda>row. length row = out_fm div 2)) lin \<and>
                 list_all (list_all (\<lambda>row. length row = out_fm div 2)) nlin \<and>
                 cat2 [lin, relu nlin] = Inr out \<and>
                 (\<forall>g<length out. \<forall>n<length (out ! g).
                    take (out_fm div 2) (out ! g ! n) = lin ! g ! n \<and>
                    drop (out_fm div 2) (out ! g ! n) =
                      map (\<lambda>x. case x of Fin a \<Rightarrow> Fin (max a 0) | PInf \<Rightarrow> PInf | NInf \<Rightarrow> Fin 0 | NaN \<Rightarrow> NaN)
                        (nlin ! g ! n)))"
    if f: "ResGOpConv_gnn_forward self ops emb_in batch_nb_nodes adj_mask = Inr out"
    for ops emb_in batch_nb_nodes adj_mask out
  proof -
    obtain lin nlin where
      l: "GraphOpConv_gnn_forward (gconv_lin_gnn self) ops emb_in batch_nb_nodes adj_mask = Inr lin"
        "GraphOpConv_gnn_forward (gconv_nlin_gnn self) ops emb_in batch_nb_nodes adj_mask = Inr nlin"
        "cat2 [lin, relu nlin] = Inr out"
      using ResGOpConv_gnn_forward_Inr[OF f] by blast
    have r1: "\<forall>m\<in>set lin. \<forall>row\<in>set m. length row = out_fm div 2"
      using GraphOpConv_gnn_forward_outer(3)[OF l(1)] I by simp
    have r2: "\<forall>m\<in>set nlin. \<forall>row\<in>set m. length row = out_fm div 2"
      using GraphOpConv_gnn_forward_outer(3)[OF l(2)] I by simp
    have l1: "list_all (list_all (\<lambda>row. length row = out_fm div 2)) lin"
      using r1 by (simp add: list_all_iff)
    have l2: "list_all (list_all (\<lambda>row. length row = out_fm div 2)) nlin"
      using r2 by (simp add: list_all_iff)
    have h: "\<forall>g<length out. \<forall>n<length (out ! g).
               take (out_fm div 2) (out ! g ! n) = lin ! g ! n \<and>
               drop (out_fm div 2) (out ! g ! n) = map (\<lambda>x. case x of Fin a \<Rightarrow> Fin (max a 0) | PInf \<Rightarrow> PInf | NInf \<Rightarrow> Fin 0 | NaN \<Rightarrow> NaN) (nlin ! g ! n)"
    proof (intro allI impI)
      fix g n assume g: "g < length out" and n: "n < length (out ! g)"
      show "take (out_fm div 2) (out ! g ! n) = lin ! g ! n \<and>
            drop (out_fm div 2) (out ! g ! n) = map (\<lambda>x. case x of Fin a \<Rightarrow> Fin (max a 0) | PInf \<Rightarrow> PInf | NInf \<Rightarrow> Fin 0 | NaN \<Rightarrow> NaN) (nlin ! g ! n)"
        using cat2_relu_halves[OF l(3) r1 g n] by (simp only: fl_relu_cases simp_thms)
    qed
    note fm = ResGOpConv_gnn_forward_fm[OF i f]
    show ?thesis
      by (intro conjI exI[of _ lin] exI[of _ nlin]) (fact fm l(1) l(2) l1 l2 l(3) h)+
  qed
  then show "\<exists>self. ResGOpConv_gnn_init in_fm out_fm nb_op w1 b1 w2 b2 = Inr self \<and>
         (\<forall>ops emb_in batch_nb_nodes adj_mask out.
            ResGOpConv_gnn_forward self ops emb_in batch_nb_nodes adj_mask = Inr out \<longrightarrow>
              list_all (list_all (\<lambda>row. length row = out_fm)) out \<and>
              (\<exists>lin nlin.
                 GraphOpConv_gnn_forward (gconv_lin_gnn self) ops emb_in batch_nb_nodes adj_mask
                   = Inr lin \<and>
                 GraphOpConv_gnn_forward (gconv_nlin_gnn self) ops emb_in batch_nb_nodes adj_mask
                   = Inr nlin \<and>
                 list_all (list_all (\<lambda>row. length row = out_fm div 2)) lin \<and>
                 list_all (list_all (\<lambda>row. length row = out_fm div 2)) nlin \<and>
                 cat2 [lin, relu nlin] = Inr out \<and>
                 (\<forall>g<length out. \<forall>n<length (out ! g).
                    take (out_fm div 2) (out ! g ! n) = lin ! g ! n \<and>
                    drop (out_fm div 2) (out ! g ! n) =
                      map (\<lambda>x. case x of Fin a \<Rightarrow> Fin (max a 0) | PInf \<Rightarrow> PInf | NInf \<Rightarrow> Fin 0 | NaN \<Rightarrow> NaN)
                        (nlin ! g ! n))))"
    using i by blast
qed

text \<open>
  The theorem at \<open>out_fm = 3\<close> and at \<open>out_fm = 2\<close>, with one feature map, one operator
  (the swap of two nodes) and all weights -1: both convolutions return negative values,
  which the first half of the output keeps and the second half replaces by 0.
\<close>

theorem ResGOpConv_init_out_fm_witness:
  "(3::nat) mod 2 \<noteq> 0 \<and>
   ResGOpConv_init 1 3 1 (\<lambda>i j. Fin (- 1)) (\<lambda>i. Fin 0) (\<lambda>i j. Fin (- 1)) (\<lambda>i. Fin 0)
     = Inl ValueError \<and>
   ResGOpConv_gnn_init 1 3 1 (\<lambda>i j. Fin (- 1)) (\<lambda>i. Fin 0) (\<lambda>i j. Fin (- 1)) (\<lambda>i. Fin 0)
     = Inl ValueError \<and>
   (2::nat) mod 2 = 0 \<and>
   (\<exists>self. ResGOpConv_init 1 2 1 (\<lambda>i j. Fin (- 1)) (\<lambda>i. Fin 0) (\<lambda>i j. Fin (- 1)) (\<lambda>i. Fin 0)
        = Inr self \<and>
      GraphOpConv_forward (gconv_nlin self) (Some [[[Fin 0, Fin 1], [Fin 1, Fin 0]]])
          [[[Fin 1, Fin 2]]] [2] []
        = Inr [[[Fin (- 9 / 2), Fin (- 9 / 2)]]] \<and>
      ResGOpConv_forward self (Some [[[Fin 0, Fin 1], [Fin 1, Fin 0]]]) [[[Fin 1, Fin 2]]] [2] []
        = Inr [[[Fin (- 9 / 2), Fin (- 9 / 2)], [Fin 0, Fin 0]]] \<and>
      list_all (\<lambda>g. length g = 2) [[[Fin (- 9 / 2), Fin (- 9 / 2)], [Fin 0, Fin 0]]] \<and>
      drop 1 ([[[Fin (- 9 / 2), Fin (- 9 / 2)], [Fin 0, Fin 0]]] ! 0) = [[Fin 0, Fin 0]]) \<and>
   (\<exists>self. ResGOpConv_gnn_init 1 2 1 (\<lambda>i j. Fin (- 1)) (\<lambda>i. Fin 0) (\<lambda>i j. Fin (- 1)) (\<lambda>i. Fin 0)
        = Inr self \<and>
      GraphOpConv_gnn_forward (gconv_nlin_gnn self) (Some [[[Fin 0, Fin 1], [Fin 1, Fin 0]]])
          [[[Fin 1], [Fin 2]]] [2] []
        = Inr [[[Fin (- 3)], [Fin (- 3)]]] \<and>
      ResGOpConv_gnn_forward self (Some [[[Fin 0, Fin 1], [Fin 1, Fin 0]]]) [[[Fin 1], [Fin 2]]]
          [2] []
        = Inr [[[Fin (- 3), Fin 0], [Fin (- 3), Fin 0]]] \<and>
      list_all (list_all (\<lambda>row. length row = 2)) [[[Fin (- 3), Fin 0], [Fin (- 3), Fin 0]]] \<and>
      drop 1 ([[[Fin (- 3), Fin 0], [Fin (- 3), Fin 0]]] ! 0 ! 1) = [Fin 0])"
proof -
  let ?w = "\<lambda>(i::nat) (j::nat). Fin (- 1)" and ?b = "\<lambda>i::nat. Fin 0"
  let ?ops = "[[[Fin 0, Fin 1], [Fin 1, Fin 0]]]"
  let ?out = "[[[Fin (- 9 / 2), Fin (- 9 / 2)], [Fin 0, Fin 0]]]"
  let ?outg = "[[[Fin (- 3), Fin 0], [Fin (- 3), Fin 0]]]"
  let ?pp = "\<lambda>x. case x of Fin a \<Rightarrow> Fin (max a 0) | PInf \<Rightarrow> PInf | NInf \<Rightarrow> Fin 0 | NaN \<Rightarrow> NaN"
  note T3 = ResGOpConv_init_out_fm[where out_fm = 3 and in_fm = 1 and nb_op = 1
      and ?w1.0 = ?w and ?b1.0 = ?b and ?w2.0 = ?w and ?b2.0 = ?b]
  note T2 = ResGOpConv_init_out_fm[where out_fm = 2 and in_fm = 1 and nb_op = 1
      and ?w1.0 = ?w and ?b1.0 = ?b and ?w2.0 = ?w and ?b2.0 = ?b]
  have odd: "(3::nat) mod 2 \<noteq> 0" and even: "(2::nat) mod 2 = 0" by simp_all
  have v: "(case ResGOpConv_init 1 2 1 ?w ?b ?w ?b of Inl e \<Rightarrow> Inl e
            | Inr self \<Rightarrow> ResGOpConv_forward self (Some ?ops) [[[Fin 1, Fin 2]]] [2] [])
           = Inr ?out"
    by code_simp
  have vn: "(case ResGOpConv_init 1 2 1 ?w ?b ?w ?b of Inl e \<Rightarrow> Inl e
            | Inr self \<Rightarrow> GraphOpConv_forward (gconv_nlin self) (Some ?ops) [[[Fin 1, Fin 2]]] [2] [])
           = Inr [[[Fin (- 9 / 2), Fin (- 9 / 2)]]]"
    by code_simp
  have vg: "(case ResGOpConv_gnn_init 1 2 1 ?w ?b ?w ?b of Inl e \<Rightarrow> Inl e
            | Inr self \<Rightarrow> ResGOpConv_gnn_forward self (Some ?ops) [[[Fin 1], [Fin 2]]] [2] [])
           = Inr ?outg"
    by code_simp
  have vgn: "(case ResGOpConv_gnn_init 1 2 1 ?w ?b ?w ?b of Inl e \<Rightarrow> Inl e
            | Inr self \<Rightarrow> GraphOpConv_gnn_forward (gconv_nlin_gnn self) (Some ?ops)
                [[[Fin 1], [Fin 2]]] [2] [])
           = Inr [[[Fin (- 3)], [Fin (- 3)]]]"
    by code_simp
  note E = T2[THEN conjunct2, THEN mp, OF even]
  from E[THEN conjunct1] obtain self where
    s: "ResGOpConv_init 1 2 1 ?w ?b ?w ?b = Inr self"
      "\<forall>ops emb_in batch_nb_nodes adj_mask out.
         ResGOpConv_forward self ops emb_in batch_nb_nodes adj_mask = Inr out \<longrightarrow>
              list_all (\<lambda>g. length g = 2) out \<and>
              (\<exists>lin nlin.
                 GraphOpConv_forward (gconv_lin self) ops emb_in batch_nb_nodes adj_mask = Inr lin \<and>
                 GraphOpConv_forward (gconv_nlin self) ops emb_in batch_nb_nodes adj_mask = Inr nlin \<and>
                 list_all (\<lambda>g. length g = 2 div 2) lin \<and>
                 list_all (\<lambda>g. length g = 2 div 2) nlin \<and>
                 out = concat_fm (size0 emb_in) [lin, relu nlin] \<and>
                 (\<forall>g<length out.
                    take (2 div 2) (out ! g) = lin ! g \<and>
                    drop (2 div 2) (out ! g) = map (map ?pp) (nlin ! g)))"
    by (elim exE conjE)
  from E[THEN conjunct2] obtain selfg where
    g: "ResGOpConv_gnn_init 1 2 1 ?w ?b ?w ?b = Inr selfg"
      "\<forall>ops emb_in batch_nb_nodes adj_mask out.
         ResGOpConv_gnn_forward selfg ops emb_in batch_nb_nodes adj_mask = Inr out \<longrightarrow>
              list_all (list_all (\<lambda>row. length row = 2)) out \<and>
              (\<exists>lin nlin.
                 GraphOpConv_gnn_forward (gconv_lin_gnn selfg) ops emb_in batch_nb_nodes adj_mask
                   = Inr lin \<and>
                 GraphOpConv_gnn_forward (gconv_nlin_gnn selfg) ops emb_in batch_nb_nodes adj_mask
                   = Inr nlin \<and>
                 list_all (list_all (\<lambda>row. length row = 2 div 2)) lin \<and>
                 list_all (list_all (\<lambda>row. length row = 2 div 2)) nlin \<and>
                 cat2 [lin, relu nlin] = Inr out \<and>
                 (\<forall>g<length out. \<forall>n<length (out ! g).
                    take (2 div 2) (out ! g ! n) = lin ! g ! n \<and>
                    drop (2 div 2) (out ! g ! n) = map ?pp (nlin ! g ! n)))"
    by (elim exE conjE)
  have f: "ResGOpConv_forward self (Some ?ops) [[[Fin 1, Fin 2]]] [2] [] = Inr ?out"
    using v by (simp only: s(1) sum.case)
  have fn: "GraphOpConv_forward (gconv_nlin self) (Some ?ops) [[[Fin 1, Fin 2]]] [2] []
        = Inr [[[Fin (- 9 / 2), Fin (- 9 / 2)]]]"
    using vn by (simp only: s(1) sum.case)
  have fg: "ResGOpConv_gnn_forward selfg (Some ?ops) [[[Fin 1], [Fin 2]]] [2] [] = Inr ?outg"
    using vg by (simp only: g(1) sum.case)
  have fgn: "GraphOpConv_gnn_forward (gconv_nlin_gnn selfg) (Some ?ops) [[[Fin 1], [Fin 2]]] [2] []
        = Inr [[[Fin (- 3)], [Fin (- 3)]]]"
    using vgn by (simp only: g(1) sum.case)
  note S = s(2)[rule_format, OF f]
  have l: "list_all (\<lambda>g. length g = 2) ?out" by (rule S[THEN conjunct1])
  from S[THEN conjunct2] obtain lin nlin where
    n: "GraphOpConv_forward (gconv_nlin self) (Some ?ops) [[[Fin 1, Fin 2]]] [2] [] = Inr nlin"
      "\<forall>g<length ?out. take (2 div 2) (?out ! g) = lin ! g \<and>
                        drop (2 div 2) (?out ! g) = map (map ?pp) (nlin ! g)"
    by (elim exE conjE)
  have nv: "nlin = [[[Fin (- 9 / 2), Fin (- 9 / 2)]]]" using n(1) fn by simp
  have "drop (2 div 2) (?out ! 0) = map (map ?pp) (nlin ! 0)"
    using n(2)[rule_format, of 0] by simp
  then have d: "drop 1 (?out ! 0) = [[Fin 0, Fin 0]]" by (simp add: nv)
  note G = g(2)[rule_format, OF fg]
  have lg: "list_all (list_all (\<lambda>row. length row = 2)) ?outg" by (rule G[THEN conjunct1])
  from G[THEN conjunct2] obtain ling nling where
    ng: "GraphOpConv_gnn_forward (gconv_nlin_gnn selfg) (Some ?ops) [[[Fin 1], [Fin 2]]] [2] []
           = Inr nling"
      "\<forall>g<length ?outg. \<forall>n<length (?outg ! g).
          take (2 div 2) (?outg ! g ! n) = ling ! g ! n \<and>
          drop (2 div 2) (?outg ! g ! n) = map ?pp (nling ! g ! n)"
    by (elim exE conjE)
  have nvg: "nling = [[[Fin (- 3)], [Fin (- 3)]]]" using ng(1) fgn by simp
  have "drop (2 div 2) (?outg ! 0 ! 1) = map ?pp (nling ! 0 ! 1)"
    using ng(2)[rule_format, of 0 1] by simp
  then have dg: "drop 1 (?outg ! 0 ! 1) = [Fin 0]" by (simp add: nvg)
  from T3 odd have o3:
    "ResGOpConv_init 1 3 1 ?w ?b ?w ?b = Inl ValueError \<and>
     ResGOpConv_gnn_init 1 3 1 ?w ?b ?w ?b = Inl ValueError" by blast
  have A: "\<exists>self. ResGOpConv_init 1 2 1 ?w ?b ?w ?b = Inr self \<and>
      GraphOpConv_forward (gconv_nlin self) (Some ?ops) [[[Fin 1, Fin 2]]] [2] []
        = Inr [[[Fin (- 9 / 2), Fin (- 9 / 2)]]] \<and>
      ResGOpConv_forward self (Some ?ops) [[[Fin 1, Fin 2]]] [2] [] = Inr ?out \<and>
      list_all (\<lambda>g. length g = 2) ?out \<and>
      drop 1 (?out ! 0) = [[Fin 0, Fin 0]]"
    by (intro exI[of _ self] conjI) (fact s(1) fn f l d)+
  have B: "\<exists>self. ResGOpConv_gnn_init 1 2 1 ?w ?b ?w ?b = Inr self \<and>
      GraphOpConv_gnn_forward (gconv_nlin_gnn self) (Some ?ops) [[[Fin 1], [Fin 2]]] [2] []
        = Inr [[[Fin (- 3)], [Fin (- 3)]]] \<and>
      ResGOpConv_gnn_forward self (Some ?ops) [[[Fin 1], [Fin 2]]] [2] [] = Inr ?outg \<and>
      list_all (list_all (\<lambda>row. length row = 2)) ?outg \<and>
      drop 1 (?outg ! 0 ! 1) = [Fin 0]"
    by (intro exI[of _ selfg] conjI) (fact g(1) fgn fg lg dg)+
  show ?thesis
    by (intro conjI) (fact odd even o3[THEN conjunct1] o3[THEN conjunct2] A B)+
qed

text \<open>
  Claim C5, as amended. Let the two convolutions of the layer return \<open>lin\<close> and \<open>nlin\<close>.
  If either contains a NaN, or if the concatenated output does, \<open>forward\<close> fails with
  \<open>AssertionError\<close>; whatever \<open>forward\<close> returns contains no NaN; and if neither \<open>lin\<close>
  nor \<open>nlin\<close> contains a NaN, \<open>forward\<close> of a layer built by the constructor returns
  their concatenation (the assertion is not reached). The same holds in the gnn variant.
\<close>

theorem ResGOpConv_forward_nan_check:
  "(GraphOpConv_forward (gconv_lin self) ops emb_in batch_nb_nodes adj_mask = Inr lin \<and>
    GraphOpConv_forward (gconv_nlin self) ops emb_in batch_nb_nodes adj_mask = Inr nlin \<longrightarrow>
      (nan_count lin > 0 \<or> nan_count nlin > 0 \<longrightarrow>
         ResGOpConv_forward self ops emb_in batch_nb_nodes adj_mask = Inl AssertionError) \<and>
      (\<forall>emb_out. cat1 [lin, relu nlin] = Inr emb_out \<and> nan_count emb_out > 0 \<longrightarrow>
         ResGOpConv_forward self ops emb_in batch_nb_nodes adj_mask = Inl AssertionError) \<and>
      (nan_count lin = 0 \<and> nan_count nlin = 0 \<and>
       ResGOpConv_init in_fm out_fm nb_op w1 b1 w2 b2 = Inr self \<longrightarrow>
         ResGOpConv_forward self ops emb_in batch_nb_nodes adj_mask =
           Inr (concat_fm (size0 emb_in) [lin, relu nlin]))) \<and>
   (\<forall>out. ResGOpConv_forward self ops emb_in batch_nb_nodes adj_mask = Inr out \<longrightarrow>
      nan_count out = 0) \<and>
   (GraphOpConv_gnn_forward (gconv_lin_gnn selfg) ops emb_in batch_nb_nodes adj_mask = Inr ling \<and>
    GraphOpConv_gnn_forward (gconv_nlin_gnn selfg) ops emb_in batch_nb_nodes adj_mask = Inr nling
    \<longrightarrow>
      (nan_count ling > 0 \<or> nan_count nling > 0 \<longrightarrow>
         ResGOpConv_gnn_forward selfg ops emb_in batch_nb_nodes adj_mask = Inl AssertionError) \<and>
      (\<forall>emb_out. cat2 [ling, relu nling] = Inr emb_out \<and> nan_count emb_out > 0 \<longrightarrow>
         ResGOpConv_gnn_forward selfg ops emb_in batch_nb_nodes adj_mask = Inl AssertionError) \<and>
      (nan_count ling = 0 \<and> nan_count nling = 0 \<longrightarrow>
         (\<exists>out. ResGOpConv_gnn_forward selfg ops emb_in batch_nb_nodes adj_mask = Inr out \<and>
                cat2 [ling, relu nling] = Inr out))) \<and>
   (\<forall>out. ResGOpConv_gnn_forward selfg ops emb_in batch_nb_nodes adj_mask = Inr out \<longrightarrow>
      nan_count out = 0)"
proof (intro conjI impI allI)
  assume "GraphOpConv_forward (gconv_lin self) ops emb_in batch_nb_nodes adj_mask = Inr lin \<and>
    GraphOpConv_forward (gconv_nlin self) ops emb_in batch_nb_nodes adj_mask = Inr nlin"
    and "nan_count lin > 0 \<or> nan_count nlin > 0"
  then show "ResGOpConv_forward self ops emb_in batch_nb_nodes adj_mask = Inl AssertionError"
    by (auto simp: ResGOpConv_forward_def check_for_nan_def)
next
  fix emb_out
  assume "GraphOpConv_forward (gconv_lin self) ops emb_in batch_nb_nodes adj_mask = Inr lin \<and>
    GraphOpConv_forward (gconv_nlin self) ops emb_in batch_nb_nodes adj_mask = Inr nlin"
    and "cat1 [lin, relu nlin] = Inr emb_out \<and> nan_count emb_out > 0"
  then show "ResGOpConv_forward self ops emb_in batch_nb_nodes adj_mask = Inl AssertionError"
    by (auto simp: ResGOpConv_forward_def check_for_nan_def)
next
  assume l: "GraphOpConv_forward (gconv_lin self) ops emb_in batch_nb_nodes adj_mask = Inr lin \<and>
    GraphOpConv_forward (gconv_nlin self) ops emb_in batch_nb_nodes adj_mask = Inr nlin"
    and n: "nan_count lin = 0 \<and> nan_count nlin = 0 \<and>
       ResGOpConv_init in_fm out_fm nb_op w1 b1 w2 b2 = Inr self"
  from n have i: "ResGOpConv_init in_fm out_fm nb_op w1 b1 w2 b2 = Inr self" by simp
  show "ResGOpConv_forward self ops emb_in batch_nb_nodes adj_mask =
           Inr (concat_fm (size0 emb_in) [lin, relu nlin])"
    using ResGOpConv_forward_returns(1)[OF _ _ ResGOpConv_init_Inr(2,3)[OF i]] l n by blast
next
  fix out assume "ResGOpConv_forward self ops emb_in batch_nb_nodes adj_mask = Inr out"
  then show "nan_count out = 0" using ResGOpConv_forward_Inr by blast
next
  assume "GraphOpConv_gnn_forward (gconv_lin_gnn selfg) ops emb_in batch_nb_nodes adj_mask = Inr ling \<and>
    GraphOpConv_gnn_forward (gconv_nlin_gnn selfg) ops emb_in batch_nb_nodes adj_mask = Inr nling"
    and "nan_count ling > 0 \<or> nan_count nling > 0"
  then show "ResGOpConv_gnn_forward selfg ops emb_in batch_nb_nodes adj_mask = Inl AssertionError"
    by (auto simp: ResGOpConv_gnn_forward_def check_for_nan_def)
next
  fix emb_out
  assume "GraphOpConv_gnn_forward (gconv_lin_gnn selfg) ops emb_in batch_nb_nodes adj_mask = Inr ling \<and>
    GraphOpConv_gnn_forward (gconv_nlin_gnn selfg) ops emb_in batch_nb_nodes adj_mask = Inr nling"
    and "cat2 [ling, relu nling] = Inr emb_out \<and> nan_count emb_out > 0"
  then show "ResGOpConv_gnn_forward selfg ops emb_in batch_nb_nodes adj_mask = Inl AssertionError"
    by (auto simp: ResGOpConv_gnn_forward_def check_for_nan_def)
next
  assume "GraphOpConv_gnn_forward (gconv_lin_gnn selfg) ops emb_in batch_nb_nodes adj_mask = Inr ling \<and>
    GraphOpConv_gnn_forward (gconv_nlin_gnn selfg) ops emb_in batch_nb_nodes adj_mask = Inr nling"
    and "nan_count ling = 0 \<and> nan_count nling = 0"
  then show "\<exists>out. ResGOpConv_gnn_forward selfg ops emb_in batch_nb_nodes adj_mask = Inr out \<and>
                cat2 [ling, relu nling] = Inr out"
    using ResGOpConv_gnn_forward_returns by blast
next
  fix out assume "ResGOpConv_gnn_forward selfg ops emb_in batch_nb_nodes adj_mask = Inr out"
  then show "nan_count out = 0" using ResGOpConv_gnn_forward_Inr by blast
qed

text \<open>
  The theorem at a graph of one node with the identity as its operator and layers whose
  weights are all zero: at the entry \<open>+\<infinity>\<close> both convolutions return NaN and \<open>forward\<close>
  fails; at the entry 1 they return 0 and \<open>forward\<close> returns.
\<close>

theorem ResGOpConv_forward_nan_check_witness:
  "GraphOpConv_forward (gconv_lin \<lparr>gconv_lin = \<lparr>weight = [[Fin 0, Fin 0, Fin 0]], bias = [Fin 0]\<rparr>,
        gconv_nlin = \<lparr>weight = [[Fin 0, Fin 0, Fin 0]], bias = [Fin 0]\<rparr>\<rparr>) (Some [[[Fin 1]]]) [[[PInf]]] [1] [] = Inr [[[NaN]]] \<and>
   0 < nan_count [[[NaN]]] \<and>
   cat1 [[[[NaN]]], relu [[[NaN]]]] = Inr [[[NaN], [NaN]]] \<and> 0 < nan_count [[[NaN], [NaN]]] \<and>
   ResGOpConv_forward \<lparr>gconv_lin = \<lparr>weight = [[Fin 0, Fin 0, Fin 0]], bias = [Fin 0]\<rparr>,
        gconv_nlin = \<lparr>weight = [[Fin 0, Fin 0, Fin 0]], bias = [Fin 0]\<rparr>\<rparr> (Some [[[Fin 1]]]) [[[PInf]]] [1] [] = Inl AssertionError \<and>
   GraphOpConv_forward (gconv_lin \<lparr>gconv_lin = \<lparr>weight = [[Fin 0, Fin 0, Fin 0]], bias = [Fin 0]\<rparr>,
        gconv_nlin = \<lparr>weight = [[Fin 0, Fin 0, Fin 0]], bias = [Fin 0]\<rparr>\<rparr>) (Some [[[Fin 1]]]) [[[Fin 1]]] [1] [] = Inr [[[Fin 0]]] \<and>
   nan_count [[[Fin 0]]] = 0 \<and>
   ResGOpConv_init 1 2 1 (\<lambda>i j. Fin 0) (\<lambda>i. Fin 0) (\<lambda>i j. Fin 0) (\<lambda>i. Fin 0) = Inr \<lparr>gconv_lin = \<lparr>weight = [[Fin 0, Fin 0, Fin 0]], bias = [Fin 0]\<rparr>,
        gconv_nlin = \<lparr>weight = [[Fin 0, Fin 0, Fin 0]], bias = [Fin 0]\<rparr>\<rparr> \<and>
   ResGOpConv_forward \<lparr>gconv_lin = \<lparr>weight = [[Fin 0, Fin 0, Fin 0]], bias = [Fin 0]\<rparr>,
        gconv_nlin = \<lparr>weight = [[Fin 0, Fin 0, Fin 0]], bias = [Fin 0]\<rparr>\<rparr> (Some [[[Fin 1]]]) [[[Fin 1]]] [1] [] =
     Inr (concat_fm (size0 [[[Fin 1]]]) [[[[Fin 0]]], relu [[[Fin 0]]]]) \<and>
   nan_count (concat_fm (size0 [[[Fin 1]]]) [[[[Fin 0]]], relu [[[Fin 0]]]]) = 0 \<and>
   GraphOpConv_gnn_forward (gconv_lin_gnn \<lparr>gconv_lin_gnn = \<lparr>fc = \<lparr>in_features = 2, out_features = 1,
            lin_weight = [[Fin 0, Fin 0]], lin_bias = [Fin 0]\<rparr>\<rparr>,
        gconv_nlin_gnn = \<lparr>fc = \<lparr>in_features = 2, out_features = 1,
            lin_weight = [[Fin 0, Fin 0]], lin_bias = [Fin 0]\<rparr>\<rparr>\<rparr>) (Some [[[Fin 1]]]) [[[PInf]]] [1] []
     = Inr [[[NaN]]] \<and>
   cat2 [[[[NaN]]], relu [[[NaN]]]] = Inr [[[NaN, NaN]]] \<and> 0 < nan_count [[[NaN, NaN]]] \<and>
   ResGOpConv_gnn_forward \<lparr>gconv_lin_gnn = \<lparr>fc = \<lparr>in_features = 2, out_features = 1,
            lin_weight = [[Fin 0, Fin 0]], lin_bias = [Fin 0]\<rparr>\<rparr>,
        gconv_nlin_gnn = \<lparr>fc = \<lparr>in_features = 2, out_features = 1,
            lin_weight = [[Fin 0, Fin 0]], lin_bias = [Fin 0]\<rparr>\<rparr>\<rparr> (Some [[[Fin 1]]]) [[[PInf]]] [1] [] = Inl AssertionError \<and>
   GraphOpConv_gnn_forward (gconv_lin_gnn \<lparr>gconv_lin_gnn = \<lparr>fc = \<lparr>in_features = 2, out_features = 1,
            lin_weight = [[Fin 0, Fin 0]], lin_bias = [Fin 0]\<rparr>\<rparr>,
        gconv_nlin_gnn = \<lparr>fc = \<lparr>in_features = 2, out_features = 1,
            lin_weight = [[Fin 0, Fin 0]], lin_bias = [Fin 0]\<rparr>\<rparr>\<rparr>) (Some [[[Fin 1]]]) [[[Fin 1]]] [1] []
     = Inr [[[Fin 0]]] \<and>
   (\<exists>out. ResGOpConv_gnn_forward \<lparr>gconv_lin_gnn = \<lparr>fc = \<lparr>in_features = 2, out_features = 1,
            lin_weight = [[Fin 0, Fin 0]], lin_bias = [Fin 0]\<rparr>\<rparr>,
        gconv_nlin_gnn = \<lparr>fc = \<lparr>in_features = 2, out_features = 1,
            lin_weight = [[Fin 0, Fin 0]], lin_bias = [Fin 0]\<rparr>\<rparr>\<rparr> (Some [[[Fin 1]]]) [[[Fin 1]]] [1] [] = Inr out \<and>
      cat2 [[[[Fin 0]]], relu [[[Fin 0]]]] = Inr out \<and> nan_count out = 0)"
proof -
  let ?S = "\<lparr>gconv_lin = \<lparr>weight = [[Fin 0, Fin 0, Fin 0]], bias = [Fin 0]\<rparr>,
        gconv_nlin = \<lparr>weight = [[Fin 0, Fin 0, Fin 0]], bias = [Fin 0]\<rparr>\<rparr>"
  let ?G = "\<lparr>gconv_lin_gnn = \<lparr>fc = \<lparr>in_features = 2, out_features = 1,
            lin_weight = [[Fin 0, Fin 0]], lin_bias = [Fin 0]\<rparr>\<rparr>,
        gconv_nlin_gnn = \<lparr>fc = \<lparr>in_features = 2, out_features = 1,
            lin_weight = [[Fin 0, Fin 0]], lin_bias = [Fin 0]\<rparr>\<rparr>\<rparr>"
  let ?z = "\<lambda>(i::nat) (j::nat). Fin 0" and ?zb = "\<lambda>i::nat. Fin 0"
  let ?ops = "Some [[[Fin 1]]]"
  have a1: "GraphOpConv_forward (gconv_lin ?S) ?ops [[[PInf]]] [1] [] = Inr [[[NaN]]]"
    and a2: "GraphOpConv_forward (gconv_nlin ?S) ?ops [[[PInf]]] [1] [] = Inr [[[NaN]]]"
    and a3: "0 < nan_count [[[NaN]]]"
    and a4: "cat1 [[[[NaN]]], relu [[[NaN]]]] = Inr [[[NaN], [NaN]]]"
    and a5: "0 < nan_count [[[NaN], [NaN]]]"
    by code_simp+
  have b1: "GraphOpConv_forward (gconv_lin ?S) ?ops [[[Fin 1]]] [1] [] = Inr [[[Fin 0]]]"
    and b2: "GraphOpConv_forward (gconv_nlin ?S) ?ops [[[Fin 1]]] [1] [] = Inr [[[Fin 0]]]"
    and b3: "nan_count [[[Fin 0]]] = 0"
    and b4: "ResGOpConv_init 1 2 1 ?z ?zb ?z ?zb = Inr ?S"
    by code_simp+
  have c1: "GraphOpConv_gnn_forward (gconv_lin_gnn ?G) ?ops [[[PInf]]] [1] [] = Inr [[[NaN]]]"
    and c2: "GraphOpConv_gnn_forward (gconv_nlin_gnn ?G) ?ops [[[PInf]]] [1] [] = Inr [[[NaN]]]"
    and c4: "cat2 [[[[NaN]]], relu [[[NaN]]]] = Inr [[[NaN, NaN]]]"
    and c5: "0 < nan_count [[[NaN, NaN]]]"
    by code_simp+
  have d1: "GraphOpConv_gnn_forward (gconv_lin_gnn ?G) ?ops [[[Fin 1]]] [1] [] = Inr [[[Fin 0]]]"
    and d2: "GraphOpConv_gnn_forward (gconv_nlin_gnn ?G) ?ops [[[Fin 1]]] [1] [] = Inr [[[Fin 0]]]"
    by code_simp+
  note N = ResGOpConv_forward_nan_check[where self = ?S and selfg = ?G and ops = ?ops
      and emb_in = "[[[PInf]]]" and batch_nb_nodes = "[1]" and adj_mask = "[]"
      and lin = "[[[NaN]]]" and nlin = "[[[NaN]]]" and ling = "[[[NaN]]]" and nling = "[[[NaN]]]"]
  note C = ResGOpConv_forward_nan_check[where self = ?S and selfg = ?G and ops = ?ops
      and emb_in = "[[[Fin 1]]]" and batch_nb_nodes = "[1]" and adj_mask = "[]"
      and lin = "[[[Fin 0]]]" and nlin = "[[[Fin 0]]]" and ling = "[[[Fin 0]]]"
      and nling = "[[[Fin 0]]]" and in_fm = 1 and out_fm = 2 and nb_op = 1
      and ?w1.0 = ?z and ?b1.0 = ?zb and ?w2.0 = ?z and ?b2.0 = ?zb]
  have n1: "ResGOpConv_forward ?S ?ops [[[PInf]]] [1] [] = Inl AssertionError"
    using N a1 a2 a3 by blast
  have n2: "ResGOpConv_gnn_forward ?G ?ops [[[PInf]]] [1] [] = Inl AssertionError"
    using N c1 c2 a3 by blast
  have r1: "ResGOpConv_forward ?S ?ops [[[Fin 1]]] [1] [] =
     Inr (concat_fm (size0 [[[Fin 1]]]) [[[[Fin 0]]], relu [[[Fin 0]]]])"
    using C b1 b2 b3 b4 by blast
  have r2: "nan_count (concat_fm (size0 [[[Fin 1]]]) [[[[Fin 0]]], relu [[[Fin 0]]]]) = 0"
    using C r1 by blast
  have r3: "\<exists>out. ResGOpConv_gnn_forward ?G ?ops [[[Fin 1]]] [1] [] = Inr out \<and>
      cat2 [[[[Fin 0]]], relu [[[Fin 0]]]] = Inr out \<and> nan_count out = 0"
    using C d1 d2 b3 by blast
  show ?thesis
    using a1 a3 a4 a5 n1 b1 b3 b4 r1 r2 c1 c4 c5 n2 d1 r3 by blast
qed

text \<open>
  The claim as it is written fails: inputs and parameters without NaN do not keep the
  assertion from being reached. With one node of value \<open>+\<infinity>\<close> and all weights zero, the
  products \<open>0 * \<infinity>\<close> are NaN.
\<close>

theorem ResGOpConv_forward_nan_free_inputs_abort:
  "nan_count [[[PInf]]] = 0 \<and>
   ResGOpConv_init 1 2 0 (\<lambda>i j. Fin 0) (\<lambda>i. Fin 0) (\<lambda>i j. Fin 0) (\<lambda>i. Fin 0) =
     Inr \<lparr>gconv_lin = \<lparr>weight = [[Fin 0, Fin 0]], bias = [Fin 0]\<rparr>,
          gconv_nlin = \<lparr>weight = [[Fin 0, Fin 0]], bias = [Fin 0]\<rparr>\<rparr> \<and>
   nan_count [[[Fin 0, Fin 0]], [[Fin 0]]] = 0 \<and>
   GraphOpConv_forward \<lparr>weight = [[Fin 0, Fin 0]], bias = [Fin 0]\<rparr> None [[[PInf]]] [1] [] =
     Inr [[[NaN]]] \<and>
   ResGOpConv_forward
     \<lparr>gconv_lin = \<lparr>weight = [[Fin 0, Fin 0]], bias = [Fin 0]\<rparr>,
      gconv_nlin = \<lparr>weight = [[Fin 0, Fin 0]], bias = [Fin 0]\<rparr>\<rparr>
     None [[[PInf]]] [1] [] = Inl AssertionError"
  by code_simp

section \<open>The Gaussian kernel\<close>

lemma ts_sqdist_nonneg: "list_all (list_all (list_all (\<lambda>d. 0 \<le> d))) (ts_sqdist emb)"
  by (auto simp: ts_sqdist_def list_all_iff intro!: sum_list_nonneg)

lemma gaussian_unit:
  assumes "list_all (list_all (list_all (\<lambda>d. 0 \<le> d))) sqd"
  shows "list_all (list_all (list_all (\<lambda>a. 0 \<le> a \<and> a \<le> 1))) (gaussian sqd s)"
  using assms
  by (auto simp: gaussian_def Let_def list_all_iff mult_nonneg_nonneg)

lemma masked_fill_unit:
  assumes "list_all (list_all (list_all (\<lambda>a. 0 \<le> a \<and> a \<le> (1::real)))) adj"
  shows "list_all (list_all (list_all (\<lambda>a. 0 \<le> a \<and> a \<le> 1))) (masked_fill adj msk 0)"
  unfolding list_all_iff
proof (intro ballI)
  fix g row a assume "g \<in> set (masked_fill adj msk 0)" "row \<in> set g" "a \<in> set row"
  then obtain g0 where g0: "g0 \<in> set adj" "g = map2 (map2 (\<lambda>x m. if m then 0 else x)) g0 msk"
    by (auto simp: masked_fill_def)
  with \<open>row \<in> set g\<close> obtain r0 mr where r0: "(r0, mr) \<in> set (zip g0 msk)"
    "row = map2 (\<lambda>x m. if m then 0 else x) r0 mr" by auto
  with \<open>a \<in> set row\<close> obtain x m where x: "(x, m) \<in> set (zip r0 mr)" "a = (if m then 0 else x)"
    by auto
  have "r0 \<in> set g0" "x \<in> set r0" using r0(1) x(1) by (auto dest: set_zip_leftD)
  then have "0 \<le> x \<and> x \<le> 1" using assms g0(1) unfolding list_all_iff by blast
  then show "0 \<le> a \<and> a \<le> 1" using x(2) by auto
qed

lemma delete_diag_diagonal:
  assumes "delete_diag adj = Inr d"
  shows "list_all (\<lambda>g. \<forall>i<length g. g ! i ! i = 0) d"
  unfolding list_all_iff
proof (intro ballI allI impI)
  fix g i assume g: "g \<in> set d" and i: "i < length g"
  let ?n = "size1 adj"
  have sq: "\<forall>g\<in>set adj. length g = ?n \<and> (\<forall>row\<in>set g. length row = ?n)"
    and d: "d = masked_fill adj (make_tensor_as (?n, ?n)) 0"
    using assms by (auto simp: delete_diag_def Let_def list_all_iff split: if_splits)
  from g obtain g0 where g0: "g0 \<in> set adj"
    "g = map2 (map2 (\<lambda>x m. if m then 0 else x)) g0 (make_tensor_as (?n, ?n))"
    by (auto simp: d masked_fill_def)
  have lg: "length g0 = ?n" "length (g0 ! i) = ?n" "i < ?n"
    using sq g0 i by (auto simp: make_tensor_as_def)
  show "g ! i ! i = 0"
    using lg by (simp add: g0(2) make_tensor_as_def)
qed


lemma delete_diag_off_diagonal:
  assumes "delete_diag adj = Inr d"
  shows "length d = length adj \<and>
         (\<forall>k<length adj. \<forall>i<length (adj ! k). \<forall>j<length (adj ! k ! i).
             i \<noteq> j \<longrightarrow> d ! k ! i ! j = adj ! k ! i ! j)"
proof (intro conjI allI impI)
  let ?n = "size1 adj"
  have sq: "\<forall>g\<in>set adj. length g = ?n \<and> (\<forall>row\<in>set g. length row = ?n)"
    and d: "d = masked_fill adj (make_tensor_as (?n, ?n)) 0"
    using assms by (auto simp: delete_diag_def Let_def list_all_iff split: if_splits)
  show "length d = length adj" by (simp add: d masked_fill_def)
  fix k i j assume k: "k < length adj" and i: "i < length (adj ! k)"
    and j: "j < length (adj ! k ! i)" and ij: "i \<noteq> j"
  have "adj ! k \<in> set adj" using k by simp
  then have l: "length (adj ! k) = ?n" "length (adj ! k ! i) = ?n"
    using sq i by auto
  show "d ! k ! i ! j = adj ! k ! i ! j"
    using k i j ij l by (simp add: d masked_fill_def make_tensor_as_def)
qed

text \<open>
  Claim C2. Let \<open>forward\<close> of a \<open>Gaussian\<close> kernel return \<open>adj\<close>, where the squared
  distances are not negative (as they are for \<open>ts_sqdist\<close>). Every entry of \<open>adj\<close> lies
  in \<open>[0, 1]\<close>. With \<open>diag\<close> the result is \<open>exp(- sqdist * sigma\<^sup>2)\<close> entrywise; without
  it every diagonal entry of every graph is 0 and the other entries are
  \<open>exp(- sqdist * sigma\<^sup>2)\<close>.
\<close>

theorem Gaussian_forward_unit_interval:
  assumes "sqdist self = ts_sqdist \<or> list_all (list_all (list_all (\<lambda>d. 0 \<le> d))) (sqdist self emb)"
    and "Gaussian_forward self emb = (Inr adj, self')"
  shows "list_all (list_all (list_all (\<lambda>a. 0 \<le> a \<and> a \<le> 1))) adj \<and>
         (diag self \<longrightarrow>
            adj = map (map (map (\<lambda>d. exp (- d * (sigma self)\<^sup>2)))) (sqdist self emb)) \<and>
         (\<not> diag self \<longrightarrow>
            list_all (\<lambda>g. \<forall>i<length g. g ! i ! i = 0) adj \<and>
            length adj = length (sqdist self emb) \<and>
            (\<forall>k<length (sqdist self emb). \<forall>i<length (sqdist self emb ! k).
               \<forall>j<length (sqdist self emb ! k ! i). i \<noteq> j \<longrightarrow>
                adj ! k ! i ! j = exp (- (sqdist self emb ! k ! i ! j) * (sigma self)\<^sup>2)))"
proof -
  let ?G = "gaussian (sqdist self emb) (sigma self)"
  have nn: "list_all (list_all (list_all (\<lambda>d. 0 \<le> d))) (sqdist self emb)"
    using assms(1) ts_sqdist_nonneg by auto
  have G: "list_all (list_all (list_all (\<lambda>a. 0 \<le> a \<and> a \<le> 1))) ?G"
    using gaussian_unit[OF nn] .
  show ?thesis
  proof (cases "diag self")
    case True
    then have "adj = ?G"
      using assms(2) by (simp add: Gaussian_forward_def forward_Gaussian_def Let_def)
    then show ?thesis using True G by (simp add: gaussian_def Let_def)
  next
    case False
    then have d: "delete_diag ?G = Inr adj"
      using assms(2)
      by (auto simp: Gaussian_forward_def forward_Gaussian_def Let_def split: sum.splits)
    then have a: "adj = masked_fill ?G (make_tensor_as (size1 ?G, size1 ?G)) 0"
      by (auto simp: delete_diag_def Let_def split: if_splits)
    note O = delete_diag_off_diagonal[OF d]
    have lG: "length ?G = length (sqdist self emb)" by (simp add: gaussian_def Let_def)
    have off: "adj ! k ! i ! j = exp (- (sqdist self emb ! k ! i ! j) * (sigma self)\<^sup>2)"
      if "k < length (sqdist self emb)" "i < length (sqdist self emb ! k)"
        "j < length (sqdist self emb ! k ! i)" "i \<noteq> j" for k i j
    proof -
      have "?G ! k ! i ! j = exp (- (sqdist self emb ! k ! i ! j) * (sigma self)\<^sup>2)"
        and "i < length (?G ! k)" "j < length (?G ! k ! i)"
        using that by (simp_all add: gaussian_def Let_def)
      then show ?thesis using O that(1,4) lG by simp
    qed
    have "list_all (list_all (list_all (\<lambda>a. 0 \<le> a \<and> a \<le> 1))) adj"
      unfolding a using G by (rule masked_fill_unit)
    then show ?thesis
      using False delete_diag_diagonal[OF d] O lG off by simp
  qed
qed


text \<open>
  The theorem at one graph of two nodes at distance 1, with \<open>sigma = 1\<close>, without and
  with the diagonal.
\<close>

theorem Gaussian_forward_unit_interval_witness:
  "sqdist (Gaussian_init None False False False False 1 (\<lambda>x. x)) = ts_sqdist \<and>
   Gaussian_forward (Gaussian_init None False False False False 1 (\<lambda>x. x)) [[[0, 1]]] =
     (Inr [[[0, exp (- 1)], [exp (- 1), 0]]],
      (Gaussian_init None False False False False 1 (\<lambda>x. x))
        \<lparr>adj_matrix := Some [[[0, exp (- 1)], [exp (- 1), 0]]]\<rparr>) \<and>
   \<not> diag (Gaussian_init None False False False False 1 (\<lambda>x. x)) \<and>
   list_all (list_all (list_all (\<lambda>a. 0 \<le> a \<and> a \<le> 1))) [[[0::real, exp (- 1)], [exp (- 1), 0]]] \<and>
   list_all (\<lambda>g. \<forall>i<length g. g ! i ! i = 0) [[[0::real, exp (- 1)], [exp (- 1), 0]]] \<and>
   Gaussian_forward (Gaussian_init None False True False False 1 (\<lambda>x. x)) [[[0, 1]]] =
     (Inr [[[1, exp (- 1)], [exp (- 1), 1]]],
      (Gaussian_init None False True False False 1 (\<lambda>x. x))
        \<lparr>adj_matrix := Some [[[1, exp (- 1)], [exp (- 1), 1]]]\<rparr>) \<and>
   diag (Gaussian_init None False True False False 1 (\<lambda>x. x)) \<and>
   list_all (list_all (list_all (\<lambda>a. 0 \<le> a \<and> a \<le> 1))) [[[1::real, exp (- 1)], [exp (- 1), 1]]]"
proof -
  let ?K = "Gaussian_init None False False False False 1 (\<lambda>x. x)"
  let ?K1 = "Gaussian_init None False True False False 1 (\<lambda>x. x)"
  have s: "sqdist ?K = ts_sqdist" "sqdist ?K1 = ts_sqdist"
    and d: "\<not> diag ?K" "diag ?K1" by (simp_all add: Gaussian_init_def)
  have e: "ts_sqdist [[[0, 1]]] = [[[0, 1], [1, 0]]]"
    by (simp add: ts_sqdist_def ncols_def upt_rec[of 0] upt_rec[of 1])
  have f: "Gaussian_forward ?K [[[0, 1]]] =
      (Inr [[[0, exp (- 1)], [exp (- 1), 0]]],
       ?K\<lparr>adj_matrix := Some [[[0, exp (- 1)], [exp (- 1), 0]]]\<rparr>)"
    by (simp add: Gaussian_forward_def forward_Gaussian_def Let_def s e gaussian_def
        delete_diag_def masked_fill_def make_tensor_as_def size1_def save_adj_def
        upt_rec[of 0] upt_rec[of 1])
       (simp add: Gaussian_init_def)
  have f1: "Gaussian_forward ?K1 [[[0, 1]]] =
      (Inr [[[1, exp (- 1)], [exp (- 1), 1]]],
       ?K1\<lparr>adj_matrix := Some [[[1, exp (- 1)], [exp (- 1), 1]]]\<rparr>)"
    by (simp add: Gaussian_forward_def forward_Gaussian_def Let_def s e gaussian_def save_adj_def d)
       (simp add: Gaussian_init_def)
  note T = Gaussian_forward_unit_interval[OF disjI1[OF s(1)] f]
  note T1 = Gaussian_forward_unit_interval[OF disjI1[OF s(2)] f1]
  have u: "list_all (list_all (list_all (\<lambda>a. 0 \<le> a \<and> a \<le> 1))) [[[0::real, exp (- 1)], [exp (- 1), 0]]]"
    using T by (rule conjunct1)
  have z: "list_all (\<lambda>g. \<forall>i<length g. g ! i ! i = 0) [[[0::real, exp (- 1)], [exp (- 1), 0]]]"
    using T[THEN conjunct2, THEN conjunct2, THEN mp, OF d(1), THEN conjunct1] .
  have u1: "list_all (list_all (list_all (\<lambda>a. 0 \<le> a \<and> a \<le> 1))) [[[1::real, exp (- 1)], [exp (- 1), 1]]]"
    using T1 by (rule conjunct1)
  note s1 = s(1) and d1 = d(1) and d2 = d(2)
  show ?thesis by (intro conjI) (fact s1 f d1 u z f1 d2 u1)+
qed

section \<open>The softmax-normalised Gaussian kernel\<close>

lemma slice_concat:
  "\<forall>m\<in>set ms. length m = n \<Longrightarrow> k < length ms \<Longrightarrow> slice n k (concat ms) = ms ! k"
proof (induction ms arbitrary: k)
  case Nil then show ?case by simp
next
  case (Cons m ms)
  show ?case
  proof (cases k)
    case 0 then show ?thesis using Cons.prems by (simp add: slice_def)
  next
    case (Suc k')
    have "slice n k' (concat ms) = ms ! k'" using Cons Suc by simp
    then show ?thesis using Cons.prems Suc by (simp add: slice_def)
  qed
qed

lemma sum_list_exp_pos: "row \<noteq> [] \<Longrightarrow> 0 < sum_list (map exp (row :: real list))"
proof (induction row)
  case Nil then show ?case by simp
next
  case (Cons a row)
  have "0 \<le> sum_list (map exp row)" by (rule sum_list_nonneg) auto
  moreover have "0 < exp a" by simp
  ultimately show ?case by (simp add: add_pos_nonneg)
qed

lemma sum_list_divide: "sum_list (map (\<lambda>x. f x / c) xs) = sum_list (map f xs) / (c::real)"
  by (induction xs) (simp_all add: add_divide_distrib)

lemma Softmax_row_sums:
  assumes "\<forall>row\<in>set m. row \<noteq> []"
  shows "list_all (\<lambda>row. sum_list row = 1) (Softmax m)"
  unfolding list_all_iff
proof
  fix r assume "r \<in> set (Softmax m)"
  then obtain row where row: "row \<in> set m" "r = map (\<lambda>x. exp x / sum_list (map exp row)) row"
    by (auto simp: Softmax_def)
  have "0 < sum_list (map exp row)" using assms row(1) by (intro sum_list_exp_pos) auto
  then show "sum_list r = 1" by (simp add: row(2) sum_list_divide[of exp])
qed

lemma ts_sqdist_shape:
  assumes "has_shape b f n emb" "0 < f"
  shows "has_shape b n n (ts_sqdist emb)"
proof -
  have "ncols g = n" if "g \<in> set emb" for g
  proof -
    have "g \<noteq> []" using has_shapeD(2)[OF assms(1) that] assms(2) by auto
    then show ?thesis using has_shapeD(3)[OF assms(1) that] by (intro ncols_shape) auto
  qed
  then show ?thesis using has_shapeD(1)[OF assms(1)]
    by (auto simp: ts_sqdist_def has_shape_def list_all_iff)
qed

lemma gaussian_shape: "has_shape b r c sqd \<Longrightarrow> has_shape b r c (gaussian sqd s)"
  by (auto simp: gaussian_def Let_def has_shape_def list_all_iff)

lemma delete_diag_square:
  assumes "has_shape b n n adj" "0 < b"
  shows "\<exists>d. delete_diag adj = Inr d \<and> has_shape b n n d"
proof -
  have s1: "size1 adj = n" using size1_shape[OF assms] .
  have ok: "list_all (\<lambda>g. length g = n \<and> list_all (\<lambda>row. length row = n) g) adj"
    using assms(1) by (simp add: has_shape_def)
  have "has_shape b n n (masked_fill adj (make_tensor_as (n, n)) 0)"
  proof (rule has_shapeI)
    show "length (masked_fill adj (make_tensor_as (n, n)) 0) = b"
      using has_shapeD(1)[OF assms(1)] by (simp add: masked_fill_def)
  next
    fix g assume "g \<in> set (masked_fill adj (make_tensor_as (n, n)) 0)"
    then obtain g0 where g0: "g0 \<in> set adj"
      "g = map2 (map2 (\<lambda>x m. if m then 0 else x)) g0 (make_tensor_as (n, n))"
      by (auto simp: masked_fill_def)
    show "length g = n" using has_shapeD(2)[OF assms(1) g0(1)] by (simp add: g0(2) make_tensor_as_def)
    fix row assume "row \<in> set g"
    then obtain r0 mr where r: "(r0, mr) \<in> set (zip g0 (make_tensor_as (n, n)))"
      "row = map2 (\<lambda>x m. if m then 0 else x) r0 mr"
      by (auto simp: g0(2))
    have "r0 \<in> set g0" "mr \<in> set (make_tensor_as (n, n))"
      using r(1) by (auto dest: set_zip_leftD set_zip_rightD)
    then have "length r0 = n" "length mr = n"
      using has_shapeD(3)[OF assms(1) g0(1)] by (auto simp: make_tensor_as_def)
    then show "length row = n" by (simp add: r(2))
  qed
  then show ?thesis using ok by (simp add: delete_diag_def Let_def s1)
qed

lemma softmax_batch_shaped:
  assumes d: "has_shape b n n d" and b: "0 < b" and n: "0 < n"
  shows "softmax_batch d Softmax = Inr (map Softmax d)"
proof -
  have ld: "length d = b" using has_shapeD(1)[OF d] .
  obtain d0 rest where d0: "d = d0 # rest" using ld b by (cases d) auto
  have nc: "ncols d0 = n"
  proof -
    have "d0 \<in> set d" by (simp add: d0)
    then have "d0 \<noteq> []" "\<forall>row\<in>set d0. length row = n"
      using has_shapeD(2,3)[OF d] n by auto
    then show ?thesis by (intro ncols_shape)
  qed
  have "list_all (list_all (\<lambda>row. length row = ncols d0)) d"
    unfolding nc list_all_iff using has_shapeD(3)[OF d] by blast
  then have "cat0 (d0 # rest) = Inr (concat (d0 # rest))"
    unfolding d0 by (simp add: cat0_def)
  then have c: "cat0 d = Inr (concat d)" by (simp only: d0)
  have sm: "Softmax (concat d) = concat (map Softmax d)"
  proof -
    have eq: "Softmax = map (\<lambda>row. map (\<lambda>x. exp x / sum_list (map exp row)) row)"
      by (rule ext) (simp add: Softmax_def)
    show ?thesis unfolding eq by (rule map_concat)
  qed
  have lens: "\<forall>m\<in>set (map Softmax d). length m = n"
    using has_shapeD(2)[OF d] by (auto simp: Softmax_def)
  have len: "length (concat (map Softmax d)) = b * n"
    using lens ld by (simp add: length_concat comp_def sum_list_const_nat[where c = n] mult.commute)
  have ss: "(b * n + b - 1) div b = n" using pieces_mult[OF b, of n] by (simp add: pieces_def)
  have pc: "pieces n (b * n) = b" using pieces_mult[OF n, of b] by (simp add: mult.commute)
  have ch: "chunk (concat (map Softmax d)) b = Inr (map Softmax d)"
  proof -
    have "map (\<lambda>k. slice n k (concat (map Softmax d))) [0..<b] = map Softmax d"
      using slice_concat[OF lens] ld by (intro nth_equalityI) simp_all
    moreover have "(b * n + b - Suc 0) div b = n" using ss by simp
    ultimately show ?thesis using b n by (simp add: chunk_def len pc Let_def)
  qed
  have st: "stack (map Softmax d) = Inr (map Softmax d)"
  proof -
    have "\<forall>m\<in>set (map Softmax d). map length m = replicate n n"
    proof
      fix m assume "m \<in> set (map Softmax d)"
      then obtain g where g: "g \<in> set d" "m = Softmax g" by auto
      show "map length m = replicate n n"
        unfolding g(2)
        by (rule replicate_eqI[symmetric, THEN sym])
           (use has_shapeD(2,3)[OF d g(1)] in \<open>auto simp: Softmax_def\<close>)
    qed
    then show ?thesis by (auto simp: stack_def d0 list_all_iff)
  qed
  show ?thesis
    by (simp add: softmax_batch_def Let_def c sm ch st size0_def ld)
qed


lemma Softmax_shape: "has_shape b r c d \<Longrightarrow> has_shape b r c (map Softmax d)"
  by (auto simp: has_shape_def list_all_iff Softmax_def)

text \<open>
  Claim C3. For squared distances of shape \<open>(b, n, n)\<close> with \<open>b, n > 0\<close> (as \<open>ts_sqdist\<close>
  gives on an embedding of shape \<open>(b, f, n)\<close>, \<open>f > 0\<close>), \<open>forward\<close> of a
  \<open>GaussianSoftmax\<close> kernel returns, and caches, the row-wise softmax of every graph of the
  Gaussian adjacency (its diagonal zeroed without \<open>diag\<close>): flattening the batch into the
  rows, applying the softmax and cutting the rows into the batch again is the softmax
  of each graph. The result has shape \<open>(b, n, n)\<close> and every row of it sums to 1.
\<close>

theorem GaussianSoftmax_forward_rows_sum_to_one:
  assumes "sqdist self = ts_sqdist \<and> has_shape b f n emb \<and> 0 < f \<or>
           has_shape b n n (sqdist self emb)"
    and "0 < b" and "0 < n"
  shows "\<exists>adj d.
           (if \<not> diag self then delete_diag (gaussian (sqdist self emb) (sigma self))
            else Inr (gaussian (sqdist self emb) (sigma self))) = Inr d \<and>
           adj = map Softmax d \<and>
           GaussianSoftmax_forward self emb = (Inr adj, save_adj self adj) \<and>
           has_shape b n n adj \<and>
           list_all (list_all (\<lambda>row. sum_list row = 1)) adj"
proof -
  let ?G = "gaussian (sqdist self emb) (sigma self)"
  have "has_shape b n n (sqdist self emb)" using assms(1) ts_sqdist_shape by auto
  then have G: "has_shape b n n ?G" by (rule gaussian_shape)
  obtain d where d: "(if \<not> diag self then delete_diag ?G else Inr ?G) = Inr d"
    "has_shape b n n d"
    using G delete_diag_square[OF G assms(2)] by (cases "diag self") auto
  have sm: "softmax_batch d Softmax = Inr (map Softmax d)"
    using softmax_batch_shaped[OF d(2) assms(2,3)] .
  have f: "GaussianSoftmax_forward self emb = (Inr (map Softmax d), save_adj self (map Softmax d))"
    using d(1) by (simp add: GaussianSoftmax_forward_def forward_Gaussian_def Let_def sm)
  have "list_all (\<lambda>row. sum_list row = 1) (Softmax g)" if "g \<in> set d" for g
    using has_shapeD(3)[OF d(2) that] assms(3) by (intro Softmax_row_sums) auto
  then have "list_all (list_all (\<lambda>row. sum_list row = 1)) (map Softmax d)"
    by (simp add: list_all_iff)
  then show ?thesis using d(1) f Softmax_shape[OF d(2)] by blast
qed

text \<open>The theorem at one graph of two nodes with one feature map.\<close>

theorem GaussianSoftmax_forward_rows_sum_to_one_witness:
  "sqdist (Gaussian_init None False False False False 1 (\<lambda>x. x)) = ts_sqdist \<and>
   has_shape 1 1 2 [[[0::real, 1]]] \<and> (0::nat) < 1 \<and> (0::nat) < 2 \<and>
   (\<exists>adj d.
      (if \<not> diag (Gaussian_init None False False False False 1 (\<lambda>x. x))
       then delete_diag (gaussian (sqdist (Gaussian_init None False False False False 1 (\<lambda>x. x))
                           [[[0, 1]]])
                 (sigma (Gaussian_init None False False False False 1 (\<lambda>x. x))))
       else Inr (gaussian (sqdist (Gaussian_init None False False False False 1 (\<lambda>x. x))
                           [[[0, 1]]])
                 (sigma (Gaussian_init None False False False False 1 (\<lambda>x. x))))) = Inr d \<and>
      adj = map Softmax d \<and>
      GaussianSoftmax_forward (Gaussian_init None False False False False 1 (\<lambda>x. x)) [[[0, 1]]]
        = (Inr adj, save_adj (Gaussian_init None False False False False 1 (\<lambda>x. x)) adj) \<and>
      has_shape 1 2 2 adj \<and>
      list_all (list_all (\<lambda>row. sum_list row = 1)) adj)"
proof -
  let ?K = "Gaussian_init None False False False False 1 (\<lambda>x. x)"
  have h: "sqdist ?K = ts_sqdist \<and> has_shape 1 1 2 [[[0::real, 1]]] \<and> (0::nat) < 1"
    by (simp add: Gaussian_init_def has_shape_def)
  have p: "(0::nat) < 1" "(0::nat) < 2" by simp_all
  note T = GaussianSoftmax_forward_rows_sum_to_one[OF disjI1[OF h] p]
  show ?thesis using h p T by blast
qed

section \<open>The directed Gaussian kernel\<close>

lemma sum_weights_loop_first:
  "sum_weights_loop (adj0 # rest) batch = sum_weights_loop (adj0 # rest') batch"
  by (induction batch) (simp_all split: sum.splits)


lemma get_summed_weights_swap: "get_summed_weights [[0, 1], [1, 0]] = Inr [1, 1]"
  by (simp add: get_summed_weights_def ncols_def column_def Let_def upt_rec[of 0] upt_rec[of 1])

lemma get_summed_weights_zero: "get_summed_weights [[0, 0], [0, 0]] = Inr [0, 0]"
  by (simp add: get_summed_weights_def ncols_def column_def Let_def upt_rec[of 0] upt_rec[of 1])

lemma ts_sqdist_adj_example: "ts_sqdist [[[0, 1], [1, 0]], [[0, 0], [0, 0]]] = [[[0, 2], [2, 0]], [[0, 0], [0, 0]]]"
  by (simp add: ts_sqdist_def ncols_def upt_rec[of 0] upt_rec[of 1])

lemma ts_sqdist_emb_example: "ts_sqdist [[[0, 0]], [[0, 0]]] = [[[0, 0], [0, 0]], [[0, 0], [0, 0]]]"
  by (simp add: ts_sqdist_def ncols_def upt_rec[of 0] upt_rec[of 1])

lemma sum_weights_loop_example: "sum_weights_loop [[[0, 1], [1, 0]], [[0, 0], [0, 0]]] 2 = Inr [[[1, 1]], [[1, 1]]]"
  by (simp add: numeral_2_eq_2 get_summed_weights_swap)

text \<open>
  Claim C7, at a batch of two graphs of two nodes: the first graph has the two edges
  between its nodes, the second has none; all embeddings are 0, \<open>theta = 0.67\<close>,
  \<open>sigma = 1\<close>. The loop of \<open>forward\<close> reads \<open>adj_in[0]\<close> at every turn, so the summed
  weights it collects do not depend on the other graphs of the batch, and the Gaussian
  kernel is applied to \<open>adj_in\<close>. For the second graph \<open>forward\<close> returns 1 everywhere,
  where the claimed blend of the kernel of its embeddings (1 everywhere) and of its own
  summed weights (0) is 0.67 everywhere.
\<close>

theorem DirectedGaussian_forward_uses_first_graph:
  "sum_weights_loop (adj0 # rest) batch = sum_weights_loop (adj0 # rest') batch \<and>
   fst (DirectedGaussian_forward (DirectedGaussian_init 1 (67 / 100) 1 1 (\<lambda>x. x))
          [[[0, 1], [1, 0]], [[0, 0], [0, 0]]] [[[0, 0]], [[0, 0]]] 0) =
     Inr [[[1, 67 / 100 * exp (- 2) + 33 / 100], [67 / 100 * exp (- 2) + 33 / 100, 1]],
          [[1, 1], [1, 1]]] \<and>
   DirectedGaussian_claimed (DirectedGaussian_init 1 (67 / 100) 1 1 (\<lambda>x. x))
          [[[0, 1], [1, 0]], [[0, 0], [0, 0]]] [[[0, 0]], [[0, 0]]] =
     [[[1, 1], [1, 1]], [[67 / 100, 67 / 100], [67 / 100, 67 / 100]]]"
proof -
  let ?K = "DirectedGaussian_init 1 (67 / 100) 1 1 (\<lambda>x. x)"
  have g: "Gaussian_forward (gauss_ker ?K) [[[0, 1], [1, 0]], [[0, 0], [0, 0]]] =
      (Inr [[[1, exp (- 2)], [exp (- 2), 1]], [[1, 1], [1, 1]]],
       (gauss_ker ?K)\<lparr>adj_matrix := Some [[[1, exp (- 2)], [exp (- 2), 1]], [[1, 1], [1, 1]]]\<rparr>)"
    by (simp add: DirectedGaussian_init_def Gaussian_init_def Gaussian_forward_def
        forward_Gaussian_def Let_def ts_sqdist_adj_example gaussian_def save_adj_def)
  have c: "cat0 [[[1, 1]], [[1, 1::real]]] = Inr [[1, 1], [1, 1]]"
    by (simp add: cat0_def ncols_def)
  have e: "expand3 [[1, 1], [1, 1::real]] 2 2 2 = Inr [[[1, 1], [1, 1]], [[1, 1], [1, 1]]]"
    by (simp add: expand3_def ncols_def numeral_2_eq_2)
  have t: "transpose12 [[[1, 1], [1, 1::real]], [[1, 1], [1, 1]]] = [[[1, 1], [1, 1]], [[1, 1], [1, 1]]]"
    by (simp add: transpose12_def transpose.simps)
  have b: "blend (67 / 100) [[[1, exp (- 2)], [exp (- 2), 1]], [[1, 1], [1, 1]]]
             [[[1, 1], [1, 1]], [[1, 1], [1, 1]]] =
     Inr [[[1, 67 / 100 * exp (- 2) + 33 / 100], [67 / 100 * exp (- 2) + 33 / 100, 1]],
          [[1, 1], [1, 1]]]"
    by (simp add: blend_def)
  have th: "theta ?K = 67 / 100" by (simp add: DirectedGaussian_init_def)
  have 1: "fst (DirectedGaussian_forward ?K
          [[[0, 1], [1, 0]], [[0, 0], [0, 0]]] [[[0, 0]], [[0, 0]]] 0) =
     Inr [[[1, 67 / 100 * exp (- 2) + 33 / 100], [67 / 100 * exp (- 2) + 33 / 100, 1]],
          [[1, 1], [1, 1]]]"
  proof -
    have s0: "size0 [[[0, 0]], [[0, 0::real]]] = 2" and s2: "size2 [[[0, 0]], [[0, 0::real]]] = 2"
      by (simp_all add: size0_def size2_def)
    show ?thesis
      by (simp only: DirectedGaussian_forward_def Let_def s0 s2 sum_weights_loop_example c e t g th b
          sum.case prod.case fst_conv)
  qed
  have 2: "DirectedGaussian_claimed ?K
          [[[0, 1], [1, 0]], [[0, 0], [0, 0]]] [[[0, 0]], [[0, 0]]] =
     [[[1, 1], [1, 1]], [[67 / 100, 67 / 100], [67 / 100, 67 / 100]]]"
  proof -
    have gk: "gaussian (sqdist (gauss_ker ?K) [[[0, 0]], [[0, 0]]]) (sigma (gauss_ker ?K)) =
        [[[1, 1], [1, 1]], [[1, 1], [1, 1]]]"
      by (simp add: DirectedGaussian_init_def Gaussian_init_def ts_sqdist_emb_example gaussian_def)
    show ?thesis
      by (simp only: DirectedGaussian_claimed_def gk th) (simp add: get_summed_weights_swap get_summed_weights_zero)
  qed
  show ?thesis using sum_weights_loop_first[of adj0 rest batch rest'] 1 2 by (intro conjI)
qed

section \<open>Caching of the last adjacency matrix\<close>

lemma MPNNdirected_forward_state: "snd (MPNNdirected_forward self adj_in emb_in) = self"
  by (simp add: MPNNdirected_forward_def Let_def split: sum.splits)

lemma std_example: "std [[[0, 1, 2]]] = Inr 1"
  by (simp add: std_def Let_def power2_eq_square)

lemma mpnn_loop_example:
  "mpnn_loop [1] 0 [[[0, 1, 2]]] [[[0, 0, 0], [0, 0, 0], [0, 0, 0]]] 3 =
     [[[0, 1, 2], [1, 2, 3], [2, 3, 4]]]"
  by (simp add: numeral_3_eq_3 rdot_def upt_rec[of 0] upt_rec[of 1] upt_rec[of 2] Let_def)

text \<open>
  A constant embedding has standard deviation 0: with a positive value and a positive
  \<open>v\<close> every entry of the result is \<open>sigmoid\<close> of plus infinity.
\<close>

lemma MPNNdirected_forward_constant_example:
  "fst (MPNNdirected_forward (MPNNdirected_init 1 (\<lambda>i. 1) 0) adj_in [[[2, 2, 2]]]) =
     Inr [[[1, 1, 1], [1, 1, 1], [1, 1, 1]]]"
proof -
  have s: "size0 [[[2, 2, 2::real]]] = 1" "size1 [[[2, 2, 2::real]]] = 1"
    "size2 [[[2, 2, 2::real]]] = 3"
    by (simp_all add: size0_def size1_def size2_def)
  have d: "std [[[2, 2, 2]]] = Inr 0" by (simp add: std_def Let_def)
  have k: "mpnn_v (MPNNdirected_init 1 (\<lambda>i. 1) 0) = [1]"
    by (simp add: MPNNdirected_init_def)
  show ?thesis
    by (simp only: MPNNdirected_forward_def Let_def s d k sum.case)
       (simp add: numeral_3_eq_3)
qed

text \<open>
  The kernels whose \<open>forward\<close> calls \<open>self.save_adj\<close>: with \<open>layerwise\<close> nothing is
  stored and \<open>update\<close> is \<open>forward\<close>; without it \<open>update\<close> returns what the last
  \<open>forward\<close> returned.
\<close>

lemma Adj_Kernel_layerwise:
  "layerwise self \<Longrightarrow> save_adj self adj = self \<and> update forward self = forward self"
  by (simp add: save_adj_def update_def)

lemma Gaussian_forward_caches:
  assumes "Gaussian_forward self emb = (Inr adj, self')" and "\<not> layerwise self"
  shows "update (\<lambda>k. Gaussian_forward k emb') self' = (Inr adj, self')"
  using assms
  by (auto simp: Gaussian_forward_def forward_Gaussian_def Let_def save_adj_def update_def
           Adj_Kernel_update_def split: sum.splits)

text \<open>
  Claim C8, at the kernel \<open>MPNNdirected\<close>, which is always built without \<open>layerwise\<close>:
  its \<open>forward\<close> never calls \<open>self.save_adj\<close>, so it leaves the kernel as the constructor
  built it, and an \<open>update\<close> after it fails on the attribute \<open>adj_matrix\<close>, which does not
  exist. The last part evaluates \<open>forward\<close> on one graph of three nodes with embeddings
  0, 1, 2 (whose standard deviation is 1), \<open>v = 1\<close> and \<open>b = 0\<close>.
\<close>

theorem MPNNdirected_forward_does_not_cache:
  "snd (MPNNdirected_forward (MPNNdirected_init fmaps0 v0 b0) adj_in emb_in) =
     MPNNdirected_init fmaps0 v0 b0 \<and>
   update (\<lambda>k. MPNNdirected_forward k adj_in emb_in)
     (snd (MPNNdirected_forward (MPNNdirected_init fmaps0 v0 b0) adj_in emb_in)) =
     (Inl AttributeError, MPNNdirected_init fmaps0 v0 b0) \<and>
   fst (MPNNdirected_forward (MPNNdirected_init 1 (\<lambda>i. 1) 0) [[[1, 1, 1], [1, 1, 1], [1, 1, 1]]]
          [[[0, 1, 2]]]) =
     Inr [[[sigmoid 0, sigmoid 1, sigmoid 2], [sigmoid 1, sigmoid 2, sigmoid 3],
           [sigmoid 2, sigmoid 3, sigmoid 4]]]"
proof -
  have 1: "snd (MPNNdirected_forward (MPNNdirected_init fmaps0 v0 b0) adj_in emb_in) =
     MPNNdirected_init fmaps0 v0 b0" by (rule MPNNdirected_forward_state)
  have 2: "update (\<lambda>k. MPNNdirected_forward k adj_in emb_in) (MPNNdirected_init fmaps0 v0 b0) =
     (Inl AttributeError, MPNNdirected_init fmaps0 v0 b0)"
    by (simp add: update_def Adj_Kernel_update_def MPNNdirected_init_def)
  have s: "size0 [[[0, 1, 2::real]]] = 1" "size1 [[[0, 1, 2::real]]] = 1"
    "size2 [[[0, 1, 2::real]]] = 3"
    by (simp_all add: size0_def size1_def size2_def)
  have k: "mpnn_v (MPNNdirected_init 1 (\<lambda>i. 1) 0) = [1]" "mpnn_b (MPNNdirected_init 1 (\<lambda>i. 1) 0) = 0"
    by (simp_all add: MPNNdirected_init_def)
  have r: "replicate 1 (replicate 3 (replicate 3 (0::real))) = [[[0, 0, 0], [0, 0, 0], [0, 0, 0]]]"
    by (simp add: numeral_3_eq_3)
  have 3: "fst (MPNNdirected_forward (MPNNdirected_init 1 (\<lambda>i. 1) 0)
          [[[1, 1, 1], [1, 1, 1], [1, 1, 1]]] [[[0, 1, 2]]]) =
     Inr [[[sigmoid 0, sigmoid 1, sigmoid 2], [sigmoid 1, sigmoid 2, sigmoid 3],
           [sigmoid 2, sigmoid 3, sigmoid 4]]]"
    by (simp only: MPNNdirected_forward_def Let_def s std_example k r sum.case) (simp add: mpnn_loop_example)
  show ?thesis using 1 2 3 by simp
qed

section \<open>The statistics buffers\<close>

lemma set_buffer_fields:
  "buffer (set_buffer s m k v) m' k' = (if m' = m \<and> k' = k then v else buffer s m' k')"
  "nbdisplay (set_buffer s m k v) = nbdisplay s"
  "stats (set_buffer s m k v) = stats s"
  "files (set_buffer s m k v) = files s"
  "printed (set_buffer s m k v) = printed s"
  "nb_batch_in_buffer (set_buffer s m k v) = nb_batch_in_buffer s"
  "nb_events_seen (set_buffer s m k v) = nb_events_seen s"
  by (simp_all add: set_buffer_def)

lemma write_stat_fields:
  "files (write_stat s n v) f = (if f = n @ ''.csv'' then files s f @ [v] else files s f)"
  "buffer (write_stat s n v) = buffer s"
  "nbdisplay (write_stat s n v) = nbdisplay s"
  "stats (write_stat s n v) = stats s"
  "printed (write_stat s n v) = printed s"
  "nb_batch_in_buffer (write_stat s n v) = nb_batch_in_buffer s"
  "nb_events_seen (write_stat s n v) = nb_events_seen s"
  by (simp_all add: write_stat_def Let_def)

lemma fold_zero_fields:
  "buffer (fold (\<lambda>stat self. self\<lparr>buffer := (buffer self)(m := (buffer self m)(stat := 0))\<rparr>) xs s) m' k
     = (if m' = m \<and> k \<in> set xs then 0 else buffer s m' k)"
  "files (fold (\<lambda>stat self. self\<lparr>buffer := (buffer self)(m := (buffer self m)(stat := 0))\<rparr>) xs s) = files s"
  "printed (fold (\<lambda>stat self. self\<lparr>buffer := (buffer self)(m := (buffer self m)(stat := 0))\<rparr>) xs s) = printed s"
  "nb_batch_in_buffer (fold (\<lambda>stat self. self\<lparr>buffer := (buffer self)(m := (buffer self m)(stat := 0))\<rparr>) xs s)
     = nb_batch_in_buffer s"
  "nb_events_seen (fold (\<lambda>stat self. self\<lparr>buffer := (buffer self)(m := (buffer self m)(stat := 0))\<rparr>) xs s)
     = nb_events_seen s"
  "stats (fold (\<lambda>stat self. self\<lparr>buffer := (buffer self)(m := (buffer self m)(stat := 0))\<rparr>) xs s) = stats s"
  "nbdisplay (fold (\<lambda>stat self. self\<lparr>buffer := (buffer self)(m := (buffer self m)(stat := 0))\<rparr>) xs s)
     = nbdisplay s"
  by (induction xs arbitrary: s) simp_all

lemma init_buffer_fields:
  "buffer (init_buffer s m) m' k =
     (if m' = m \<and> (k \<in> set (stats s) \<or> k = ''nb_ones'' \<or> k = ''nb_zero'') then 0
      else buffer s m' k)"
  "files (init_buffer s m) = files s"
  "printed (init_buffer s m) = printed s"
  "nb_batch_in_buffer (init_buffer s m) m' = (if m' = m then 0 else nb_batch_in_buffer s m')"
  "nb_events_seen (init_buffer s m) = nb_events_seen s"
  "stats (init_buffer s m) = stats s"
  "nbdisplay (init_buffer s m) = nbdisplay s"
  by (simp_all add: init_buffer_def Let_def fold_zero_fields)


lemma fold_write_stat_fields:
  "buffer (fold (\<lambda>stat self. write_stat self stat (buffer self m stat)) xs s) = buffer s"
  "printed (fold (\<lambda>stat self. write_stat self stat (buffer self m stat)) xs s) = printed s"
  "nb_events_seen (fold (\<lambda>stat self. write_stat self stat (buffer self m stat)) xs s)
     = nb_events_seen s"
  "stats (fold (\<lambda>stat self. write_stat self stat (buffer self m stat)) xs s) = stats s"
  "nb_batch_in_buffer (fold (\<lambda>stat self. write_stat self stat (buffer self m stat)) xs s)
     = nb_batch_in_buffer s"
  by (induction xs arbitrary: s) (simp_all add: write_stat_fields)

lemma fold_write_stat_files:
  "distinct xs \<Longrightarrow>
   files (fold (\<lambda>stat self. write_stat self stat (buffer self m stat)) xs s) (x @ ''.csv'') =
     (if x \<in> set xs then files s (x @ ''.csv'') @ [buffer s m x] else files s (x @ ''.csv''))"
  by (induction xs arbitrary: s) (auto simp: write_stat_fields fold_write_stat_fields)

lemma not_loss:
  "filter (\<lambda>stat. \<not> py_in ''loss'' stat) [''loss'', ''kernel'', ''avg0'', ''avg1'', ''std0'', ''std1'']
     = [''kernel'', ''avg0'', ''avg1'', ''std0'', ''std1'']"
  by simp

lemma update_buffer_complete:
  assumes st: "stats self = [''loss'', ''kernel'', ''avg0'', ''avg1'', ''std0'', ''std1'']"
    and nd: "0 < nbdisplay self"
    and w: "nbdisplay self \<le> nb_batch_in_buffer self m + 1"
  shows "\<exists>self'. update_buffer self m = Inr self' \<and>
     nb_batch_in_buffer self' m = 0 \<and>
     list_all (\<lambda>k. buffer self' m k = 0) (stats self @ [''nb_ones'', ''nb_zero'']) \<and>
     (m = Train \<longrightarrow>
        list_all (\<lambda>stat. files self' (stat @ ''.csv'') =
                          files self (stat @ ''.csv'') @ [normalized self m stat]) (stats self) \<and>
        files self' ''loss_step.csv'' = files self ''loss_step.csv'' \<and>
        printed self' = printed self @
          [(nb_events_seen self m, map (\<lambda>stat. (stat, normalized self m stat)) (stats self))]) \<and>
     (m = Test \<longrightarrow>
        files self' = files self \<and>
        printed self' = printed self @
          [(nb_events_seen self m,
            map (\<lambda>stat. (stat, normalized self m stat))
              [''kernel'', ''avg0'', ''avg1'', ''std0'', ''std1''])])"
proof -
  define s1 where
    "s1 = self\<lparr>nb_batch_in_buffer := (nb_batch_in_buffer self)(m := nb_batch_in_buffer self m + 1)\<rparr>"
  define s2 where "s2 = set_buffer s1 m ''loss'' (buffer s1 m ''loss'' / real (nbdisplay s1))"
  define s3 where "s3 = set_buffer s2 m ''kernel'' (buffer s2 m ''kernel'' / real (nbdisplay s2))"
  define s4 where
    "s4 = (if buffer s3 m ''nb_ones'' > 0 then
             (let self = set_buffer s3 m ''avg1'' (buffer s3 m ''avg1'' / buffer s3 m ''nb_ones'');
                  var1 = buffer self m ''std1'' / buffer self m ''nb_ones'';
                  var1 = var1 - (buffer self m ''avg1'')\<^sup>2;
                  var1 = max 0 var1
              in set_buffer self m ''std1'' (sqrt var1))
           else s3)"
  define s5 where
    "s5 = (if buffer s4 m ''nb_zero'' > 0 then
             (let self = set_buffer s4 m ''avg0'' (buffer s4 m ''avg0'' / buffer s4 m ''nb_zero'');
                  var0 = buffer self m ''std0'' / buffer self m ''nb_zero'';
                  var0 = var0 - (buffer self m ''avg0'')\<^sup>2;
                  var0 = max 0 var0
              in set_buffer self m ''std0'' (sqrt var0))
           else s4)"
  define s6 where
    "s6 = (if m = Train then
             (let self = fold (\<lambda>stat self. write_stat self stat (buffer self m stat))
                           (stats s5) s5
              in self\<lparr>printed := printed self @
                     [(nb_events_seen self m,
                       map (\<lambda>stat. (stat, buffer self m stat)) (stats self))]\<rparr>)
           else
             s5\<lparr>printed := printed s5 @
                     [(nb_events_seen s5 m,
                       map (\<lambda>stat. (stat, buffer s5 m stat))
                         (filter (\<lambda>stat. \<not> py_in ''loss'' stat) (stats s5)))]\<rparr>)"
  have eq: "update_buffer self m =
           (if nbdisplay s1 \<le> nb_batch_in_buffer s1 m then
              if nbdisplay s1 = 0 then Inl ZeroDivisionError else Inr (init_buffer s6 m)
            else Inr s1)"
    unfolding update_buffer_def s6_def s5_def s4_def s3_def s2_def s1_def Let_def
    by (rule refl)
  have b3: "buffer s3 m k = (if k = ''loss'' \<or> k = ''kernel''
              then buffer self m k / real (nbdisplay self) else buffer self m k)" for k
    by (simp add: s3_def s2_def s1_def set_buffer_fields)
  have b4: "buffer s4 m k =
      (if k = ''avg1'' \<and> buffer self m ''nb_ones'' > 0
         then buffer self m ''avg1'' / buffer self m ''nb_ones''
       else if k = ''std1'' \<and> buffer self m ''nb_ones'' > 0
         then sqrt (max 0 (buffer self m ''std1'' / buffer self m ''nb_ones''
                - (buffer self m ''avg1'' / buffer self m ''nb_ones'')\<^sup>2))
       else buffer s3 m k)" for k
    by (simp add: s4_def Let_def set_buffer_fields b3)
  have b5: "buffer s5 m k =
      (if k = ''avg0'' \<and> buffer self m ''nb_zero'' > 0
         then buffer self m ''avg0'' / buffer self m ''nb_zero''
       else if k = ''std0'' \<and> buffer self m ''nb_zero'' > 0
         then sqrt (max 0 (buffer self m ''std0'' / buffer self m ''nb_zero''
                - (buffer self m ''avg0'' / buffer self m ''nb_zero'')\<^sup>2))
       else buffer s4 m k)" for k
    by (simp add: s5_def Let_def set_buffer_fields b4 b3)
  have n5: "buffer s5 m = normalized self m"
    by (rule ext) (simp add: b5 b4 b3 normalized_def Let_def)
  have f5: "stats s5 = stats self" "files s5 = files self" "printed s5 = printed self"
      "nb_events_seen s5 = nb_events_seen self"
    and f1: "nbdisplay s1 = nbdisplay self"
      "nb_batch_in_buffer s1 m = nb_batch_in_buffer self m + 1"
    by (simp_all add: s5_def s4_def s3_def s2_def s1_def Let_def set_buffer_fields)
  have r: "update_buffer self m = Inr (init_buffer s6 m)"
    using nd w by (simp add: eq f1)
  have st6: "stats s6 = stats self"
    by (simp add: s6_def Let_def fold_write_stat_fields f5)
  have z: "nb_batch_in_buffer (init_buffer s6 m) m = 0"
    "list_all (\<lambda>k. buffer (init_buffer s6 m) m k = 0) (stats self @ [''nb_ones'', ''nb_zero''])"
    by (simp_all add: init_buffer_fields st6 list_all_iff)
  have tr: "list_all (\<lambda>stat. files (init_buffer s6 m) (stat @ ''.csv'') =
                          files self (stat @ ''.csv'') @ [normalized self m stat]) (stats self) \<and>
        files (init_buffer s6 m) ''loss_step.csv'' = files self ''loss_step.csv'' \<and>
        printed (init_buffer s6 m) = printed self @
          [(nb_events_seen self m, map (\<lambda>stat. (stat, normalized self m stat)) (stats self))]"
    if "m = Train"
  proof -
    have d: "distinct (stats s5)" by (simp add: f5 st)
    have s6': "s6 = (let self = fold (\<lambda>stat self. write_stat self stat (buffer self m stat))
                           (stats s5) s5
              in self\<lparr>printed := printed self @
                     [(nb_events_seen self m,
                       map (\<lambda>stat. (stat, buffer self m stat)) (stats self))]\<rparr>)"
      using that by (simp add: s6_def)
    have fl: "files s6 (x @ ''.csv'') =
        (if x \<in> set (stats self) then files self (x @ ''.csv'') @ [normalized self m x]
         else files self (x @ ''.csv''))" for x
      using fold_write_stat_files[OF d, of m s5 x]
      by (simp add: s6' Let_def f5 n5)
    have ls: "files s6 ''loss_step.csv'' = files self ''loss_step.csv''"
      using fl[of "''loss_step''"] by (simp add: st)
    have pr: "printed s6 = printed self @
          [(nb_events_seen self m, map (\<lambda>stat. (stat, normalized self m stat)) (stats self))]"
      by (simp add: s6' Let_def fold_write_stat_fields f5 n5)
    show ?thesis
      by (simp add: init_buffer_fields fl pr ls list_all_iff)
  qed
  have te: "files (init_buffer s6 m) = files self \<and>
        printed (init_buffer s6 m) = printed self @
          [(nb_events_seen self m,
            map (\<lambda>stat. (stat, normalized self m stat))
              [''kernel'', ''avg0'', ''avg1'', ''std0'', ''std1''])]"
    if "m = Test"
  proof -
    have s6': "s6 = s5\<lparr>printed := printed s5 @
                     [(nb_events_seen s5 m,
                       map (\<lambda>stat. (stat, buffer s5 m stat))
                         (filter (\<lambda>stat. \<not> py_in ''loss'' stat) (stats s5)))]\<rparr>"
      using that by (simp add: s6_def)
    show ?thesis
      by (simp add: init_buffer_fields s6' f5 n5 st not_loss[simplified])
  qed
  show ?thesis using r z tr te by blast
qed


lemma Statistics_init_fields:
  "stats (Statistics_init a d) = [''loss'', ''kernel'', ''avg0'', ''avg1'', ''std0'', ''std1'']"
  "nbdisplay (Statistics_init a d) = d"
  "nb_batch_in_buffer (Statistics_init a d) m = 0"
  "buffer (Statistics_init a d) m k = 0"
  "files (Statistics_init a d) = (\<lambda>f. [])"
  "printed (Statistics_init a d) = []"
  "nb_events_seen (Statistics_init a d) = (\<lambda>m. 0)"
  by (simp_all add: Statistics_init_def init_buffer_fields)

lemma Statistics_update_Test:
  "\<exists>U. Statistics_update self Test output labels loss_step kernel_std = update_buffer U Test \<and>
       stats U = stats self \<and> nbdisplay U = nbdisplay self \<and>
       nb_batch_in_buffer U = nb_batch_in_buffer self \<and> files U = files self \<and>
       printed U = printed self \<and>
       nb_events_seen U Test = nb_events_seen self Test + length labels \<and>
       (\<forall>k. buffer U Test k = buffer self Test k +
          (if k = ''loss'' then loss_step
           else if k = ''kernel'' then kernel_std
           else if k = ''nb_ones'' then sum_list labels
           else if k = ''avg1'' then sum_list (map2 (*) output labels)
           else if k = ''std1'' then sum_list (map (\<lambda>x. x\<^sup>2) (map2 (*) output labels))
           else if k = ''nb_zero'' then sum_list (map (\<lambda>l. 1 - l) labels)
           else if k = ''avg0'' then sum_list (map2 (\<lambda>out l. out * (1 - l)) output labels)
           else if k = ''std0''
             then sum_list (map (\<lambda>x. x\<^sup>2) (map2 (\<lambda>out l. out * (1 - l)) output labels))
           else 0))"
  unfolding Statistics_update_def Let_def
  apply (simp only: mode.simps if_False sum.case)
  apply (rule exI, rule conjI, rule refl)
  apply (simp add: set_buffer_fields)
  done


text \<open>
  Claim C10, as amended. When the batch that \<open>_update_buffer\<close> counts completes the
  window (\<open>nbdisplay > 0\<close>), the buffered statistics are normalized (\<open>normalized\<close>), and
  the buffers and the batch counter of the mode are reset to zero. In mode \<open>train\<close> the
  normalized value of each of the six statistics is appended to its file and a line with
  the six is printed. In mode \<open>test\<close> no file is written, and the line printed leaves
  out the loss.
\<close>

theorem update_buffer_window:
  assumes "stats self = [''loss'', ''kernel'', ''avg0'', ''avg1'', ''std0'', ''std1'']"
    and "0 < nbdisplay self"
    and "nbdisplay self \<le> nb_batch_in_buffer self m + 1"
  shows "\<exists>self'. update_buffer self m = Inr self' \<and>
     nb_batch_in_buffer self' m = 0 \<and>
     list_all (\<lambda>k. buffer self' m k = 0) (stats self @ [''nb_ones'', ''nb_zero'']) \<and>
     (m = Train \<longrightarrow>
        list_all (\<lambda>stat. files self' (stat @ ''.csv'') =
                          files self (stat @ ''.csv'') @ [normalized self m stat]) (stats self) \<and>
        files self' ''loss_step.csv'' = files self ''loss_step.csv'' \<and>
        printed self' = printed self @
          [(nb_events_seen self m, map (\<lambda>stat. (stat, normalized self m stat)) (stats self))]) \<and>
     (m = Test \<longrightarrow>
        files self' = files self \<and>
        printed self' = printed self @
          [(nb_events_seen self m,
            map (\<lambda>stat. (stat, normalized self m stat))
              [''kernel'', ''avg0'', ''avg1'', ''std0'', ''std1''])])"
  using update_buffer_complete[OF assms] .

text \<open>The theorem at a new \<open>Statistics\<close> with a window of one batch, in both modes.\<close>

theorem update_buffer_window_witness:
  "stats (Statistics_init 1 1) = [''loss'', ''kernel'', ''avg0'', ''avg1'', ''std0'', ''std1''] \<and>
   0 < nbdisplay (Statistics_init 1 1) \<and>
   nbdisplay (Statistics_init 1 1) \<le> nb_batch_in_buffer (Statistics_init 1 1) Train + 1 \<and>
   nbdisplay (Statistics_init 1 1) \<le> nb_batch_in_buffer (Statistics_init 1 1) Test + 1 \<and>
   (\<exists>self'. update_buffer (Statistics_init 1 1) Train = Inr self' \<and>
      nb_batch_in_buffer self' Train = 0 \<and>
      list_all (\<lambda>stat. files self' (stat @ ''.csv'') =
                  files (Statistics_init 1 1) (stat @ ''.csv'') @
                    [normalized (Statistics_init 1 1) Train stat])
        (stats (Statistics_init 1 1))) \<and>
   (\<exists>self'. update_buffer (Statistics_init 1 1) Test = Inr self' \<and>
      nb_batch_in_buffer self' Test = 0 \<and>
      files self' = files (Statistics_init 1 1))"
proof -
  let ?S = "Statistics_init 1 1"
  have h: "stats ?S = [''loss'', ''kernel'', ''avg0'', ''avg1'', ''std0'', ''std1'']"
    "0 < nbdisplay ?S"
    and t: "nbdisplay ?S \<le> nb_batch_in_buffer ?S Train + 1"
    and e: "nbdisplay ?S \<le> nb_batch_in_buffer ?S Test + 1"
    by (simp_all add: Statistics_init_fields)
  note A = update_buffer_window[OF h t]
  note B = update_buffer_window[OF h e]
  show ?thesis using h t e A B by blast
qed

text \<open>
  The claim as it is written fails in mode \<open>test\<close>: after one test batch with a window
  of one batch, the window is complete (the counter is reset and the line is printed),
  and no file has received a value.
\<close>

theorem Statistics_update_test_writes_nothing:
  "\<not> isl (Statistics_update (Statistics_init 1 1) Test [1 / 2] [1] (3 / 10) (1 / 10)) \<and>
   nb_batch_in_buffer
     (projr (Statistics_update (Statistics_init 1 1) Test [1 / 2] [1] (3 / 10) (1 / 10))) Test = 0 \<and>
   files (projr (Statistics_update (Statistics_init 1 1) Test [1 / 2] [1] (3 / 10) (1 / 10)))
     = (\<lambda>f. []) \<and>
   printed (projr (Statistics_update (Statistics_init 1 1) Test [1 / 2] [1] (3 / 10) (1 / 10)))
     = [(1, [(''kernel'', 1 / 10), (''avg0'', 0), (''avg1'', 1 / 2), (''std0'', 0),
             (''std1'', 0)])]"
proof -
  let ?S = "Statistics_init 1 1"
  obtain U where
    u: "Statistics_update ?S Test [1 / 2] [1] (3 / 10) (1 / 10) = update_buffer U Test"
      "stats U = stats ?S" "nbdisplay U = nbdisplay ?S"
      "nb_batch_in_buffer U = nb_batch_in_buffer ?S" "files U = files ?S"
      "printed U = printed ?S"
      "nb_events_seen U Test = nb_events_seen ?S Test + length [1::real]"
    and b: "\<forall>k. buffer U Test k = buffer ?S Test k +
          (if k = ''loss'' then 3 / 10
           else if k = ''kernel'' then 1 / 10
           else if k = ''nb_ones'' then sum_list [1]
           else if k = ''avg1'' then sum_list (map2 (*) [1 / 2] [1])
           else if k = ''std1'' then sum_list (map (\<lambda>x. x\<^sup>2) (map2 (*) [1 / 2] [1]))
           else if k = ''nb_zero'' then sum_list (map (\<lambda>l. 1 - l) [1])
           else if k = ''avg0'' then sum_list (map2 (\<lambda>out l. out * (1 - l)) [1 / 2] [1])
           else if k = ''std0''
             then sum_list (map (\<lambda>x. x\<^sup>2) (map2 (\<lambda>out l. out * (1 - l)) [1 / 2] [1]))
           else 0)"
    using Statistics_update_Test[of ?S "[1 / 2]" "[1]" "3 / 10" "1 / 10"] by blast
  have h: "stats U = [''loss'', ''kernel'', ''avg0'', ''avg1'', ''std0'', ''std1'']"
    "0 < nbdisplay U" "nbdisplay U \<le> nb_batch_in_buffer U Test + 1"
    by (simp_all add: u Statistics_init_fields)
  from update_buffer_complete[OF h] obtain self' where
    r: "update_buffer U Test = Inr self'" "nb_batch_in_buffer self' Test = 0"
      "files self' = files U"
      "printed self' = printed U @
          [(nb_events_seen U Test,
            map (\<lambda>stat. (stat, normalized U Test stat))
              [''kernel'', ''avg0'', ''avg1'', ''std0'', ''std1''])]"
    by blast
  have n: "normalized U Test ''kernel'' = 1 / 10" "normalized U Test ''avg0'' = 0"
    "normalized U Test ''avg1'' = 1 / 2" "normalized U Test ''std0'' = 0"
    "normalized U Test ''std1'' = 0"
    by (simp_all add: normalized_def Let_def b u Statistics_init_fields power2_eq_square)
  show ?thesis
    by (simp only: u(1) r(1)) (simp add: r n u Statistics_init_fields)
qed

section \<open>GraphNorm: the axes of the mean and of the variance\<close>

text \<open>
  Facts on the mean and the variance of a list of real numbers: centring gives mean 0,
  and dividing the centred values by \<open>d\<close> divides the variance by \<open>d\<^sup>2\<close>.
\<close>

lemma sum_list_centered:
  assumes "xs \<noteq> []"
  shows "sum_list (map (\<lambda>x. x - mean_list xs) xs) = 0"
proof -
  have "sum_list (map (\<lambda>x. x - c) xs) = sum_list xs - real (length xs) * c" for c :: real
    by (induction xs) (simp_all add: algebra_simps)
  then show ?thesis using assms by (simp add: mean_list_def)
qed

lemma sum_list_div: "sum_list (map (\<lambda>x. f x / c) xs) = sum_list (map f xs) / (c::real)"
  by (induction xs) (simp_all add: add_divide_distrib)

lemma variance_nonneg: "0 \<le> variance xs"
  by (auto simp: variance_def mean_list_def intro!: divide_nonneg_nonneg sum_list_nonneg)

lemma variance_zero:
  assumes "xs \<noteq> []" "variance xs = 0"
  shows "\<forall>x\<in>set xs. x - mean_list xs = 0"
proof -
  have "sum_list (map (\<lambda>x. (x - mean_list xs)\<^sup>2) xs) = 0"
    using assms by (simp add: variance_def mean_list_def)
  then have "\<forall>y\<in>set (map (\<lambda>x. (x - mean_list xs)\<^sup>2) xs). y = 0"
    by (subst (asm) sum_list_nonneg_eq_0_iff) auto
  then show ?thesis by auto
qed

lemma norm_row_props:
  fixes row :: "real list"
  assumes ne: "row \<noteq> []" and d: "0 < d"
  defines "out \<equiv> map (\<lambda>x. (x - mean_list row) / d) row"
  shows "mean_list out = 0" "variance out = variance row / d\<^sup>2"
proof -
  have s: "sum_list out = 0"
    unfolding out_def using sum_list_centered[OF ne] by (simp add: sum_list_div)
  then show m: "mean_list out = 0" by (simp add: mean_list_def)
  have "variance out = mean_list (map (\<lambda>x. (x - mean_list row)\<^sup>2 / d\<^sup>2) row)"
    by (simp add: variance_def m) (simp add: out_def comp_def power_divide)
  also have "\<dots> = variance row / d\<^sup>2"
    by (simp add: mean_list_def variance_def sum_list_div)
  finally show "variance out = variance row / d\<^sup>2" .
qed

lemma ratio_bounds:
  fixes v e :: real
  assumes v: "0 < v" and e: "0 \<le> e"
  shows "v / (sqrt v + e)\<^sup>2 \<le> 1" "1 - 2 * e / sqrt v \<le> v / (sqrt v + e)\<^sup>2"
proof -
  define r where "r = sqrt v"
  have r: "0 < r" "r\<^sup>2 = v" using v by (simp_all add: r_def)
  have pos: "0 < (r + e)\<^sup>2" using r e by (simp add: add_pos_nonneg)
  have "v \<le> (r + e)\<^sup>2"
  proof -
    have "(r + e)\<^sup>2 = v + (2 * r * e + e\<^sup>2)" using r(2) by (simp add: power2_sum)
    moreover have "0 \<le> 2 * r * e + e\<^sup>2" using r(1) e by simp
    ultimately show ?thesis by simp
  qed
  then show "v / (sqrt v + e)\<^sup>2 \<le> 1" using pos by (simp add: r_def)
  have "(1 - 2 * e / r) * (r + e)\<^sup>2 \<le> v"
  proof -
    have "(1 - 2 * e / r) * (r + e)\<^sup>2 = (r - 2 * e) * (r + e)\<^sup>2 / r"
      using r(1) by (simp add: field_simps)
    also have "(r - 2 * e) * (r + e)\<^sup>2 = r * r\<^sup>2 - (3 * r * e\<^sup>2 + 2 * e * e\<^sup>2)"
      by (simp add: power2_eq_square algebra_simps)
    also have "(r * r\<^sup>2 - (3 * r * e\<^sup>2 + 2 * e * e\<^sup>2)) / r \<le> r * r\<^sup>2 / r"
    proof -
      have "0 \<le> 3 * r * e\<^sup>2 + 2 * e * e\<^sup>2" using r(1) e by (intro add_nonneg_nonneg mult_nonneg_nonneg) simp_all
      then have "r * r\<^sup>2 - (3 * r * e\<^sup>2 + 2 * e * e\<^sup>2) \<le> r * r\<^sup>2" by linarith
      then show ?thesis using r(1) by (intro divide_right_mono) simp_all
    qed
    also have "r * r\<^sup>2 / r = v" using r by simp
    finally show ?thesis .
  qed
  then show "1 - 2 * e / sqrt v \<le> v / (sqrt v + e)\<^sup>2"
    using pos by (simp add: r_def pos_le_divide_eq)
qed

lemma variance_pair: "variance [a, b] = ((a - b) / 2)\<^sup>2"
  by (simp add: variance_def mean_list_def power2_eq_square field_simps)

text \<open>
  One graph with one feature map: there \<open>expand_as\<close> repeats the one mean and the one
  variance along the nodes, and \<open>forward\<close> centres the row and divides it by
  \<open>sqrt (variance + var_protect) + epsilon\<close>.
\<close>

lemma fl_sum_Fin_aux: "foldl fl_add (Fin a) (map Fin xs) = Fin (a + sum_list xs)"
  by (induction xs arbitrary: a) (simp_all add: add.assoc)

lemma fl_sum_Fin: "fl_sum (map Fin xs) = Fin (sum_list xs)"
  by (simp add: fl_sum_def fl_sum_Fin_aux)

lemma mean_row_Fin:
  assumes "xs \<noteq> []"
  shows "fl_div_nat (fl_sum (map Fin xs)) (length (map Fin xs)) = Fin (mean_list xs)"
  using assms by (simp add: fl_sum_Fin mean_list_def)

lemma mean2_single:
  assumes "xs \<noteq> []"
  shows "mean2 [[map Fin xs]] = [[Fin (mean_list xs)]]"
  unfolding mean2_def using mean_row_Fin[OF assms] by simp

lemma expand3_single: "expand3 [[x]] 1 1 n = Inr [[replicate n x]]"
  by (cases "n = 1") (simp_all add: expand3_def ncols_def)

lemma sizes_single:
  "size0 [[row]] = 1" "size1 [[row]] = 1" "size2 [[row]] = length row"
  by (simp_all add: size0_def size1_def size2_def)

lemma emb_norm_single:
  assumes ne: "xs \<noteq> []" and eps: "0 \<le> epsilon self"
  shows "emb_norm self [[map Fin xs]] =
           Inr [[map (\<lambda>x. Fin ((x - mean_list xs) /
                               (sqrt (variance xs + (if variance xs = 0 then 1 else 0))
                                  + epsilon self))) xs]]"
proof -
  let ?m = "mean_list xs"
  let ?v = "variance xs"
  let ?c = "map (\<lambda>x. Fin (x - ?m)) xs"
  let ?d = "sqrt (?v + (if ?v = 0 then 1 else 0)) + epsilon self"
  have c: "map2 (map2 (map2 fl_sub)) [[map Fin xs]] [[replicate (length xs) (Fin ?m)]] = [[?c]]"
    by (simp add: map2_replicate_right fl_sub_def comp_def)
  have sq: "map (map (map (\<lambda>x. fl_mul x x))) [[?c]] = [[map Fin (map (\<lambda>x. (x - ?m)\<^sup>2) xs)]]"
    by (simp add: comp_def power2_eq_square)
  have v: "mean2 (map (map (map (\<lambda>x. fl_mul x x))) [[?c]]) = [[Fin ?v]]"
    unfolding sq using mean2_single[of "map (\<lambda>x. (x - ?m)\<^sup>2) xs"] ne
    by (simp add: variance_def)
  have v0: "0 \<le> ?v"
    by (auto simp: variance_def mean_list_def intro!: divide_nonneg_nonneg sum_list_nonneg)
  have s: "map (map fl_sqrt) (map2 (map2 fl_add) [[Fin ?v]]
             (map (map (\<lambda>v. if v = Fin 0 then Fin 1 else Fin 0)) [[Fin ?v]]))
           = [[Fin (sqrt (?v + (if ?v = 0 then 1 else 0)))]]"
    using v0 by simp
  have dpos: "0 < ?d"
  proof (cases "?v = 0")
    case True then show ?thesis using eps by simp
  next
    case False
    then have "0 < sqrt ?v" using v0 by simp
    then have "0 < sqrt ?v + epsilon self" using eps by (rule add_pos_nonneg)
    then show ?thesis using False by simp
  qed
  have q: "map2 (map2 (map2 (\<lambda>x d. fl_div x (fl_add d (Fin (epsilon self))))))
             [[?c]] [[replicate (length xs) (Fin (sqrt (?v + (if ?v = 0 then 1 else 0))))]]
           = [[map (\<lambda>x. Fin ((x - ?m) / ?d)) xs]]"
    using dpos by (simp add: map2_replicate_right comp_def)
  show ?thesis
    unfolding emb_norm_def Let_def
    by (simp only: mean2_single[OF ne] sizes_single length_map expand3_single sum.case c v s q)
qed

text \<open>
  On a tensor of shape \<open>(b, f, n)\<close> the expansion of the means raises unless \<open>b\<close> is 1 or
  \<open>f\<close>, and \<open>f\<close> is 1 or \<open>n\<close>: \<open>forward\<close> returns on no batch of two or more graphs
  unless \<open>b = f = n\<close>. With one graph and \<open>f = n > 1\<close> it returns, and subtracts from
  node \<open>k\<close> of every feature map the mean of feature map \<open>k\<close>.
\<close>

lemma mean2_shape:
  assumes sh: "has_shape b f n emb" and b: "0 < b"
  shows "length (mean2 emb) = b" and "ncols (mean2 emb) = f"
proof -
  show "length (mean2 emb) = b" using has_shapeD(1)[OF sh] by (simp add: mean2_def)
  have ne: "mean2 emb \<noteq> []" using has_shapeD(1)[OF sh] b by (auto simp: mean2_def)
  have "\<forall>row\<in>set (mean2 emb). length row = f"
    using has_shapeD(2)[OF sh] by (auto simp: mean2_def)
  then show "ncols (mean2 emb) = f" by (rule ncols_shape[OF ne])
qed

lemma emb_norm_expand_raises:
  assumes sh: "has_shape b f n emb" and b: "0 < b" and f: "0 < f"
    and bad: "(b \<noteq> 1 \<and> b \<noteq> f) \<or> (f \<noteq> 1 \<and> f \<noteq> n)"
  shows "emb_norm self emb = Inl RuntimeError"
    and "GraphNorm_forward self emb = Inl RuntimeError"
proof -
  have s: "size0 emb = b" "size1 emb = f" "size2 emb = n"
    using has_shapeD(1)[OF sh] size1_shape[OF sh b] size2_shape[OF sh b f]
    by (simp_all add: size0_def)
  have "expand3 (mean2 emb) b f n = Inl RuntimeError"
    using bad by (auto simp: expand3_def mean2_shape[OF sh b])
  then show e: "emb_norm self emb = Inl RuntimeError"
    by (simp add: emb_norm_def Let_def s)
  show "GraphNorm_forward self emb = Inl RuntimeError"
    by (simp add: GraphNorm_forward_def e)
qed

lemma GraphNorm_wrong_axes_example:
  "emb_norm (GraphNorm_init 2 (1 / 100000) (\<lambda>i. Fin 1) (\<lambda>i. Fin 0))
       [[[Fin 0, Fin 2], [Fin 2, Fin 4]]]
     = Inr [[[Fin (- (100000 / 100001)), Fin (- (100000 / 100001))],
             [Fin (100000 / 100001), Fin (100000 / 100001)]]]"
proof -
  let ?emb = "[[[Fin 0, Fin 2], [Fin 2, Fin 4]]]"
  have s: "size0 ?emb = 1" "size1 ?emb = 2" "size2 ?emb = 2"
    by (simp_all add: size0_def size1_def size2_def)
  have m: "mean2 ?emb = [[Fin 1, Fin 3]]" by (simp add: mean2_def fl_sum_def)
  have e: "expand3 [[Fin 1, Fin 3]] 1 2 2 = Inr [[[Fin 1, Fin 3], [Fin 1, Fin 3]]]"
    by (simp add: expand3_def ncols_def numeral_2_eq_2)
  have c: "map2 (map2 (map2 fl_sub)) ?emb [[[Fin 1, Fin 3], [Fin 1, Fin 3]]]
             = [[[Fin (- 1), Fin (- 1)], [Fin 1, Fin 1]]]"
    by (simp add: fl_sub_def)
  let ?c = "[[[Fin (- 1), Fin (- 1)], [Fin 1, Fin 1]]]"
  have sc: "size0 ?c = 1" "size1 ?c = 2" "size2 ?c = 2"
    by (simp_all add: size0_def size1_def size2_def)
  have v: "mean2 (map (map (map (\<lambda>x. fl_mul x x))) ?c) = [[Fin 1, Fin 1]]"
    by (simp add: mean2_def fl_sum_def)
  have r: "map (map fl_sqrt) (map2 (map2 fl_add) [[Fin 1, Fin 1]]
             (map (map (\<lambda>v. if v = Fin 0 then Fin 1 else Fin 0)) [[Fin 1, Fin 1]]))
           = [[Fin 1, Fin 1]]"
    by simp
  have e2: "expand3 [[Fin 1, Fin 1]] 1 2 2 = Inr [[[Fin 1, Fin 1], [Fin 1, Fin 1]]]"
    by (simp add: expand3_def ncols_def numeral_2_eq_2)
  have q: "map2 (map2 (map2 (\<lambda>x d. fl_div x (fl_add d (Fin (1 / 100000))))))
             ?c [[[Fin 1, Fin 1], [Fin 1, Fin 1]]]
           = [[[Fin (- (100000 / 100001)), Fin (- (100000 / 100001))],
               [Fin (100000 / 100001), Fin (100000 / 100001)]]]"
    by simp
  have eps: "epsilon (GraphNorm_init 2 (1 / 100000) (\<lambda>i. Fin 1) (\<lambda>i. Fin 0)) = 1 / 100000"
    by (simp add: GraphNorm_init_def)
  show ?thesis
    unfolding emb_norm_def Let_def
    by (simp only: m s e sum.case c sc v r e2 q eps)
qed

text \<open>
  Claim C6 does not hold of \<open>forward\<close> as it is written. On a batch of two graphs with one
  feature map, of variances 1 and 4, \<open>forward\<close> raises. On one graph with the feature maps
  \<open>[0, 2]\<close> and \<open>[2, 4]\<close>, both of variance 1, the means 1 and 3 are subtracted along
  the nodes and not along the feature maps: the output before \<open>alpha\<close> and \<open>beta\<close> (and
  after them, with \<open>alpha = 1\<close> and \<open>beta = 0\<close>) has the constant rows \<open>-100000/100001\<close>
  and \<open>100000/100001\<close>, of mean about -1 and 1 and of variance 0, where the claim says
  mean about 0 and variance about 1.
\<close>

theorem GraphNorm_forward_expands_on_wrong_axes:
  "variance [0, 2] = 1 \<and> variance [1, 5] = 4 \<and> variance [2, 4] = 1 \<and>
   GraphNorm_forward (GraphNorm_init 1 (1 / 100000) (\<lambda>i. Fin 1) (\<lambda>i. Fin 0))
       [[[Fin 0, Fin 2]], [[Fin 1, Fin 5]]]
     = Inl RuntimeError \<and>
   emb_norm (GraphNorm_init 2 (1 / 100000) (\<lambda>i. Fin 1) (\<lambda>i. Fin 0))
       [[[Fin 0, Fin 2], [Fin 2, Fin 4]]]
     = Inr [[[Fin (- (100000 / 100001)), Fin (- (100000 / 100001))],
             [Fin (100000 / 100001), Fin (100000 / 100001)]]] \<and>
   GraphNorm_forward (GraphNorm_init 2 (1 / 100000) (\<lambda>i. Fin 1) (\<lambda>i. Fin 0))
       [[[Fin 0, Fin 2], [Fin 2, Fin 4]]]
     = Inr [[[Fin (- (100000 / 100001)), Fin (- (100000 / 100001))],
             [Fin (100000 / 100001), Fin (100000 / 100001)]]] \<and>
   mean_list [- (100000 / 100001), - (100000 / 100001)] = - (100000 / 100001) \<and>
   variance [- (100000 / 100001), - (100000 / 100001)] = 0 \<and>
   mean_list [100000 / 100001, 100000 / 100001] = 100000 / 100001 \<and>
   variance [100000 / 100001, 100000 / 100001] = 0"
proof -
  let ?emb2 = "[[[Fin 0, Fin 2]], [[Fin 1, Fin 5]]]"
  have v: "variance [0, 2] = 1" "variance [1, 5] = 4" "variance [2, 4] = 1"
    "variance [- (100000 / 100001), - (100000 / 100001)] = 0"
    "variance [100000 / 100001, 100000 / 100001] = 0"
    by (simp_all add: variance_pair power2_eq_square)
  have m: "mean_list [- (100000 / 100001), - (100000 / 100001)] = - (100000 / 100001)"
    "mean_list [100000 / 100001, 100000 / 100001] = 100000 / 100001"
    by (simp_all add: mean_list_def)
  have sh: "has_shape 2 1 2 ?emb2" by (simp add: has_shape_def)
  have bad: "((2::nat) \<noteq> 1 \<and> (2::nat) \<noteq> 1) \<or> ((1::nat) \<noteq> 1 \<and> (1::nat) \<noteq> 2)" by simp
  have r: "GraphNorm_forward (GraphNorm_init 1 (1 / 100000) (\<lambda>i. Fin 1) (\<lambda>i. Fin 0)) ?emb2
             = Inl RuntimeError"
    by (rule emb_norm_expand_raises(2)[OF sh _ _ bad]) simp_all
  note e = GraphNorm_wrong_axes_example
  have f: "GraphNorm_forward (GraphNorm_init 2 (1 / 100000) (\<lambda>i. Fin 1) (\<lambda>i. Fin 0))
       [[[Fin 0, Fin 2], [Fin 2, Fin 4]]]
     = Inr [[[Fin (- (100000 / 100001)), Fin (- (100000 / 100001))],
             [Fin (100000 / 100001), Fin (100000 / 100001)]]]"
    unfolding GraphNorm_forward_def
    by (simp only: e sum.case) (simp add: GraphNorm_init_def numeral_2_eq_2)
  show ?thesis
    by (intro conjI) (fact v m r e f)+
qed

text \<open>
  Where the expansion is the intended one (one graph, one feature map, \<open>epsilon\<close> not
  negative) the output is finite, of mean 0 and of variance \<open>v / (sqrt v + epsilon)\<^sup>2\<close>
  for an input of variance \<open>v\<close> other than 0, which lies between
  \<open>1 - 2 * epsilon / sqrt v\<close> and 1; for \<open>v = 0\<close> the guard makes the divisor
  \<open>1 + epsilon\<close> and the output is the list of zeros, also with \<open>epsilon = 0\<close>. With
  \<open>epsilon = 1e-5\<close> the row \<open>[1e-5, -1e-5]\<close> is normalised to \<open>[1/2, -1/2]\<close>, of
  variance 1/4.
\<close>

lemma GraphNorm_single_feature_moments:
  assumes ne: "xs \<noteq> []" and eps: "0 \<le> epsilon self"
  shows "\<exists>out. emb_norm self [[map Fin xs]] = Inr [[map Fin out]] \<and>
           length out = length xs \<and>
           (variance xs \<noteq> 0 \<longrightarrow>
              mean_list out = 0 \<and>
              variance out = variance xs / (sqrt (variance xs) + epsilon self)\<^sup>2 \<and>
              variance out \<le> 1 \<and>
              1 - 2 * epsilon self / sqrt (variance xs) \<le> variance out) \<and>
           (variance xs = 0 \<longrightarrow> out = replicate (length xs) 0)"
proof -
  let ?v = "variance xs"
  let ?d = "sqrt (?v + (if ?v = 0 then 1 else 0)) + epsilon self"
  define out where "out = map (\<lambda>x. (x - mean_list xs) / ?d) xs"
  have v0: "0 \<le> ?v" by (rule variance_nonneg)
  have d: "0 < ?d"
  proof (cases "?v = 0")
    case True then show ?thesis using eps by simp
  next
    case False
    then have "0 < sqrt ?v" using v0 by simp
    then have "0 < sqrt ?v + epsilon self" using eps by (rule add_pos_nonneg)
    then show ?thesis using False by simp
  qed
  have e: "emb_norm self [[map Fin xs]] = Inr [[map Fin out]]"
    by (simp add: emb_norm_single[OF ne eps] out_def comp_def)
  have l: "length out = length xs" by (simp add: out_def)
  note P = norm_row_props[OF ne d]
  have nz: "mean_list out = 0 \<and> variance out = ?v / (sqrt ?v + epsilon self)\<^sup>2 \<and>
            variance out \<le> 1 \<and> 1 - 2 * epsilon self / sqrt ?v \<le> variance out"
    if "?v \<noteq> 0"
  proof -
    have vp: "0 < ?v" using that v0 by simp
    have "?d = sqrt ?v + epsilon self" using that by simp
    then have "variance out = ?v / (sqrt ?v + epsilon self)\<^sup>2"
      using P(2) by (simp only: out_def)
    then show ?thesis using P(1) ratio_bounds[OF vp eps] by (simp add: out_def)
  qed
  have z: "out = replicate (length xs) 0" if "?v = 0"
  proof -
    have "\<forall>x\<in>set xs. x - mean_list xs = 0" using variance_zero[OF ne that] .
    then have "map (\<lambda>x. (x - mean_list xs) / ?d) xs = map (\<lambda>x. 0) xs"
      by (intro map_cong) auto
    then show ?thesis by (simp add: out_def map_replicate_const)
  qed
  show ?thesis using e l nz z by blast
qed

lemma GraphNorm_guard_example:
  "emb_norm (GraphNorm_init 1 0 (\<lambda>i. Fin 1) (\<lambda>i. Fin 0)) [[[Fin 5, Fin 5]]]
     = Inr [[[Fin 0, Fin 0]]]"
proof -
  have v: "variance [5, 5] = 0" by (simp add: variance_pair)
  have m: "mean_list [5, 5] = 5" by (simp add: mean_list_def)
  have "emb_norm (GraphNorm_init 1 0 (\<lambda>i. Fin 1) (\<lambda>i. Fin 0)) [[map Fin [5, 5]]]
          = Inr [[[Fin 0, Fin 0]]]"
    by (subst emb_norm_single) (simp_all add: GraphNorm_init_def v m)
  then show ?thesis by simp
qed

lemma GraphNorm_small_variance_example:
  "variance [1 / 100000, - (1 / 100000)] = 1 / 10000000000 \<and>
   emb_norm (GraphNorm_init 1 (1 / 100000) (\<lambda>i. Fin 1) (\<lambda>i. Fin 0))
       [[[Fin (1 / 100000), Fin (- (1 / 100000))]]]
     = Inr [[[Fin (1 / 2), Fin (- (1 / 2))]]] \<and>
   variance [1 / 2, - (1 / 2)] = 1 / 4"
proof -
  have v: "variance [1 / 100000, - (1 / 100000)] = (1 / 100000)\<^sup>2"
    by (simp add: variance_pair)
  have m: "mean_list [1 / 100000, - (1 / 100000)] = 0" by (simp add: mean_list_def)
  have nz: "(1 / 100000 :: real)\<^sup>2 \<noteq> 0" by simp
  have sq: "sqrt ((1 / 100000)\<^sup>2) = 1 / 100000" by simp
  have "emb_norm (GraphNorm_init 1 (1 / 100000) (\<lambda>i. Fin 1) (\<lambda>i. Fin 0))
          [[map Fin [1 / 100000, - (1 / 100000)]]]
        = Inr [[[Fin (1 / 2), Fin (- (1 / 2))]]]"
    by (subst emb_norm_single) (simp_all only: v m nz sq if_False add_0_right, simp_all add: GraphNorm_init_def)
  then have e: "emb_norm (GraphNorm_init 1 (1 / 100000) (\<lambda>i. Fin 1) (\<lambda>i. Fin 0))
       [[[Fin (1 / 100000), Fin (- (1 / 100000))]]]
     = Inr [[[Fin (1 / 2), Fin (- (1 / 2))]]]" by simp
  have 1: "variance [1 / 100000, - (1 / 100000)] = 1 / 10000000000"
    by (simp add: v power2_eq_square)
  have 3: "variance [1 / 2, - (1 / 2)] = 1 / 4" by (simp add: variance_pair power2_eq_square)
  show ?thesis by (intro conjI) (fact 1 e 3)+
qed

end
